theory Spec2Isabelle
  imports Complex_Main "HOL-Library.Word"
begin

unbundle bit_operations_syntax

section \<open>The ASE parser (code/ASEParser.cpp)\<close>

text \<open>
  The parser walks a NUL-terminated character buffer with the pointer \<open>m_szFile\<close>.
  The model keeps the characters from the pointer onwards as a list; the end of the list
  is the terminating NUL. \<open>unsigned int\<close> is \<open>32 word\<close>.
\<close>

type_synonym uint = "32 word"

subsection \<open>Single precision numbers\<close>

text \<open>
  \<open>float\<close> is the single precision format IEEE 754 binary32: 24 significant bits, the
  exponents -126 to 127, subnormal numbers, the two infinities and the values that are not
  a number. A finite number is kept as its value (the two zeros are not told apart), an
  infinity as its sign, true for the negative one.
\<close>

datatype float = Finite real | Infinity bool | NaN

instantiation float :: "{zero, one}"
begin

definition zero_float :: float where
  "zero_float = Finite 0"

definition one_float :: float where
  "one_float = Finite 1"

instance ..

end

text \<open>
  The exponent of the numbers around \<open>a\<close>, for \<open>a\<close> not negative: the largest
  \<open>e\<close> from -125 to the bound with \<open>2 ^ e \<le> a\<close>, and -126 when there is none (the
  smallest normal numbers and the subnormal ones have the same spacing).
\<close>

fun float_exponent_upto :: "nat \<Rightarrow> real \<Rightarrow> int" where
  "float_exponent_upto 0 a = - 126"
| "float_exponent_upto (Suc k) a =
     (if 2 ^ Suc k \<le> a * 2 ^ 126 then int (Suc k) - 126 else float_exponent_upto k a)"

definition float_exponent :: "real \<Rightarrow> int" where
  "float_exponent x = float_exponent_upto 253 \<bar>x\<bar>"

text \<open>The nearest integer, the even one of the two when they are equally near.\<close>

definition round_to_even :: "real \<Rightarrow> int" where
  "round_to_even m =
     (let r = \<lfloor>m\<rfloor> in
      if m - of_int r < 1 / 2 then r
      else if 1 / 2 < m - of_int r then r + 1
      else if even r then r else r + 1)"

text \<open>
  Rounding to the nearest multiple of the unit in the last place, \<open>2 ^ (e - 23)\<close> for
  the exponent \<open>e\<close>; a result of magnitude \<open>2 ^ 128\<close> or more is beyond the largest
  finite number and is the infinity of its sign.
\<close>

definition float_round :: "real \<Rightarrow> real" where
  "float_round x =
     (let e = float_exponent x in
      if e \<le> 23 then of_int (round_to_even (x * 2 ^ nat (23 - e))) / 2 ^ nat (23 - e)
      else of_int (round_to_even (x / 2 ^ nat (e - 23))) * 2 ^ nat (e - 23))"

definition float_of_real :: "real \<Rightarrow> float" where
  "float_of_real x =
     (let y = float_round x in if 2 ^ 128 \<le> \<bar>y\<bar> then Infinity (x < 0) else Finite y)"

text \<open>
  The difference and the product of two numbers: the exact result, rounded; with an
  infinite operand the infinity of the right sign, and not a number for the difference of
  equal infinities, for zero times an infinity and for an operand that is not a number.
\<close>

definition float_sub :: "float \<Rightarrow> float \<Rightarrow> float" where
  "float_sub a b =
     (case (a, b) of
        (Finite x, Finite y) \<Rightarrow> float_of_real (x - y)
      | (Finite x, Infinity s) \<Rightarrow> Infinity (\<not> s)
      | (Infinity s, Finite y) \<Rightarrow> Infinity s
      | (Infinity s, Infinity t) \<Rightarrow> if s = t then NaN else Infinity s
      | _ \<Rightarrow> NaN)"

definition float_mul :: "float \<Rightarrow> float \<Rightarrow> float" where
  "float_mul a b =
     (case (a, b) of
        (Finite x, Finite y) \<Rightarrow> float_of_real (x * y)
      | (Finite x, Infinity s) \<Rightarrow> if x = 0 then NaN else Infinity (s \<noteq> (x < 0))
      | (Infinity s, Finite y) \<Rightarrow> if y = 0 then NaN else Infinity (s \<noteq> (y < 0))
      | (Infinity s, Infinity t) \<Rightarrow> Infinity (s \<noteq> t)
      | _ \<Rightarrow> NaN)"

type_synonym aiVector3D = "float \<times> float \<times> float"
type_synonym aiColor3D = "float \<times> float \<times> float"
type_synonym aiColor4D = "float \<times> float \<times> float \<times> float"

text \<open>
  How a call can end other than by returning: the exception thrown by \<open>LogError\<close>
  (with the line number and the message), and the three kinds of undefined behaviour the
  source can run into, which the model reports instead of hiding: a read beyond the
  terminating NUL, an index outside an array or vector, a shift by 32 or more.
\<close>

datatype failure =
    ImportErrorException uint string
  | ReadPastEnd
  | IndexOutOfRange
  | ShiftOutOfRange

text \<open>
  The members of \<open>Parser\<close> that every member function uses: the cursor, the line counter,
  and the messages handed to the logger by \<open>LogWarning\<close> (line number and text).
\<close>

record parser =
  m_szFile :: string
  iLineNumber :: uint
  warnings :: "(uint \<times> string) list"

definition LogWarning :: "string \<Rightarrow> parser \<Rightarrow> parser" where
  "LogWarning szWarn st = st\<lparr>warnings := warnings st @ [(iLineNumber st, szWarn)]\<rparr>"

definition LogError :: "string \<Rightarrow> parser \<Rightarrow> failure" where
  "LogError szWarn st = ImportErrorException (iLineNumber st) szWarn"

subsection \<open>Reading the buffer\<close>

abbreviation NUL :: char where
  "NUL \<equiv> CHR 0x00"

definition peek_str :: "string \<Rightarrow> char" where
  "peek_str s = (case s of [] \<Rightarrow> NUL | c # _ \<Rightarrow> c)"

text \<open>\<open>*m_szFile\<close>\<close>

definition peek :: "parser \<Rightarrow> char" where
  "peek st = peek_str (m_szFile st)"

text \<open>\<open>++m_szFile\<close>, only ever executed when \<open>*m_szFile\<close> is not NUL.\<close>

definition advance :: "parser \<Rightarrow> parser" where
  "advance st = st\<lparr>m_szFile := tl (m_szFile st)\<rparr>"

text \<open>
  \<open>0 == strncmp(a, b, n)\<close> of the C library: at most \<open>n\<close> characters are compared, and
  the comparison stops after a NUL found in both strings.
\<close>

fun strncmp_eq :: "string \<Rightarrow> string \<Rightarrow> nat \<Rightarrow> bool" where
  "strncmp_eq a b 0 = True"
| "strncmp_eq a b (Suc n) =
     (if peek_str a \<noteq> peek_str b then False
      else if peek_str a = NUL then True
      else strncmp_eq (tl a) (tl b) n)"

text \<open>
  \<open>strlen\<close>: the number of characters before the terminating NUL. The pointer may
  stand on any of them or on the NUL itself.
\<close>

definition strlen :: "string \<Rightarrow> nat" where
  "strlen s = length (takeWhile (\<lambda>c. c \<noteq> NUL) s)"

text \<open>
  \<open>0 == strncmp(m_szFile, lit, n) && IsSpaceOrNewLine(*(m_szFile + n))\<close>. When
  \<open>strncmp\<close> has matched through a NUL before position \<open>n\<close>, the second operand
  reads beyond the terminator.
\<close>

text \<open>
  Modelled from the spec: the character classification helpers of ParsingUtils.h, which is
  not among the sources. "A predicate for is whitespace or line terminator, a predicate
  for is a line terminator"; the terminating NUL ends the last line.
\<close>

definition IsSpace :: "char \<Rightarrow> bool" where
  "IsSpace c = (c = CHR '' '' \<or> c = CHR 0x09)"

definition IsLineEnd :: "char \<Rightarrow> bool" where
  "IsLineEnd c = (c = CHR 0x0D \<or> c = CHR 0x0A \<or> c = NUL)"

definition IsSpaceOrNewLine :: "char \<Rightarrow> bool" where
  "IsSpaceOrNewLine c = (IsSpace c \<or> IsLineEnd c)"

datatype token_match = NoMatch | Match | MatchPastEnd

definition TokenMatch :: "string \<Rightarrow> nat \<Rightarrow> parser \<Rightarrow> token_match" where
  "TokenMatch lit n st =
     (if \<not> strncmp_eq (m_szFile st) lit n then NoMatch
      else if strlen (m_szFile st) < n then MatchPastEnd
      else if IsSpaceOrNewLine (peek_str (drop n (m_szFile st))) then Match
      else NoMatch)"

text \<open>
  \<open>m_szFile += k\<close>. Every caller reads \<open>*m_szFile\<close> next, so moving the pointer
  beyond the terminating NUL is reported here.
\<close>

definition skip :: "nat \<Rightarrow> parser \<Rightarrow> failure + parser" where
  "skip k st =
     (if k \<le> strlen (m_szFile st) then Inr (st\<lparr>m_szFile := drop k (m_szFile st)\<rparr>)
      else Inl ReadPastEnd)"

text \<open>
  Modelled from the spec: \<open>SkipSpaces\<close> and \<open>SkipSpacesAndLineEnd\<close> of ParsingUtils.h
  (not among the sources), called as \<open>SkipSpaces(m_szFile, &m_szFile)\<close>: "skip runs of
  space/tab only (fails, returns false, if it hits end-of-input before a non-space)" and
  "skip runs of space/tab/line-ends (same failure policy)". The callers report the failure
  of the first as "unexpected EOL": it stops at the end of the line. Both are free
  functions of two pointers and cannot touch the line counter.
\<close>

definition SkipSpaces :: "parser \<Rightarrow> bool \<times> parser" where
  "SkipSpaces st =
     (let s = dropWhile IsSpace (m_szFile st)
      in (\<not> IsLineEnd (peek_str s), st\<lparr>m_szFile := s\<rparr>))"

definition SkipSpacesAndLineEnd :: "parser \<Rightarrow> bool \<times> parser" where
  "SkipSpacesAndLineEnd st =
     (let s = dropWhile (\<lambda>c. IsSpace c \<or> c = CHR 0x0D \<or> c = CHR 0x0A) (m_szFile st)
      in (peek_str s \<noteq> NUL, st\<lparr>m_szFile := s\<rparr>))"

text \<open>
  Modelled from the spec: \<open>strtol10\<close> of fast_atof.h (not among the sources): "parse one
  run of decimal digits starting at the cursor, returning the integer value and the resume
  position, with no special failure mode: a non-digit start yields 0 and an unmoved
  cursor". The value is an \<open>unsigned int\<close> and wraps around.
\<close>

definition is_digit :: "char \<Rightarrow> bool" where
  "is_digit c = (48 \<le> (of_char c :: nat) \<and> (of_char c :: nat) \<le> 57)"

definition digit_value :: "char \<Rightarrow> uint" where
  "digit_value c = of_nat ((of_char c :: nat) - 48)"

definition strtol10_str :: "string \<Rightarrow> uint \<times> string" where
  "strtol10_str s =
     (foldl (\<lambda>v c. v * 10 + digit_value c) 0 (takeWhile is_digit s), dropWhile is_digit s)"

definition strtol10 :: "parser \<Rightarrow> parser \<times> uint" where
  "strtol10 st = (let (v, s) = strtol10_str (m_szFile st) in (st\<lparr>m_szFile := s\<rparr>, v))"

text \<open>
  Modelled from the spec: \<open>fast_atof_move\<close> of fast_atof.h (not among the sources):
  "parse one floating-point literal similarly, returning the resume position": an
  optional minus sign, the integer digits, and after a decimal point the fraction digits
  and an optional exponent. The result is the \<open>float\<close> nearest to the value of the
  literal.
\<close>

definition fast_atof_exponent :: "real \<Rightarrow> string \<Rightarrow> real \<times> string" where
  "fast_atof_exponent f s =
     (if peek_str s = CHR ''e'' then
        (let einv = (peek_str (tl s) = CHR ''-'');
             s1 = (if einv then tl (tl s) else tl s);
             (e, s2) = strtol10_str s1
         in (if einv then f / 10 ^ unat e else f * 10 ^ unat e, s2))
      else (f, s))"

definition fast_atof_fraction :: "real \<Rightarrow> string \<Rightarrow> real \<times> string" where
  "fast_atof_fraction f s =
     (if peek_str s = CHR ''.'' then
        (let (pl, s1) = strtol10_str (tl s);
             f1 = f + real (unat pl) / 10 ^ (length (tl s) - length s1)
         in fast_atof_exponent f1 s1)
      else (f, s))"

definition fast_atof_move_str :: "string \<Rightarrow> float \<times> string" where
  "fast_atof_move_str s =
     (let inv = (peek_str s = CHR ''-'');
          s0 = (if inv then tl s else s);
          (i, s1) = strtol10_str s0;
          (f, s2) = fast_atof_fraction (real (unat i)) s1
      in (float_of_real (if inv then - f else f), s2))"

definition fast_atof_move :: "parser \<Rightarrow> parser \<times> float" where
  "fast_atof_move st =
     (let (f, s) = fast_atof_move_str (m_szFile st) in (st\<lparr>m_szFile := s\<rparr>, f))"

subsection \<open>Cursor primitives\<close>

definition SkipToNextToken :: "parser \<Rightarrow> bool \<times> parser" where
  "SkipToNextToken st =
     (let s = dropWhile (\<lambda>c. c \<noteq> CHR ''*'' \<and> c \<noteq> NUL) (m_szFile st)
      in (peek_str s = CHR ''*'', st\<lparr>m_szFile := s\<rparr>))"

definition SkipOpeningBracket :: "parser \<Rightarrow> bool \<times> parser" where
  "SkipOpeningBracket st =
     (case SkipSpaces st of
        (False, st1) \<Rightarrow> (False, st1)
      | (True, st1) \<Rightarrow>
          if peek st1 \<noteq> CHR ''{'' then
            (False, LogWarning ''Unable to parse block: Unexpected character, '{' expected [#1]'' st1)
          else (True, snd (SkipToNextToken st1)))"


lemma peek_advance [termination_simp]:
  "peek st \<noteq> NUL \<Longrightarrow> length (m_szFile (advance st)) < length (m_szFile st)"
  by (cases "m_szFile st") (simp_all add: peek_def peek_str_def advance_def)

lemma advance_line [simp]:
  "m_szFile (advance (st\<lparr>iLineNumber := n\<rparr>)) = m_szFile (advance st)"
  by (simp add: advance_def)

function SkipSection_loop :: "uint \<Rightarrow> parser \<Rightarrow> bool \<times> parser" where
  "SkipSection_loop iCnt st =
     (if peek st = CHR ''}'' then
        (if iCnt - 1 = 0 then (True, snd (SkipToNextToken (advance st)))
         else SkipSection_loop (iCnt - 1) (advance st))
      else if peek st = CHR ''{'' then SkipSection_loop (iCnt + 1) (advance st)
      else if peek st = NUL then
        (False, LogWarning ''Unable to parse block: Unexpected EOF, closing bracket '}' was expected [#1]'' st)
      else if IsLineEnd (peek st) then
        SkipSection_loop iCnt (advance (st\<lparr>iLineNumber := iLineNumber st + 1\<rparr>))
      else SkipSection_loop iCnt (advance st))"
  by pat_completeness auto
termination
  by (relation "measure (\<lambda>(iCnt, st). length (m_szFile st))") (auto simp: peek_advance)

declare SkipSection_loop.simps [simp del]

definition SkipSection :: "parser \<Rightarrow> bool \<times> parser" where
  "SkipSection st = SkipSection_loop 1 st"

subsection \<open>Value parsers\<close>

definition ParseLV4MeshLong :: "parser \<Rightarrow> parser \<times> uint" where
  "ParseLV4MeshLong st =
     (case SkipSpaces st of
        (False, st1) \<Rightarrow>
          (let st2 = LogWarning ''Unable to parse long: unexpected EOL [#1]'' st1
           in (st2\<lparr>iLineNumber := iLineNumber st2 + 1\<rparr>, 0))
      | (True, st1) \<Rightarrow>
          (let (st2, iOut) = strtol10 st1 in (snd (SkipToNextToken st2), iOut)))"

definition ParseLV4MeshFloat :: "parser \<Rightarrow> parser \<times> float" where
  "ParseLV4MeshFloat st =
     (case SkipSpaces st of
        (False, st1) \<Rightarrow>
          (let st2 = LogWarning ''Unable to parse float: unexpected EOL [#1]'' st1
           in (st2\<lparr>iLineNumber := iLineNumber st2 + 1\<rparr>, 0))
      | (True, st1) \<Rightarrow>
          (let (st2, fOut) = fast_atof_move st1 in (snd (SkipToNextToken st2), fOut)))"

definition ParseLV4MeshFloatTriple :: "parser \<Rightarrow> parser \<times> aiVector3D" where
  "ParseLV4MeshFloatTriple st =
     (case SkipSpaces st of
        (False, st1) \<Rightarrow>
          (let st2 = LogWarning ''Unable to parse float triple: unexpected EOL [#5]'' st1
           in (st2\<lparr>iLineNumber := iLineNumber st2 + 1\<rparr>, (0, 0, 0)))
      | (True, st1) \<Rightarrow>
          (let (st2, f0) = fast_atof_move st1 in
           case SkipSpaces st2 of
             (False, st3) \<Rightarrow>
               (let st4 = LogWarning ''Unable to parse float triple: unexpected EOL [#6]'' st3
                in (st4\<lparr>iLineNumber := iLineNumber st4 + 1\<rparr>, (f0, 0, 0)))
           | (True, st3) \<Rightarrow>
               (let (st4, f1) = fast_atof_move st3 in
                case SkipSpaces st4 of
                  (False, st5) \<Rightarrow>
                    (let st6 = LogWarning ''Unable to parse float triple: unexpected EOL [#7]'' st5
                     in (st6\<lparr>iLineNumber := iLineNumber st6 + 1\<rparr>, (f0, f1, 0)))
                | (True, st5) \<Rightarrow>
                    (let (st6, f2) = fast_atof_move st5
                     in (snd (SkipToNextToken st6), (f0, f1, f2))))))"

text \<open>The overload \<open>ParseLV4MeshFloatTriple(float*, unsigned int&)\<close>.\<close>

definition ParseLV4MeshFloatTriple_indexed :: "parser \<Rightarrow> parser \<times> aiVector3D \<times> uint" where
  "ParseLV4MeshFloatTriple_indexed st =
     (case SkipSpaces st of
        (False, st1) \<Rightarrow>
          (let st2 = LogWarning ''Unable to parse indexable float triple: unexpected EOL [#1]'' st1
           in (st2\<lparr>iLineNumber := iLineNumber st2 + 1\<rparr>, (0, 0, 0), 0))
      | (True, st1) \<Rightarrow>
          (let (st2, rIndexOut) = strtol10 st1;
               (st3, v) = ParseLV4MeshFloatTriple st2
           in (st3, v, rIndexOut)))"

definition ParseLV4MeshLongTriple :: "parser \<Rightarrow> parser \<times> (uint \<times> uint \<times> uint)" where
  "ParseLV4MeshLongTriple st =
     (case SkipSpaces st of
        (False, st1) \<Rightarrow>
          (let st2 = LogWarning ''Unable to parse indexable long triple: unexpected EOL [#1]'' st1
           in (st2\<lparr>iLineNumber := iLineNumber st2 + 1\<rparr>, (0, 0, 0)))
      | (True, st1) \<Rightarrow>
          (let (st2, a0) = strtol10 st1 in
           case SkipSpaces st2 of
             (False, st3) \<Rightarrow>
               (let st4 = LogWarning ''Unable to parse indexable long triple: unexpected EOL [#2]'' st3
                in (st4\<lparr>iLineNumber := iLineNumber st4 + 1\<rparr>, (a0, 0, 0)))
           | (True, st3) \<Rightarrow>
               (let (st4, a1) = strtol10 st3 in
                case SkipSpaces st4 of
                  (False, st5) \<Rightarrow>
                    (let st6 = LogWarning ''Unable to parse indexable long triple: unexpected EOL [#3]'' st5
                     in (st6\<lparr>iLineNumber := iLineNumber st6 + 1\<rparr>, (a0, a1, 0)))
                | (True, st5) \<Rightarrow>
                    (let (st6, a2) = strtol10 st5
                     in (snd (SkipSpacesAndLineEnd st6), (a0, a1, a2))))))"

text \<open>The overload \<open>ParseLV4MeshLongTriple(unsigned int*, unsigned int&)\<close>.\<close>

definition ParseLV4MeshLongTriple_indexed ::
  "parser \<Rightarrow> parser \<times> (uint \<times> uint \<times> uint) \<times> uint" where
  "ParseLV4MeshLongTriple_indexed st =
     (case SkipSpaces st of
        (False, st1) \<Rightarrow>
          (let st2 = LogWarning ''Unable to parse indexable long triple: unexpected EOL [#4]'' st1
           in (st2\<lparr>iLineNumber := iLineNumber st2 + 1\<rparr>, (0, 0, 0), 0))
      | (True, st1) \<Rightarrow>
          (let (st2, rIndexOut) = strtol10 st1;
               (st3, v) = ParseLV4MeshLongTriple st2
           in (st3, v, rIndexOut)))"


subsection \<open>The cursor only moves forward\<close>

text \<open>
  No primitive moves the cursor backwards. The termination proofs of the block loops rest on
  these facts.
\<close>

lemma len_dropWhile: "length (dropWhile P s) \<le> length s"
  by (induction s) auto

lemma strtol10_str_len: "strtol10_str s = (v, s') \<Longrightarrow> length s' \<le> length s"
  by (auto simp: strtol10_str_def len_dropWhile)

lemma fast_atof_exponent_len: "fast_atof_exponent f s = (g, s') \<Longrightarrow> length s' \<le> length s"
  by (auto simp: fast_atof_exponent_def Let_def split: if_splits prod.splits dest!: strtol10_str_len)

lemma fast_atof_fraction_len: "fast_atof_fraction f s = (g, s') \<Longrightarrow> length s' \<le> length s"
  by (auto simp: fast_atof_fraction_def Let_def split: if_splits prod.splits
      dest!: strtol10_str_len fast_atof_exponent_len)

lemma fast_atof_move_str_len: "fast_atof_move_str s = (g, s') \<Longrightarrow> length s' \<le> length s"
  by (auto simp: fast_atof_move_str_def Let_def split: if_splits prod.splits
      dest!: strtol10_str_len fast_atof_fraction_len)

lemma SkipSpaces_len: "SkipSpaces st = (b, st') \<Longrightarrow> length (m_szFile st') \<le> length (m_szFile st)"
  by (auto simp: SkipSpaces_def Let_def len_dropWhile)

lemma SkipSpacesAndLineEnd_len [simp]:
  "length (m_szFile st) \<le> n \<Longrightarrow> length (m_szFile (snd (SkipSpacesAndLineEnd st))) \<le> n"
  using len_dropWhile[of _ "m_szFile st"]
  by (auto simp: SkipSpacesAndLineEnd_def Let_def intro: le_trans)

lemma SkipToNextToken_len [simp]:
  "length (m_szFile st) \<le> n \<Longrightarrow> length (m_szFile (snd (SkipToNextToken st))) \<le> n"
  using len_dropWhile[of _ "m_szFile st"]
  by (auto simp: SkipToNextToken_def Let_def intro: le_trans)

lemma strtol10_len: "strtol10 st = (st', v) \<Longrightarrow> length (m_szFile st') \<le> length (m_szFile st)"
  by (auto simp: strtol10_def Let_def split: prod.splits dest!: strtol10_str_len)

lemma fast_atof_move_len:
  "fast_atof_move st = (st', v) \<Longrightarrow> length (m_szFile st') \<le> length (m_szFile st)"
  by (auto simp: fast_atof_move_def Let_def split: prod.splits dest!: fast_atof_move_str_len)

lemma LogWarning_m_szFile [simp]: "m_szFile (LogWarning w st) = m_szFile st"
  by (simp add: LogWarning_def)

lemma skip_len: "skip k st = Inr st' \<Longrightarrow> length (m_szFile st') \<le> length (m_szFile st)"
  by (auto simp: skip_def split: if_splits)

lemma advance_less:
  "length (m_szFile a) \<le> length (m_szFile st) \<Longrightarrow> peek a \<noteq> NUL \<Longrightarrow>
     length (m_szFile (advance a)) < length (m_szFile st)"
  using peek_advance[of a] by simp

lemma advance_le [simp]:
  "length (m_szFile a) \<le> n \<Longrightarrow> length (m_szFile (advance a)) \<le> n"
  by (cases "m_szFile a") (simp_all add: advance_def)

lemma advance_leD: "n \<le> length (m_szFile (advance a)) \<Longrightarrow> n \<le> length (m_szFile a)"
  by (cases "m_szFile a") (simp_all add: advance_def)

lemma SkipSpaces_len2 [simp]:
  "length (m_szFile st) \<le> n \<Longrightarrow> length (m_szFile (snd (SkipSpaces st))) \<le> n"
  using SkipSpaces_len[of st] by (cases "SkipSpaces st") auto

lemma SkipOpeningBracket_len [simp]:
  "length (m_szFile st) \<le> n \<Longrightarrow> length (m_szFile (snd (SkipOpeningBracket st))) \<le> n"
  by (auto simp: SkipOpeningBracket_def split: prod.splits bool.splits dest!: SkipSpaces_len)

lemma SkipSection_loop_len:
  "length (m_szFile (snd (SkipSection_loop iCnt st))) \<le> length (m_szFile st)"
proof (induction iCnt st rule: SkipSection_loop.induct)
  case (1 iCnt st)
  show ?case
  proof (cases "peek st = NUL")
    case True
    then show ?thesis by (subst SkipSection_loop.simps) simp
  next
    case False
    from peek_advance[OF False] have a: "length (m_szFile (advance st)) \<le> length (m_szFile st)"
      by simp
    from False a "1.IH" show ?thesis
      by (subst SkipSection_loop.simps) (auto intro: le_trans)
  qed
qed

lemma SkipSection_len [simp]:
  "length (m_szFile st) \<le> n \<Longrightarrow> length (m_szFile (snd (SkipSection st))) \<le> n"
  using SkipSection_loop_len[of 1 st] by (simp add: SkipSection_def)

lemma ParseLV4MeshLong_len:
  "ParseLV4MeshLong st = (st', v) \<Longrightarrow> length (m_szFile st') \<le> length (m_szFile st)"
  by (auto simp: ParseLV4MeshLong_def Let_def split: prod.splits bool.splits
      dest!: SkipSpaces_len strtol10_len)

lemma ParseLV4MeshFloat_len:
  "ParseLV4MeshFloat st = (st', v) \<Longrightarrow> length (m_szFile st') \<le> length (m_szFile st)"
  by (auto simp: ParseLV4MeshFloat_def Let_def split: prod.splits bool.splits
      dest!: SkipSpaces_len fast_atof_move_len)

lemma ParseLV4MeshFloatTriple_len:
  "ParseLV4MeshFloatTriple st = (st', v) \<Longrightarrow> length (m_szFile st') \<le> length (m_szFile st)"
  by (auto simp: ParseLV4MeshFloatTriple_def Let_def split: prod.splits bool.splits
      dest!: SkipSpaces_len fast_atof_move_len)

lemma ParseLV4MeshFloatTriple_indexed_len:
  "ParseLV4MeshFloatTriple_indexed st = (st', v) \<Longrightarrow>
     length (m_szFile st') \<le> length (m_szFile st)"
  by (auto simp: ParseLV4MeshFloatTriple_indexed_def Let_def split: prod.splits bool.splits
      dest!: SkipSpaces_len strtol10_len ParseLV4MeshFloatTriple_len)

lemma ParseLV4MeshLongTriple_len:
  "ParseLV4MeshLongTriple st = (st', v) \<Longrightarrow> length (m_szFile st') \<le> length (m_szFile st)"
  by (auto simp: ParseLV4MeshLongTriple_def Let_def split: prod.splits bool.splits
      dest!: SkipSpaces_len strtol10_len)

lemma ParseLV4MeshLongTriple_indexed_len:
  "ParseLV4MeshLongTriple_indexed st = (st', v) \<Longrightarrow>
     length (m_szFile st') \<le> length (m_szFile st)"
  by (auto simp: ParseLV4MeshLongTriple_indexed_def Let_def split: prod.splits bool.splits
      dest!: SkipSpaces_len strtol10_len ParseLV4MeshLongTriple_len)

subsection \<open>Keyword dispatch and vectors\<close>

text \<open>
  One branch of a dispatcher:
  \<open>if (0 == strncmp(m_szFile, lit, n) && IsSpaceOrNewLine(*(m_szFile + n)))
  { m_szFile += n + 1; body } else otherwise\<close>.
\<close>

definition on_token ::
  "string \<Rightarrow> nat \<Rightarrow> parser \<Rightarrow> (parser \<Rightarrow> failure + 'a) \<Rightarrow> (failure + 'a) \<Rightarrow> failure + 'a" where
  "on_token lit n st body otherwise =
     (case TokenMatch lit n st of
        NoMatch \<Rightarrow> otherwise
      | MatchPastEnd \<Rightarrow> Inl ReadPastEnd
      | Match \<Rightarrow> (case skip (n + 1) st of Inl e \<Rightarrow> Inl e | Inr st1 \<Rightarrow> body st1))"

text \<open>
  \<open>fwd n r\<close>: the call with result \<open>r\<close> either failed or left at most \<open>n\<close>
  characters after the cursor.
\<close>

definition fwd :: "nat \<Rightarrow> failure + parser \<times> 'a \<Rightarrow> bool" where
  "fwd n r = (case r of Inl e \<Rightarrow> True | Inr a \<Rightarrow> length (m_szFile (fst a)) \<le> n)"

lemma fwd_Inl [simp]: "fwd n (Inl e)"
  by (simp add: fwd_def)

lemma fwd_Inr [simp]: "fwd n (Inr (st, a)) = (length (m_szFile st) \<le> n)"
  by (simp add: fwd_def)

lemma fwd_mono: "fwd m r \<Longrightarrow> m \<le> n \<Longrightarrow> fwd n r"
  by (auto simp: fwd_def split: sum.splits)

lemma fwdD: "fwd n r \<Longrightarrow> r = Inr (st, a) \<Longrightarrow> length (m_szFile st) \<le> n"
  by simp

lemma on_token_fwd:
  assumes "\<And>st1. length (m_szFile st1) \<le> length (m_szFile st) \<Longrightarrow> fwd n (body st1)"
    and "fwd n other"
  shows "fwd n (on_token lit k st body other)"
  using assms by (auto simp: on_token_def split: token_match.splits sum.splits dest!: skip_len)

lemma on_token_fwd2:
  assumes "length (m_szFile st) \<le> n"
    and "\<And>st1. length (m_szFile st1) \<le> n \<Longrightarrow> fwd n (body st1)"
    and "fwd n other"
  shows "fwd n (on_token lit k st body other)"
  using assms by (auto simp: on_token_def split: token_match.splits sum.splits dest!: skip_len)

lemma fwd_bind:
  assumes "fwd n r" and "\<And>st a. length (m_szFile st) \<le> n \<Longrightarrow> fwd n (k st a)"
  shows "fwd n (case r of Inl e \<Rightarrow> Inl e | Inr (st, a) \<Rightarrow> k st a)"
  using assms by (auto split: sum.splits)

lemma on_token_cong [fundef_cong]:
  assumes "lit = lit'" "k = k'" "st = st'"
    and "\<And>st1. skip (k' + 1) st' = Inr st1 \<Longrightarrow> body st1 = body' st1"
    and "other = other'"
  shows "on_token lit k st body other = on_token lit' k' st' body' other'"
  using assms by (auto simp: on_token_def split: token_match.splits sum.splits)

text \<open>\<open>std::vector::resize\<close>, and an indexed write and read of a vector or array.\<close>

definition resize :: "nat \<Rightarrow> 'a \<Rightarrow> 'a list \<Rightarrow> 'a list" where
  "resize n dflt v = take n v @ replicate (n - length v) dflt"

definition vector_set :: "'a list \<Rightarrow> uint \<Rightarrow> 'a \<Rightarrow> failure + 'a list" where
  "vector_set v i a = (if unat i < length v then Inr (v[unat i := a]) else Inl IndexOutOfRange)"

definition vector_get :: "'a list \<Rightarrow> uint \<Rightarrow> failure + 'a" where
  "vector_get v i = (if unat i < length v then Inr (v ! unat i) else Inl IndexOutOfRange)"

subsection \<open>The scene data (ASEParser.h, not among the sources)\<close>

text \<open>
  Modelled from the spec: the maximum number of UV channels,
  \<open>AI_MAX_NUMBER_OF_TEXTURECOORDS\<close> of include/aiMesh.h (not among the sources): "up to a
  fixed maximum number of UV channels".
\<close>

definition AI_MAX_NUMBER_OF_TEXTURECOORDS :: uint where
  "AI_MAX_NUMBER_OF_TEXTURECOORDS = 4"

text \<open>
  Modelled from the spec: the structures \<open>Face\<close>, \<open>Mesh\<close>, \<open>Texture\<close> and
  \<open>Material\<close> of the headers, with the members the parser uses and the defaults the spec
  gives: smoothing mask 0 and material index 0 for a face, two components for every UV
  channel, empty arrays; offsets 0, tiling 1, rotation 0, blend 1 for a texture;
  Gouraud shading for a material. The member \<open>mName\<close> of a material is called
  \<open>mMaterialName\<close> here, to tell it from the member \<open>mName\<close> of a mesh.
\<close>

type_synonym uint3 = "uint \<times> uint \<times> uint"

record face =
  iFace :: uint
  mIndices :: uint3
  iSmoothGroup :: uint
  iMaterial :: uint
  amUVIndices :: "uint3 list"
  mColorIndices :: uint3

definition Face :: face where
  "Face = \<lparr>iFace = 0, mIndices = (0, 0, 0), iSmoothGroup = 0, iMaterial = 0,
     amUVIndices = replicate (unat AI_MAX_NUMBER_OF_TEXTURECOORDS) (0, 0, 0),
     mColorIndices = (0, 0, 0)\<rparr>"

datatype shading = Flat | Wire | Gouraud | Phong | Blinn

record texture =
  mMapName :: string
  mOffsetU :: float
  mOffsetV :: float
  mScaleU :: float
  mScaleV :: float
  mRotation :: float
  mTextureBlend :: float

definition Texture :: texture where
  "Texture = \<lparr>mMapName = [], mOffsetU = 0, mOffsetV = 0, mScaleU = 1, mScaleV = 1,
     mRotation = 0, mTextureBlend = 1\<rparr>"

text \<open>
  A material owns its sub-materials, which are materials again: the members other than
  \<open>avSubMaterials\<close> are a record, and the material is that record together with the
  vector of sub-materials.
\<close>

record material_members =
  mMaterialName :: string
  mAmbient :: aiColor3D
  mDiffuse :: aiColor3D
  mSpecular :: aiColor3D
  mEmissive :: aiColor3D
  mTransparency :: float
  mSpecularExponent :: float
  mShading :: shading
  sTexDiffuse :: texture
  sTexAmbient :: texture
  sTexSpecular :: texture
  sTexOpacity :: texture
  sTexEmissive :: texture
  sTexBump :: texture
  sTexShininess :: texture

datatype material = Members_SubMaterials (members: material_members) (avSubMaterials: "material list")

definition Material :: material where
  "Material = Members_SubMaterials
     \<lparr>mMaterialName = [], mAmbient = (0, 0, 0), mDiffuse = (0, 0, 0), mSpecular = (0, 0, 0),
      mEmissive = (0, 0, 0), mTransparency = 0, mSpecularExponent = 0, mShading = Gouraud,
      sTexDiffuse = Texture, sTexAmbient = Texture, sTexSpecular = Texture,
      sTexOpacity = Texture, sTexEmissive = Texture, sTexBump = Texture,
      sTexShininess = Texture\<rparr> []"

record mesh =
  mName :: string
  mTransform :: "aiVector3D \<times> aiVector3D \<times> aiVector3D \<times> aiVector3D"
  iMaterialIndex :: uint
  mPositions :: "aiVector3D list"
  mFaces :: "face list"
  mNormals :: "aiVector3D list"
  amTexCoords :: "aiVector3D list list"
  mNumUVComponents :: "uint list"
  mVertexColors :: "aiColor4D list"

definition Mesh :: mesh where
  "Mesh = \<lparr>mName = [], mTransform = ((1, 0, 0), (0, 1, 0), (0, 0, 1), (0, 0, 0)),
     iMaterialIndex = 0, mPositions = [], mFaces = [], mNormals = [],
     amTexCoords = replicate (unat AI_MAX_NUMBER_OF_TEXTURECOORDS) [],
     mNumUVComponents = replicate (unat AI_MAX_NUMBER_OF_TEXTURECOORDS) 2,
     mVertexColors = []\<rparr>"

subsection \<open>The closing part of every block loop\<close>

text \<open>
  Every block parser is a loop over the characters with a local depth counter, and every
  loop body ends with the same statements:
  \<open>if ('{' == *m_szFile) iDepth++;
  if ('}' == *m_szFile) { if (0 == --iDepth) { ++m_szFile; SkipToNextToken(); return; } }
  else if ('\0' == *m_szFile) { ... }
  else if (IsLineEnd(*m_szFile)) ++iLineNumber;
  ++m_szFile;\<close>
  They are modelled once. At the terminating NUL the blocks of level 2 and deeper throw
  (\<open>Some\<close> message), the blocks of level 1 and \<open>Parse\<close> return (\<open>None\<close>); in
  \<open>Parse\<close> the test for NUL is a plain \<open>if\<close>, which makes no difference since the
  character cannot be both a brace and NUL. The result says how the iteration ends: with
  \<open>None\<close> the function returns, with \<open>Some iDepth\<close> the loop goes round again.
\<close>

definition block_tail :: "string option \<Rightarrow> uint \<Rightarrow> parser \<Rightarrow> failure + parser \<times> uint option" where
  "block_tail eof iDepth st =
     (let iDepth1 = (if peek st = CHR ''{'' then iDepth + 1 else iDepth) in
      if peek st = CHR ''}'' then
        (if iDepth1 - 1 = 0 then Inr (snd (SkipToNextToken (advance st)), None)
         else Inr (advance st, Some (iDepth1 - 1)))
      else if peek st = NUL then
        (case eof of Some msg \<Rightarrow> Inl (LogError msg st) | None \<Rightarrow> Inr (st, None))
      else if IsLineEnd (peek st) then
        Inr (advance (st\<lparr>iLineNumber := iLineNumber st + 1\<rparr>), Some iDepth1)
      else Inr (advance st, Some iDepth1))"

text \<open>The loop of \<open>ParseLV3MeshNormalListBlock\<close> ends without the line counting.\<close>

definition block_tail_normals :: "string \<Rightarrow> uint \<Rightarrow> parser \<Rightarrow> failure + parser \<times> uint option" where
  "block_tail_normals msg iDepth st =
     (let iDepth1 = (if peek st = CHR ''{'' then iDepth + 1 else iDepth) in
      if peek st = CHR ''}'' then
        (if iDepth1 - 1 = 0 then Inr (snd (SkipToNextToken (advance st)), None)
         else Inr (advance st, Some (iDepth1 - 1)))
      else if peek st = NUL then Inl (LogError msg st)
      else Inr (advance st, Some iDepth1))"

lemma block_tail_again:
  "block_tail eof iDepth st = Inr (st', Some d) \<Longrightarrow>
     length (m_szFile st') < length (m_szFile st)"
  by (auto simp: block_tail_def Let_def peek_advance split: if_splits option.splits)

lemma block_tail_return:
  "block_tail eof iDepth st = Inr (st', None) \<Longrightarrow>
     length (m_szFile st') \<le> length (m_szFile st)"
  by (auto simp: block_tail_def Let_def split: if_splits option.splits)

lemma block_tail_normals_again:
  "block_tail_normals msg iDepth st = Inr (st', Some d) \<Longrightarrow>
     length (m_szFile st') < length (m_szFile st)"
  by (auto simp: block_tail_normals_def Let_def peek_advance split: if_splits)

lemma block_tail_normals_return:
  "block_tail_normals msg iDepth st = Inr (st', None) \<Longrightarrow>
     length (m_szFile st') \<le> length (m_szFile st)"
  by (auto simp: block_tail_normals_def Let_def split: if_splits)

lemma loop_step_less:
  "fwd (length (m_szFile st)) r \<Longrightarrow> r = Inr (st1, a) \<Longrightarrow>
     block_tail eof iDepth st1 = Inr (st2, Some d) \<Longrightarrow>
     length (m_szFile st2) < length (m_szFile st)"
  by (auto dest!: block_tail_again)

text \<open>
  An invariant of the data and the parser state that the keyword handlers and the closing
  part preserve holds when the loop returns. \<open>F\<close> is any function that satisfies the
  equation of a block loop.
\<close>

lemma block_loop_rule:
  fixes F :: "uint \<Rightarrow> 'a \<Rightarrow> parser \<Rightarrow> failure + parser \<times> 'a"
  assumes eq: "\<And>d a st. F d a st =
      (case tok a st of Inl e \<Rightarrow> Inl e
       | Inr (st1, a1) \<Rightarrow>
          (case tail d st1 of Inl e \<Rightarrow> Inl e
           | Inr (st2, None) \<Rightarrow> Inr (st2, a1)
           | Inr (st2, Some d1) \<Rightarrow> F d1 a1 st2))"
    and tok_fwd: "\<And>a st. fwd (length (m_szFile st)) (tok a st)"
    and tail_again: "\<And>d st st2 d1. tail d st = Inr (st2, Some d1) \<Longrightarrow>
           length (m_szFile st2) < length (m_szFile st)"
    and inv_tok: "\<And>a st st1 a1. I st a \<Longrightarrow> tok a st = Inr (st1, a1) \<Longrightarrow> I st1 a1"
    and inv_tail: "\<And>a st st2 od d. I st a \<Longrightarrow> tail d st = Inr (st2, od) \<Longrightarrow> I st2 a"
    and init: "I st a"
    and res: "F d a st = Inr (st', a')"
  shows "I st' a'"
  using init res
proof (induction "length (m_szFile st)" arbitrary: d a st rule: less_induct)
  case less
  from less.prems(2) obtain st1 a1 where t: "tok a st = Inr (st1, a1)"
    by (subst (asm) eq) (auto split: sum.splits)
  from tok_fwd[of st a] t have l1: "length (m_szFile st1) \<le> length (m_szFile st)" by simp
  from inv_tok[OF less.prems(1) t] have i1: "I st1 a1" .
  from less.prems(2) t obtain st2 od where b: "tail d st1 = Inr (st2, od)"
    by (subst (asm) eq) (auto split: sum.splits)
  from inv_tail[OF i1 b] have i2: "I st2 a1" .
  show ?case
  proof (cases od)
    case None
    with less.prems(2) t b have "st' = st2" "a' = a1"
      by (subst (asm) eq, simp)+
    with i2 show ?thesis by simp
  next
    case (Some d1)
    with less.prems(2) t b have r: "F d1 a1 st2 = Inr (st', a')"
      by (subst (asm) eq) simp
    from b Some tail_again have "length (m_szFile st2) < length (m_szFile st1)" by blast
    with l1 have "length (m_szFile st2) < length (m_szFile st)" by simp
    from less.hyps[OF this i2 r] show ?thesis .
  qed
qed

lemma block_tail_fwd:
  "length (m_szFile st) \<le> n \<Longrightarrow> block_tail eof d st = Inr (st2, od) \<Longrightarrow>
     length (m_szFile st2) \<le> n"
  by (cases od) (auto dest!: block_tail_again block_tail_return)

lemma block_loop_fwd:
  fixes F :: "uint \<Rightarrow> 'a \<Rightarrow> parser \<Rightarrow> failure + parser \<times> 'a"
  assumes eq: "\<And>d a st. F d a st =
      (case tok a st of Inl e \<Rightarrow> Inl e
       | Inr (st1, a1) \<Rightarrow>
          (case block_tail eof d st1 of Inl e \<Rightarrow> Inl e
           | Inr (st2, None) \<Rightarrow> Inr (st2, a1)
           | Inr (st2, Some d1) \<Rightarrow> F d1 a1 st2))"
    and tok_fwd: "\<And>a st. fwd (length (m_szFile st)) (tok a st)"
  shows "fwd (length (m_szFile st)) (F d a st)"
proof (cases "F d a st")
  case (Inr r)
  obtain st' a' where r: "r = (st', a')" by (cases r)
  have "length (m_szFile st') \<le> length (m_szFile st)"
    by (rule block_loop_rule[where F=F and tail="block_tail eof"
          and I="\<lambda>s a. length (m_szFile s) \<le> length (m_szFile st)",
          OF eq tok_fwd block_tail_again _ _ _ Inr[unfolded r]])
       (auto dest: fwdD[OF tok_fwd] block_tail_fwd)
  with Inr r show ?thesis by simp
qed simp

subsection \<open>The face record: \<open>ParseLV4MeshFace\<close>\<close>

text \<open>The \<open>switch\<close> on the label character: the slot of \<open>mIndices\<close> it names.\<close>

definition face_label :: "char \<Rightarrow> nat option" where
  "face_label c =
     (if c = CHR ''A'' \<or> c = CHR ''a'' then Some 0
      else if c = CHR ''B'' \<or> c = CHR ''b'' then Some 1
      else if c = CHR ''C'' \<or> c = CHR ''c'' then Some 2
      else None)"

text \<open>\<open>a[i] = v\<close> for an array of three.\<close>

definition set_index :: "nat \<Rightarrow> uint \<Rightarrow> uint3 \<Rightarrow> uint3" where
  "set_index i v a =
     (case a of (a0, a1, a2) \<Rightarrow>
        if i = 0 then (v, a1, a2) else if i = 1 then (a0, v, a2) else (a0, a1, v))"

text \<open>The body of the \<open>for\<close> loop: one labelled vertex reference.\<close>

definition ParseLV4MeshFace_index :: "parser \<Rightarrow> face \<Rightarrow> failure + parser \<times> face" where
  "ParseLV4MeshFace_index st out =
     (case SkipSpaces st of
        (False, st1) \<Rightarrow>
          Inl (LogError ''Unable to parse *MESH_FACE Element: Unexpected EOL. A,B or C expected [#3]'' st1)
      | (True, st1) \<Rightarrow>
          (case face_label (peek st1) of
             None \<Rightarrow>
               Inl (LogError ''Unable to parse *MESH_FACE Element: Unexpected EOL. A,B or C expected [#3]'' st1)
           | Some iIndex \<Rightarrow>
               (case SkipSpaces (advance st1) of
                  (ok, st2) \<Rightarrow>
                    if \<not> ok \<or> peek st2 \<noteq> CHR '':'' then
                      Inl (LogError ''Unable to parse *MESH_FACE Element: Unexpected EOL. ':' expected [#2]'' st2)
                    else
                      (case SkipSpaces (advance st2) of
                         (False, st3) \<Rightarrow>
                           Inl (LogError ''Unable to parse *MESH_FACE Element: Unexpected EOL. Vertex index ecpected [#4]'' st3)
                       | (True, st3) \<Rightarrow>
                           (let (st4, v) = strtol10 st3
                            in Inr (st4, out\<lparr>mIndices := set_index iIndex v (mIndices out)\<rparr>))))))"

text \<open>The \<open>for\<close> loop, with the number of iterations still to run.\<close>

fun ParseLV4MeshFace_indices :: "nat \<Rightarrow> parser \<Rightarrow> face \<Rightarrow> failure + parser \<times> face" where
  "ParseLV4MeshFace_indices 0 st out = Inr (st, out)"
| "ParseLV4MeshFace_indices (Suc k) st out =
     (case ParseLV4MeshFace_index st out of
        Inl e \<Rightarrow> Inl e
      | Inr (st1, out1) \<Rightarrow> ParseLV4MeshFace_indices k st1 out1)"

text \<open>
  The two loops that look for the next keyword on the line:
  \<open>while (true) { if ('*' == *m_szFile) break;
  if (IsLineEnd(*m_szFile)) { iLineNumber++; return; } m_szFile++; }\<close>.
  The result is true when the loop was left by \<open>break\<close>.
\<close>

definition skip_to_keyword_on_line :: "parser \<Rightarrow> bool \<times> parser" where
  "skip_to_keyword_on_line st =
     (let s = dropWhile (\<lambda>c. c \<noteq> CHR ''*'' \<and> \<not> IsLineEnd c) (m_szFile st) in
      if peek_str s = CHR ''*'' then (True, st\<lparr>m_szFile := s\<rparr>)
      else (False, st\<lparr>m_szFile := s, iLineNumber := iLineNumber st + 1\<rparr>))"

text \<open>
  The loop over the smoothing groups:
  \<open>out.iSmoothGroup |= (1 << strtol10(m_szFile, &m_szFile))\<close>. A shift by 32 or more
  is undefined.
\<close>

function ParseLV4MeshFace_smoothing :: "parser \<Rightarrow> face \<Rightarrow> failure + parser \<times> face" where
  "ParseLV4MeshFace_smoothing st out =
     (let (st1, g) = strtol10 st in
      if 32 \<le> unat g then Inl ShiftOutOfRange
      else
        (let out1 = out\<lparr>iSmoothGroup := iSmoothGroup out OR push_bit (unat g) 1\<rparr>;
             st2 = snd (SkipSpaces st1)
         in if peek st2 \<noteq> CHR '','' then Inr (st2, out1)
            else ParseLV4MeshFace_smoothing (snd (SkipSpaces (advance st2))) out1))"
  by pat_completeness auto
termination
  by (relation "measure (\<lambda>(st, out). length (m_szFile st))")
     (auto dest!: strtol10_len sym[of "(_, _)" "strtol10 _"] intro!: advance_less
        le_less_trans[OF SkipSpaces_len2[OF order_refl]])

declare ParseLV4MeshFace_smoothing.simps [simp del]

definition ParseLV4MeshFace_attributes :: "parser \<Rightarrow> face \<Rightarrow> failure + parser \<times> face" where
  "ParseLV4MeshFace_attributes st out =
     (case skip_to_keyword_on_line st of
        (False, st1) \<Rightarrow> Inr (st1, out)
      | (True, st1) \<Rightarrow>
          (case on_token ''*MESH_SMOOTHING'' 15 st1
                  (\<lambda>st2. case SkipSpaces st2 of
                       (False, st3) \<Rightarrow>
                         Inl (LogError ''Unable to parse *MESH_SMOOTHING Element: Unexpected EOL. Smoothing group(s) expected [#5]'' st3)
                     | (True, st3) \<Rightarrow> ParseLV4MeshFace_smoothing st3 out)
                  (Inr (st1, out)) of
             Inl e \<Rightarrow> Inl e
           | Inr (st4, out1) \<Rightarrow>
               (case skip_to_keyword_on_line st4 of
                  (False, st5) \<Rightarrow> Inr (st5, out1)
                | (True, st5) \<Rightarrow>
                    (case on_token ''*MESH_MTLID'' 11 st5
                            (\<lambda>st6. case SkipSpaces st6 of
                                 (False, st7) \<Rightarrow>
                                   Inl (LogError ''Unable to parse *MESH_MTLID Element: Unexpected EOL. Material index expected [#6]'' st7)
                               | (True, st7) \<Rightarrow>
                                   (let (st8, m) = strtol10 st7
                                    in Inr (st8, out1\<lparr>iMaterial := m\<rparr>)))
                            (Inr (st5, out1)) of
                       Inl e \<Rightarrow> Inl e
                     | Inr (st9, out2) \<Rightarrow> Inr (snd (SkipToNextToken st9), out2)))))"

definition ParseLV4MeshFace :: "parser \<Rightarrow> face \<Rightarrow> failure + parser \<times> face" where
  "ParseLV4MeshFace st out =
     (case SkipSpaces st of
        (False, st1) \<Rightarrow>
          Inl (LogError ''Unable to parse *MESH_FACE Element: Unexpected EOL [#1]'' st1)
      | (True, st1) \<Rightarrow>
          (let (st2, i) = strtol10 st1 in
           case SkipSpaces st2 of
             (ok, st3) \<Rightarrow>
               if \<not> ok \<or> peek st3 \<noteq> CHR '':'' then
                 Inl (LogError ''Unable to parse *MESH_FACE Element: Unexpected EOL. ':' expected [#2]'' st3)
               else
                 (case ParseLV4MeshFace_indices 3 (advance st3) (out\<lparr>iFace := i\<rparr>) of
                    Inl e \<Rightarrow> Inl e
                  | Inr (st4, out1) \<Rightarrow> ParseLV4MeshFace_attributes st4 out1)))"

lemma skip_to_keyword_on_line_len [simp]:
  "length (m_szFile st) \<le> n \<Longrightarrow> length (m_szFile (snd (skip_to_keyword_on_line st))) \<le> n"
  using len_dropWhile[of _ "m_szFile st"]
  by (auto simp: skip_to_keyword_on_line_def Let_def intro: le_trans)

lemma ParseLV4MeshFace_index_fwd:
  "length (m_szFile st) \<le> n \<Longrightarrow> fwd n (ParseLV4MeshFace_index st out)"
  by (auto simp: ParseLV4MeshFace_index_def Let_def split: prod.splits bool.splits option.splits
        dest!: SkipSpaces_len strtol10_len advance_leD)

lemma ParseLV4MeshFace_indices_fwd:
  "length (m_szFile st) \<le> n \<Longrightarrow> fwd n (ParseLV4MeshFace_indices k st out)"
proof (induction k arbitrary: st out)
  case (Suc k)
  from ParseLV4MeshFace_index_fwd[OF Suc.prems, of out] Suc.IH show ?case
    by (auto split: sum.splits)
qed simp

lemma ParseLV4MeshFace_smoothing_fwd:
  "length (m_szFile st) \<le> n \<Longrightarrow> fwd n (ParseLV4MeshFace_smoothing st out)"
proof (induction st out rule: ParseLV4MeshFace_smoothing.induct)
  case (1 st out)
  obtain st1 g where s: "strtol10 st = (st1, g)" by (cases "strtol10 st")
  from strtol10_len[OF s] "1.prems" have l: "length (m_szFile st1) \<le> n" by simp
  show ?case
    using "1.IH"[OF s[symmetric] refl _ refl refl] l s
    by (subst ParseLV4MeshFace_smoothing.simps) (auto simp: Let_def)
qed

lemma ParseLV4MeshFace_attributes_fwd:
  "length (m_szFile st) \<le> n \<Longrightarrow> fwd n (ParseLV4MeshFace_attributes st out)"
  unfolding ParseLV4MeshFace_attributes_def
  by (auto split: prod.splits bool.splits
      intro!: fwd_bind on_token_fwd2 ParseLV4MeshFace_smoothing_fwd
      dest!: SkipSpaces_len strtol10_len
      dest: skip_to_keyword_on_line_len[OF order_refl, THEN le_trans, rotated])
     (auto dest!: arg_cong[where f = snd] dest: skip_to_keyword_on_line_len[THEN le_trans])

lemma ParseLV4MeshFace_fwd:
  "length (m_szFile st) \<le> n \<Longrightarrow> fwd n (ParseLV4MeshFace st out)"
  unfolding ParseLV4MeshFace_def
  by (auto simp: Let_def split: prod.splits bool.splits
      intro!: fwd_bind ParseLV4MeshFace_attributes_fwd ParseLV4MeshFace_indices_fwd
      dest!: SkipSpaces_len strtol10_len)

subsection \<open>The list blocks of a mesh\<close>

text \<open>
  For each block parser, the \<open>_token\<close> function is the part of the loop body under
  \<open>if ('*' == *m_szFile)\<close>, and the \<open>_loop\<close> function is the loop, with its locals as
  arguments.
\<close>

definition ParseLV3MeshVertexListBlock_token ::
  "uint \<Rightarrow> mesh \<Rightarrow> parser \<Rightarrow> failure + parser \<times> mesh" where
  "ParseLV3MeshVertexListBlock_token iNumVertices mesh st =
     (if peek st = CHR ''*'' then
        on_token ''*MESH_VERTEX'' 12 st
          (\<lambda>st1. let (st2, vTemp, iIndex) = ParseLV4MeshFloatTriple_indexed st1 in
             if iIndex \<ge> iNumVertices then
               Inr (LogWarning ''Vertex has an invalid index. It will be ignored'' st2, mesh)
             else (case vector_set (mPositions mesh) iIndex vTemp of
                     Inl e \<Rightarrow> Inl e
                   | Inr v \<Rightarrow> Inr (st2, mesh\<lparr>mPositions := v\<rparr>)))
          (Inr (st, mesh))
      else Inr (st, mesh))"

lemma ParseLV3MeshVertexListBlock_token_fwd:
  "fwd (length (m_szFile st)) (ParseLV3MeshVertexListBlock_token n mesh st)"
  unfolding ParseLV3MeshVertexListBlock_token_def
  by (auto intro!: on_token_fwd simp: Let_def split: prod.splits sum.splits
        dest!: ParseLV4MeshFloatTriple_indexed_len)

function ParseLV3MeshVertexListBlock_loop ::
  "uint \<Rightarrow> uint \<Rightarrow> mesh \<Rightarrow> parser \<Rightarrow> failure + parser \<times> mesh" where
  "ParseLV3MeshVertexListBlock_loop iNumVertices iDepth mesh st =
     (case ParseLV3MeshVertexListBlock_token iNumVertices mesh st of
        Inl e \<Rightarrow> Inl e
      | Inr (st1, mesh1) \<Rightarrow>
          (case block_tail
                  (Some ''Unable to finish parsing a lv3 vertex list block. Unexpected EOF'')
                  iDepth st1 of
             Inl e \<Rightarrow> Inl e
           | Inr (st2, None) \<Rightarrow> Inr (st2, mesh1)
           | Inr (st2, Some iDepth1) \<Rightarrow>
               ParseLV3MeshVertexListBlock_loop iNumVertices iDepth1 mesh1 st2))"
  by pat_completeness auto
termination
  by (relation "measure (\<lambda>(n, d, m, st). length (m_szFile st))")
     (auto intro: loop_step_less[OF ParseLV3MeshVertexListBlock_token_fwd])

declare ParseLV3MeshVertexListBlock_loop.simps [simp del]

lemma ParseLV3MeshVertexListBlock_loop_fwd:
  "fwd (length (m_szFile st)) (ParseLV3MeshVertexListBlock_loop n d mesh st)"
  by (rule block_loop_fwd[OF ParseLV3MeshVertexListBlock_loop.simps
        ParseLV3MeshVertexListBlock_token_fwd])

definition ParseLV3MeshVertexListBlock :: "uint \<Rightarrow> mesh \<Rightarrow> parser \<Rightarrow> failure + parser \<times> mesh" where
  "ParseLV3MeshVertexListBlock iNumVertices mesh st =
     ParseLV3MeshVertexListBlock_loop iNumVertices 1
       (mesh\<lparr>mPositions := resize (unat iNumVertices) (0, 0, 0) (mPositions mesh)\<rparr>) st"


lemma ParseLV3MeshVertexListBlock_fwd:
  "fwd (length (m_szFile st)) (ParseLV3MeshVertexListBlock n mesh st)"
  by (simp add: ParseLV3MeshVertexListBlock_def ParseLV3MeshVertexListBlock_loop_fwd)


text \<open>\<open>ParseLV3MeshTListBlock\<close>; its parameter \<open>iChannel\<close> has the default value 0.\<close>

definition ParseLV3MeshTListBlock_token ::
  "uint \<Rightarrow> uint \<Rightarrow> mesh \<Rightarrow> parser \<Rightarrow> failure + parser \<times> mesh" where
  "ParseLV3MeshTListBlock_token iNumVertices iChannel mesh st =
     (if peek st = CHR ''*'' then
        on_token ''*MESH_TVERT'' 11 st
          (\<lambda>st1. let (st2, vTemp, iIndex) = ParseLV4MeshFloatTriple_indexed st1 in
             case (if iIndex \<ge> iNumVertices then
                     Inr (LogWarning ''Tvertex has an invalid index. It will be ignored'' st2, mesh)
                   else
                     (case vector_get (amTexCoords mesh) iChannel of
                        Inl e \<Rightarrow> Inl e
                      | Inr tc \<Rightarrow>
                          (case vector_set tc iIndex vTemp of
                             Inl e \<Rightarrow> Inl e
                           | Inr tc1 \<Rightarrow>
                               Inr (st2, mesh\<lparr>amTexCoords :=
                                      (amTexCoords mesh)[unat iChannel := tc1]\<rparr>)))) of
               Inl e \<Rightarrow> Inl e
             | Inr (st3, mesh1) \<Rightarrow>
                 if snd (snd vTemp) \<noteq> 0 then
                   (case vector_set (mNumUVComponents mesh1) iChannel 3 of
                      Inl e \<Rightarrow> Inl e
                    | Inr nc \<Rightarrow> Inr (st3, mesh1\<lparr>mNumUVComponents := nc\<rparr>))
                 else Inr (st3, mesh1))
          (Inr (st, mesh))
      else Inr (st, mesh))"

lemma ParseLV3MeshTListBlock_token_fwd:
  "fwd (length (m_szFile st)) (ParseLV3MeshTListBlock_token n c mesh st)"
  unfolding ParseLV3MeshTListBlock_token_def
  by (auto intro!: on_token_fwd simp: Let_def split: prod.splits sum.splits if_splits
        dest!: ParseLV4MeshFloatTriple_indexed_len)

function ParseLV3MeshTListBlock_loop ::
  "uint \<Rightarrow> uint \<Rightarrow> uint \<Rightarrow> mesh \<Rightarrow> parser \<Rightarrow> failure + parser \<times> mesh" where
  "ParseLV3MeshTListBlock_loop iNumVertices iChannel iDepth mesh st =
     (case ParseLV3MeshTListBlock_token iNumVertices iChannel mesh st of
        Inl e \<Rightarrow> Inl e
      | Inr (st1, mesh1) \<Rightarrow>
          (case block_tail
                  (Some ''Unable to finish parsing LV3 *MESH_VERTEX_LIST block. Unexpected EOF'')
                  iDepth st1 of
             Inl e \<Rightarrow> Inl e
           | Inr (st2, None) \<Rightarrow> Inr (st2, mesh1)
           | Inr (st2, Some iDepth1) \<Rightarrow>
               ParseLV3MeshTListBlock_loop iNumVertices iChannel iDepth1 mesh1 st2))"
  by pat_completeness auto
termination
  by (relation "measure (\<lambda>(n, c, d, m, st). length (m_szFile st))")
     (auto intro: loop_step_less[OF ParseLV3MeshTListBlock_token_fwd])

declare ParseLV3MeshTListBlock_loop.simps [simp del]

lemma ParseLV3MeshTListBlock_loop_fwd:
  "fwd (length (m_szFile st)) (ParseLV3MeshTListBlock_loop n c d mesh st)"
  by (rule block_loop_fwd[OF ParseLV3MeshTListBlock_loop.simps ParseLV3MeshTListBlock_token_fwd])

definition ParseLV3MeshTListBlock ::
  "uint \<Rightarrow> mesh \<Rightarrow> uint \<Rightarrow> parser \<Rightarrow> failure + parser \<times> mesh" where
  "ParseLV3MeshTListBlock iNumVertices mesh iChannel st =
     (case vector_get (amTexCoords mesh) iChannel of
        Inl e \<Rightarrow> Inl e
      | Inr tc \<Rightarrow>
          ParseLV3MeshTListBlock_loop iNumVertices iChannel 1
            (mesh\<lparr>amTexCoords :=
               (amTexCoords mesh)[unat iChannel := resize (unat iNumVertices) (0, 0, 0) tc]\<rparr>) st)"

lemma ParseLV3MeshTListBlock_fwd:
  "fwd (length (m_szFile st)) (ParseLV3MeshTListBlock n mesh c st)"
  by (simp add: ParseLV3MeshTListBlock_def ParseLV3MeshTListBlock_loop_fwd split: sum.splits)

text \<open>
  \<open>ParseLV3MeshTFaceListBlock\<close>. The keyword is compared over 12 characters, as the
  source has it.
\<close>

definition ParseLV3MeshTFaceListBlock_token ::
  "uint \<Rightarrow> uint \<Rightarrow> mesh \<Rightarrow> parser \<Rightarrow> failure + parser \<times> mesh" where
  "ParseLV3MeshTFaceListBlock_token iNumFaces iChannel mesh st =
     (if peek st = CHR ''*'' then
        on_token ''*MESH_TFACE'' 12 st
          (\<lambda>st1. let (st2, aiValues, iIndex) = ParseLV4MeshLongTriple_indexed st1 in
             if iIndex \<ge> iNumFaces \<or> unat iIndex \<ge> length (mFaces mesh) then
               Inr (LogWarning ''UV-Face has an invalid index. It will be ignored'' st2, mesh)
             else
               (case vector_set (amUVIndices (mFaces mesh ! unat iIndex)) iChannel aiValues of
                  Inl e \<Rightarrow> Inl e
                | Inr uv \<Rightarrow>
                    Inr (st2, mesh\<lparr>mFaces := (mFaces mesh)
                           [unat iIndex := (mFaces mesh ! unat iIndex)\<lparr>amUVIndices := uv\<rparr>]\<rparr>)))
          (Inr (st, mesh))
      else Inr (st, mesh))"

lemma ParseLV3MeshTFaceListBlock_token_fwd:
  "fwd (length (m_szFile st)) (ParseLV3MeshTFaceListBlock_token n c mesh st)"
  unfolding ParseLV3MeshTFaceListBlock_token_def
  by (auto intro!: on_token_fwd simp: Let_def split: prod.splits sum.splits
        dest!: ParseLV4MeshLongTriple_indexed_len)

function ParseLV3MeshTFaceListBlock_loop ::
  "uint \<Rightarrow> uint \<Rightarrow> uint \<Rightarrow> mesh \<Rightarrow> parser \<Rightarrow> failure + parser \<times> mesh" where
  "ParseLV3MeshTFaceListBlock_loop iNumFaces iChannel iDepth mesh st =
     (case ParseLV3MeshTFaceListBlock_token iNumFaces iChannel mesh st of
        Inl e \<Rightarrow> Inl e
      | Inr (st1, mesh1) \<Rightarrow>
          (case block_tail
                  (Some ''Unable to finish parsing LV3 *MESH_TFACELIST block. Unexpected EOF'')
                  iDepth st1 of
             Inl e \<Rightarrow> Inl e
           | Inr (st2, None) \<Rightarrow> Inr (st2, mesh1)
           | Inr (st2, Some iDepth1) \<Rightarrow>
               ParseLV3MeshTFaceListBlock_loop iNumFaces iChannel iDepth1 mesh1 st2))"
  by pat_completeness auto
termination
  by (relation "measure (\<lambda>(n, c, d, m, st). length (m_szFile st))")
     (auto intro: loop_step_less[OF ParseLV3MeshTFaceListBlock_token_fwd])

declare ParseLV3MeshTFaceListBlock_loop.simps [simp del]

lemma ParseLV3MeshTFaceListBlock_loop_fwd:
  "fwd (length (m_szFile st)) (ParseLV3MeshTFaceListBlock_loop n c d mesh st)"
  by (rule block_loop_fwd[OF ParseLV3MeshTFaceListBlock_loop.simps
        ParseLV3MeshTFaceListBlock_token_fwd])

definition ParseLV3MeshTFaceListBlock ::
  "uint \<Rightarrow> mesh \<Rightarrow> uint \<Rightarrow> parser \<Rightarrow> failure + parser \<times> mesh" where
  "ParseLV3MeshTFaceListBlock iNumFaces mesh iChannel st =
     ParseLV3MeshTFaceListBlock_loop iNumFaces iChannel 1 mesh st"

text \<open>\<open>ParseLV3MeshCListBlock\<close>\<close>

definition ParseLV3MeshCListBlock_token ::
  "uint \<Rightarrow> mesh \<Rightarrow> parser \<Rightarrow> failure + parser \<times> mesh" where
  "ParseLV3MeshCListBlock_token iNumVertices mesh st =
     (if peek st = CHR ''*'' then
        on_token ''*MESH_VERTCOL'' 13 st
          (\<lambda>st1. let (st2, (r, g, b), iIndex) = ParseLV4MeshFloatTriple_indexed st1 in
             if iIndex \<ge> iNumVertices then
               Inr (LogWarning ''Vertex color has an invalid index. It will be ignored'' st2, mesh)
             else (case vector_set (mVertexColors mesh) iIndex (r, g, b, 1) of
                     Inl e \<Rightarrow> Inl e
                   | Inr v \<Rightarrow> Inr (st2, mesh\<lparr>mVertexColors := v\<rparr>)))
          (Inr (st, mesh))
      else Inr (st, mesh))"

lemma ParseLV3MeshCListBlock_token_fwd:
  "fwd (length (m_szFile st)) (ParseLV3MeshCListBlock_token n mesh st)"
  unfolding ParseLV3MeshCListBlock_token_def
  by (auto intro!: on_token_fwd simp: Let_def split: prod.splits sum.splits
        dest!: ParseLV4MeshFloatTriple_indexed_len)

function ParseLV3MeshCListBlock_loop ::
  "uint \<Rightarrow> uint \<Rightarrow> mesh \<Rightarrow> parser \<Rightarrow> failure + parser \<times> mesh" where
  "ParseLV3MeshCListBlock_loop iNumVertices iDepth mesh st =
     (case ParseLV3MeshCListBlock_token iNumVertices mesh st of
        Inl e \<Rightarrow> Inl e
      | Inr (st1, mesh1) \<Rightarrow>
          (case block_tail
                  (Some ''Unable to finish parsing LV3 *MESH_CVERTLIST block. Unexpected EOF'')
                  iDepth st1 of
             Inl e \<Rightarrow> Inl e
           | Inr (st2, None) \<Rightarrow> Inr (st2, mesh1)
           | Inr (st2, Some iDepth1) \<Rightarrow>
               ParseLV3MeshCListBlock_loop iNumVertices iDepth1 mesh1 st2))"
  by pat_completeness auto
termination
  by (relation "measure (\<lambda>(n, d, m, st). length (m_szFile st))")
     (auto intro: loop_step_less[OF ParseLV3MeshCListBlock_token_fwd])

declare ParseLV3MeshCListBlock_loop.simps [simp del]

lemma ParseLV3MeshCListBlock_loop_fwd:
  "fwd (length (m_szFile st)) (ParseLV3MeshCListBlock_loop n d mesh st)"
  by (rule block_loop_fwd[OF ParseLV3MeshCListBlock_loop.simps ParseLV3MeshCListBlock_token_fwd])

definition ParseLV3MeshCListBlock :: "uint \<Rightarrow> mesh \<Rightarrow> parser \<Rightarrow> failure + parser \<times> mesh" where
  "ParseLV3MeshCListBlock iNumVertices mesh st =
     ParseLV3MeshCListBlock_loop iNumVertices 1
       (mesh\<lparr>mVertexColors := resize (unat iNumVertices) (0, 0, 0, 0) (mVertexColors mesh)\<rparr>) st"

text \<open>
  \<open>ParseLV3MeshCFaceListBlock\<close>. The keyword is compared over 12 characters here too.
\<close>

definition ParseLV3MeshCFaceListBlock_token ::
  "uint \<Rightarrow> mesh \<Rightarrow> parser \<Rightarrow> failure + parser \<times> mesh" where
  "ParseLV3MeshCFaceListBlock_token iNumFaces mesh st =
     (if peek st = CHR ''*'' then
        on_token ''*MESH_CFACE'' 12 st
          (\<lambda>st1. let (st2, aiValues, iIndex) = ParseLV4MeshLongTriple_indexed st1 in
             if iIndex \<ge> iNumFaces \<or> unat iIndex \<ge> length (mFaces mesh) then
               Inr (LogWarning ''UV-Face has an invalid index. It will be ignored'' st2, mesh)
             else
               Inr (st2, mesh\<lparr>mFaces := (mFaces mesh)
                      [unat iIndex := (mFaces mesh ! unat iIndex)\<lparr>mColorIndices := aiValues\<rparr>]\<rparr>))
          (Inr (st, mesh))
      else Inr (st, mesh))"

lemma ParseLV3MeshCFaceListBlock_token_fwd:
  "fwd (length (m_szFile st)) (ParseLV3MeshCFaceListBlock_token n mesh st)"
  unfolding ParseLV3MeshCFaceListBlock_token_def
  by (auto intro!: on_token_fwd simp: Let_def split: prod.splits sum.splits
        dest!: ParseLV4MeshLongTriple_indexed_len)

function ParseLV3MeshCFaceListBlock_loop ::
  "uint \<Rightarrow> uint \<Rightarrow> mesh \<Rightarrow> parser \<Rightarrow> failure + parser \<times> mesh" where
  "ParseLV3MeshCFaceListBlock_loop iNumFaces iDepth mesh st =
     (case ParseLV3MeshCFaceListBlock_token iNumFaces mesh st of
        Inl e \<Rightarrow> Inl e
      | Inr (st1, mesh1) \<Rightarrow>
          (case block_tail
                  (Some ''Unable to finish parsing LV3 *MESH_CFACELIST block. Unexpected EOF'')
                  iDepth st1 of
             Inl e \<Rightarrow> Inl e
           | Inr (st2, None) \<Rightarrow> Inr (st2, mesh1)
           | Inr (st2, Some iDepth1) \<Rightarrow>
               ParseLV3MeshCFaceListBlock_loop iNumFaces iDepth1 mesh1 st2))"
  by pat_completeness auto
termination
  by (relation "measure (\<lambda>(n, d, m, st). length (m_szFile st))")
     (auto intro: loop_step_less[OF ParseLV3MeshCFaceListBlock_token_fwd])

declare ParseLV3MeshCFaceListBlock_loop.simps [simp del]

lemma ParseLV3MeshCFaceListBlock_loop_fwd:
  "fwd (length (m_szFile st)) (ParseLV3MeshCFaceListBlock_loop n d mesh st)"
  by (rule block_loop_fwd[OF ParseLV3MeshCFaceListBlock_loop.simps
        ParseLV3MeshCFaceListBlock_token_fwd])

definition ParseLV3MeshCFaceListBlock :: "uint \<Rightarrow> mesh \<Rightarrow> parser \<Rightarrow> failure + parser \<times> mesh" where
  "ParseLV3MeshCFaceListBlock iNumFaces mesh st = ParseLV3MeshCFaceListBlock_loop iNumFaces 1 mesh st"


text \<open>\<open>ParseLV3MeshFaceListBlock\<close>\<close>

definition ParseLV3MeshFaceListBlock_token ::
  "uint \<Rightarrow> mesh \<Rightarrow> parser \<Rightarrow> failure + parser \<times> mesh" where
  "ParseLV3MeshFaceListBlock_token iNumFaces mesh st =
     (if peek st = CHR ''*'' then
        on_token ''*MESH_FACE'' 10 st
          (\<lambda>st1. case ParseLV4MeshFace st1 Face of
               Inl e \<Rightarrow> Inl e
             | Inr (st2, mFace) \<Rightarrow>
                 if iFace mFace \<ge> iNumFaces then
                   Inr (LogWarning ''Face has an invalid index. It will be ignored'' st2, mesh)
                 else (case vector_set (mFaces mesh) (iFace mFace) mFace of
                         Inl e \<Rightarrow> Inl e
                       | Inr v \<Rightarrow> Inr (st2, mesh\<lparr>mFaces := v\<rparr>)))
          (Inr (st, mesh))
      else Inr (st, mesh))"

lemma ParseLV3MeshFaceListBlock_token_fwd:
  "fwd (length (m_szFile st)) (ParseLV3MeshFaceListBlock_token n mesh st)"
  unfolding ParseLV3MeshFaceListBlock_token_def
  by (auto intro!: on_token_fwd simp: Let_def split: prod.splits sum.splits
        dest!: fwdD[OF ParseLV4MeshFace_fwd[OF order_refl]])

function ParseLV3MeshFaceListBlock_loop ::
  "uint \<Rightarrow> uint \<Rightarrow> mesh \<Rightarrow> parser \<Rightarrow> failure + parser \<times> mesh" where
  "ParseLV3MeshFaceListBlock_loop iNumFaces iDepth mesh st =
     (case ParseLV3MeshFaceListBlock_token iNumFaces mesh st of
        Inl e \<Rightarrow> Inl e
      | Inr (st1, mesh1) \<Rightarrow>
          (case block_tail
                  (Some ''Unable to finish parsing LV3 *MESH_FACE_LIST block. Unexpected EOF'')
                  iDepth st1 of
             Inl e \<Rightarrow> Inl e
           | Inr (st2, None) \<Rightarrow> Inr (st2, mesh1)
           | Inr (st2, Some iDepth1) \<Rightarrow>
               ParseLV3MeshFaceListBlock_loop iNumFaces iDepth1 mesh1 st2))"
  by pat_completeness auto
termination
  by (relation "measure (\<lambda>(n, d, m, st). length (m_szFile st))")
     (auto intro: loop_step_less[OF ParseLV3MeshFaceListBlock_token_fwd])

declare ParseLV3MeshFaceListBlock_loop.simps [simp del]

lemma ParseLV3MeshFaceListBlock_loop_fwd:
  "fwd (length (m_szFile st)) (ParseLV3MeshFaceListBlock_loop n d mesh st)"
  by (rule block_loop_fwd[OF ParseLV3MeshFaceListBlock_loop.simps
        ParseLV3MeshFaceListBlock_token_fwd])

definition ParseLV3MeshFaceListBlock :: "uint \<Rightarrow> mesh \<Rightarrow> parser \<Rightarrow> failure + parser \<times> mesh" where
  "ParseLV3MeshFaceListBlock iNumFaces mesh st =
     ParseLV3MeshFaceListBlock_loop iNumFaces 1
       (mesh\<lparr>mFaces := resize (unat iNumFaces) Face (mFaces mesh)\<rparr>) st"

text \<open>
  \<open>ParseLV3MeshNormalListBlock\<close>. The index that replaces one out of range is
  \<open>mNormals.size() - 1\<close>, converted to \<open>unsigned int\<close>.
\<close>

definition ParseLV3MeshNormalListBlock_token ::
  "mesh \<Rightarrow> parser \<Rightarrow> failure + parser \<times> mesh" where
  "ParseLV3MeshNormalListBlock_token sMesh st =
     (if peek st = CHR ''*'' then
        on_token ''*MESH_VERTEXNORMAL'' 18 st
          (\<lambda>st1. let (st2, vNormal, iIndex) = ParseLV4MeshFloatTriple_indexed st1;
                    (st3, iIndex1) =
                      (if unat iIndex \<ge> length (mNormals sMesh) then
                         (LogWarning ''Normal index is too large'' st2,
                          of_nat (length (mNormals sMesh)) - 1)
                       else (st2, iIndex))
             in case vector_set (mNormals sMesh) iIndex1 vNormal of
                  Inl e \<Rightarrow> Inl e
                | Inr v \<Rightarrow> Inr (st3, sMesh\<lparr>mNormals := v\<rparr>))
          (Inr (st, sMesh))
      else Inr (st, sMesh))"

lemma ParseLV3MeshNormalListBlock_token_fwd:
  "fwd (length (m_szFile st)) (ParseLV3MeshNormalListBlock_token mesh st)"
  unfolding ParseLV3MeshNormalListBlock_token_def
  by (auto intro!: on_token_fwd simp: Let_def split: prod.splits sum.splits if_splits
        dest!: ParseLV4MeshFloatTriple_indexed_len)

function ParseLV3MeshNormalListBlock_loop ::
  "uint \<Rightarrow> mesh \<Rightarrow> parser \<Rightarrow> failure + parser \<times> mesh" where
  "ParseLV3MeshNormalListBlock_loop iDepth sMesh st =
     (case ParseLV3MeshNormalListBlock_token sMesh st of
        Inl e \<Rightarrow> Inl e
      | Inr (st1, sMesh1) \<Rightarrow>
          (case block_tail_normals
                  ''Unable to parse *MESH_NORMALS Element: Unexpected EOL [#1]'' iDepth st1 of
             Inl e \<Rightarrow> Inl e
           | Inr (st2, None) \<Rightarrow> Inr (st2, sMesh1)
           | Inr (st2, Some iDepth1) \<Rightarrow> ParseLV3MeshNormalListBlock_loop iDepth1 sMesh1 st2))"
  by pat_completeness auto
termination
  by (relation "measure (\<lambda>(d, m, st). length (m_szFile st))")
     (auto dest!: block_tail_normals_again fwdD[OF ParseLV3MeshNormalListBlock_token_fwd])

declare ParseLV3MeshNormalListBlock_loop.simps [simp del]

definition ParseLV3MeshNormalListBlock :: "mesh \<Rightarrow> parser \<Rightarrow> failure + parser \<times> mesh" where
  "ParseLV3MeshNormalListBlock sMesh st =
     ParseLV3MeshNormalListBlock_loop 1
       (sMesh\<lparr>mNormals := resize (length (mPositions sMesh)) (0, 0, 0) (mNormals sMesh)\<rparr>) st"


subsection \<open>Mapping channels and the mesh block\<close>

text \<open>
  \<open>ParseLV3MappingChannel\<close>. The data of its loop are the mesh and the two local
  counters \<open>iNumTVertices\<close> and \<open>iNumTFaces\<close>.
\<close>

definition ParseLV3MappingChannel_token ::
  "uint \<Rightarrow> mesh \<times> uint \<times> uint \<Rightarrow> parser \<Rightarrow> failure + parser \<times> (mesh \<times> uint \<times> uint)" where
  "ParseLV3MappingChannel_token iChannel a st =
     (case a of (mesh, iNumTVertices, iNumTFaces) \<Rightarrow>
        if peek st = CHR ''*'' then
          on_token ''*MESH_NUMTVERTEX'' 16 st
            (\<lambda>st1. let (st2, n) = ParseLV4MeshLong st1 in Inr (st2, mesh, n, iNumTFaces))
         (on_token ''*MESH_NUMTVFACES'' 16 st
            (\<lambda>st1. let (st2, n) = ParseLV4MeshLong st1 in Inr (st2, mesh, iNumTVertices, n))
         (on_token ''*MESH_TVERTLIST'' 15 st
            (\<lambda>st1. case ParseLV3MeshTListBlock iNumTVertices mesh iChannel
                           (snd (SkipOpeningBracket st1)) of
                 Inl e \<Rightarrow> Inl e
               | Inr (st2, mesh1) \<Rightarrow> Inr (st2, mesh1, iNumTVertices, iNumTFaces))
         (on_token ''*MESH_TFACELIST'' 15 st
            (\<lambda>st1. case ParseLV3MeshTFaceListBlock iNumTFaces mesh iChannel
                           (snd (SkipOpeningBracket st1)) of
                 Inl e \<Rightarrow> Inl e
               | Inr (st2, mesh1) \<Rightarrow> Inr (st2, mesh1, iNumTVertices, iNumTFaces))
            (Inr (st, a)))))
        else Inr (st, a))"

lemma ParseLV3MeshTFaceListBlock_fwd:
  "fwd (length (m_szFile st)) (ParseLV3MeshTFaceListBlock n mesh c st)"
  by (simp add: ParseLV3MeshTFaceListBlock_def ParseLV3MeshTFaceListBlock_loop_fwd)

lemma ParseLV3MeshCListBlock_fwd:
  "fwd (length (m_szFile st)) (ParseLV3MeshCListBlock n mesh st)"
  by (simp add: ParseLV3MeshCListBlock_def ParseLV3MeshCListBlock_loop_fwd)

lemma ParseLV3MeshCFaceListBlock_fwd:
  "fwd (length (m_szFile st)) (ParseLV3MeshCFaceListBlock n mesh st)"
  by (simp add: ParseLV3MeshCFaceListBlock_def ParseLV3MeshCFaceListBlock_loop_fwd)

lemma ParseLV3MeshFaceListBlock_fwd:
  "fwd (length (m_szFile st)) (ParseLV3MeshFaceListBlock n mesh st)"
  by (simp add: ParseLV3MeshFaceListBlock_def ParseLV3MeshFaceListBlock_loop_fwd)

text \<open>A call of a block parser after \<open>SkipOpeningBracket\<close>, or further along the input.\<close>

lemma fwd_after:
  "fwd (length (m_szFile st1)) r \<Longrightarrow> length (m_szFile st1) \<le> n \<Longrightarrow> fwd n r"
  by (rule fwd_mono)

lemma ParseLV3MappingChannel_token_fwd:
  "fwd (length (m_szFile st)) (ParseLV3MappingChannel_token c a st)"
  unfolding ParseLV3MappingChannel_token_def
  by (auto intro!: on_token_fwd fwd_bind
        fwd_after[OF ParseLV3MeshTListBlock_fwd] fwd_after[OF ParseLV3MeshTFaceListBlock_fwd]
        simp: Let_def split: prod.splits dest!: ParseLV4MeshLong_len)

function ParseLV3MappingChannel_loop ::
  "uint \<Rightarrow> uint \<Rightarrow> mesh \<times> uint \<times> uint \<Rightarrow> parser \<Rightarrow> failure + parser \<times> (mesh \<times> uint \<times> uint)" where
  "ParseLV3MappingChannel_loop iChannel iDepth a st =
     (case ParseLV3MappingChannel_token iChannel a st of
        Inl e \<Rightarrow> Inl e
      | Inr (st1, a1) \<Rightarrow>
          (case block_tail
                  (Some ''Unable to finish parsing a LV3 *MESH_MAPPINGCHANNEL block. Unexpected EOF'')
                  iDepth st1 of
             Inl e \<Rightarrow> Inl e
           | Inr (st2, None) \<Rightarrow> Inr (st2, a1)
           | Inr (st2, Some iDepth1) \<Rightarrow> ParseLV3MappingChannel_loop iChannel iDepth1 a1 st2))"
  by pat_completeness auto
termination
  by (relation "measure (\<lambda>(c, d, a, st). length (m_szFile st))")
     (auto intro: loop_step_less[OF ParseLV3MappingChannel_token_fwd])

declare ParseLV3MappingChannel_loop.simps [simp del]

lemma ParseLV3MappingChannel_loop_fwd:
  "fwd (length (m_szFile st)) (ParseLV3MappingChannel_loop c d a st)"
  by (rule block_loop_fwd[OF ParseLV3MappingChannel_loop.simps ParseLV3MappingChannel_token_fwd])

definition ParseLV3MappingChannel :: "uint \<Rightarrow> mesh \<Rightarrow> parser \<Rightarrow> failure + parser \<times> mesh" where
  "ParseLV3MappingChannel iChannel mesh st =
     (case ParseLV3MappingChannel_loop iChannel 1 (mesh, 0, 0) st of
        Inl e \<Rightarrow> Inl e
      | Inr (st1, mesh1, n, m) \<Rightarrow> Inr (st1, mesh1))"

lemma ParseLV3MappingChannel_fwd:
  "fwd (length (m_szFile st)) (ParseLV3MappingChannel c mesh st)"
  using ParseLV3MappingChannel_loop_fwd[of st c 1 "(mesh, 0, 0)"]
  by (auto simp: ParseLV3MappingChannel_def split: sum.splits)

text \<open>
  \<open>ParseLV2MeshBlock\<close>. The six local counters are a record; the data of the loop are
  the mesh and the counters.
\<close>

record mesh_counts =
  iNumVertices :: uint
  iNumFaces :: uint
  iNumTVertices :: uint
  iNumTFaces :: uint
  iNumCVertices :: uint
  iNumCFaces :: uint

text \<open>
  The branch of \<open>*MESH_MAPPINGCHANNEL\<close>: an \<open>if\<close> for an index below 2, followed by
  an \<open>if\<close> with an \<open>else\<close> for an index above the maximum.
\<close>

definition MESH_MAPPINGCHANNEL :: "mesh \<Rightarrow> parser \<Rightarrow> failure + parser \<times> mesh" where
  "MESH_MAPPINGCHANNEL mesh st =
     (let (st1, iIndex) = ParseLV4MeshLong st;
          st2 = (if iIndex < 2 then
                   snd (SkipSection (snd (SkipOpeningBracket
                     (LogWarning ''Mapping channel has an invalid index. Skipping UV channel'' st1))))
                 else st1)
      in if iIndex > AI_MAX_NUMBER_OF_TEXTURECOORDS then
           Inr (snd (SkipSection (snd (SkipOpeningBracket
                  (LogWarning ''Too many UV channels specified. Skipping channel ..'' st2)))), mesh)
         else ParseLV3MappingChannel (iIndex - 1) mesh (snd (SkipOpeningBracket st2)))"

definition ParseLV2MeshBlock_token ::
  "mesh \<times> mesh_counts \<Rightarrow> parser \<Rightarrow> failure + parser \<times> (mesh \<times> mesh_counts)" where
  "ParseLV2MeshBlock_token a st =
     (case a of (mesh, c) \<Rightarrow>
        if peek st = CHR ''*'' then
          on_token ''*MESH_NUMVERTEX'' 15 st
            (\<lambda>st1. let (st2, n) = ParseLV4MeshLong st1 in Inr (st2, mesh, c\<lparr>iNumVertices := n\<rparr>))
         (on_token ''*MESH_NUMTVERTEX'' 16 st
            (\<lambda>st1. let (st2, n) = ParseLV4MeshLong st1 in Inr (st2, mesh, c\<lparr>iNumTVertices := n\<rparr>))
         (on_token ''*MESH_NUMCVERTEX'' 16 st
            (\<lambda>st1. let (st2, n) = ParseLV4MeshLong st1 in Inr (st2, mesh, c\<lparr>iNumCVertices := n\<rparr>))
         (on_token ''*MESH_NUMFACES'' 14 st
            (\<lambda>st1. let (st2, n) = ParseLV4MeshLong st1 in Inr (st2, mesh, c\<lparr>iNumFaces := n\<rparr>))
         (on_token ''*MESH_NUMTVFACES'' 16 st
            (\<lambda>st1. let (st2, n) = ParseLV4MeshLong st1 in Inr (st2, mesh, c\<lparr>iNumTFaces := n\<rparr>))
         (on_token ''*MESH_NUMCVFACES'' 16 st
            (\<lambda>st1. let (st2, n) = ParseLV4MeshLong st1 in Inr (st2, mesh, c\<lparr>iNumCFaces := n\<rparr>))
         (on_token ''*MESH_VERTEX_LIST'' 17 st
            (\<lambda>st1. case ParseLV3MeshVertexListBlock (iNumVertices c) mesh st1 of
                 Inl e \<Rightarrow> Inl e | Inr (st2, mesh1) \<Rightarrow> Inr (st2, mesh1, c))
         (on_token ''*MESH_FACE_LIST'' 15 st
            (\<lambda>st1. case ParseLV3MeshFaceListBlock (iNumFaces c) mesh
                           (snd (SkipOpeningBracket st1)) of
                 Inl e \<Rightarrow> Inl e | Inr (st2, mesh1) \<Rightarrow> Inr (st2, mesh1, c))
         (on_token ''*MESH_TVERTLIST'' 15 st
            (\<lambda>st1. case ParseLV3MeshTListBlock (iNumTVertices c) mesh 0
                           (snd (SkipOpeningBracket st1)) of
                 Inl e \<Rightarrow> Inl e | Inr (st2, mesh1) \<Rightarrow> Inr (st2, mesh1, c))
         (on_token ''*MESH_TFACELIST'' 15 st
            (\<lambda>st1. case ParseLV3MeshTFaceListBlock (iNumTFaces c) mesh 0
                           (snd (SkipOpeningBracket st1)) of
                 Inl e \<Rightarrow> Inl e | Inr (st2, mesh1) \<Rightarrow> Inr (st2, mesh1, c))
         (on_token ''*MESH_CVERTLIST'' 15 st
            (\<lambda>st1. case ParseLV3MeshCListBlock (iNumCVertices c) mesh
                           (snd (SkipOpeningBracket st1)) of
                 Inl e \<Rightarrow> Inl e | Inr (st2, mesh1) \<Rightarrow> Inr (st2, mesh1, c))
         (on_token ''*MESH_CFACELIST'' 15 st
            (\<lambda>st1. case ParseLV3MeshCFaceListBlock (iNumCFaces c) mesh
                           (snd (SkipOpeningBracket st1)) of
                 Inl e \<Rightarrow> Inl e | Inr (st2, mesh1) \<Rightarrow> Inr (st2, mesh1, c))
         (on_token ''*MESH_MAPPINGCHANNEL'' 20 st
            (\<lambda>st1. case MESH_MAPPINGCHANNEL mesh st1 of
                 Inl e \<Rightarrow> Inl e | Inr (st2, mesh1) \<Rightarrow> Inr (st2, mesh1, c))
         (on_token ''*MATERIAL_REF'' 13 st
            (\<lambda>st1. let (st2, n) = ParseLV4MeshLong st1
                    in Inr (st2, mesh\<lparr>iMaterialIndex := n\<rparr>, c))
            (Inr (st, a)))))))))))))))
        else Inr (st, a))"

lemma MESH_MAPPINGCHANNEL_fwd:
  "fwd (length (m_szFile st)) (MESH_MAPPINGCHANNEL mesh st)"
  unfolding MESH_MAPPINGCHANNEL_def
  by (auto intro!: fwd_after[OF ParseLV3MappingChannel_fwd]
        simp: Let_def split: prod.splits dest!: ParseLV4MeshLong_len)

lemma ParseLV2MeshBlock_token_fwd:
  "fwd (length (m_szFile st)) (ParseLV2MeshBlock_token a st)"
  unfolding ParseLV2MeshBlock_token_def
  by (auto intro!: on_token_fwd fwd_bind
        fwd_after[OF ParseLV3MeshVertexListBlock_fwd] fwd_after[OF ParseLV3MeshFaceListBlock_fwd]
        fwd_after[OF ParseLV3MeshTListBlock_fwd] fwd_after[OF ParseLV3MeshTFaceListBlock_fwd]
        fwd_after[OF ParseLV3MeshCListBlock_fwd] fwd_after[OF ParseLV3MeshCFaceListBlock_fwd]
        fwd_after[OF MESH_MAPPINGCHANNEL_fwd]
        simp: Let_def split: prod.splits dest!: ParseLV4MeshLong_len)

function ParseLV2MeshBlock_loop ::
  "uint \<Rightarrow> mesh \<times> mesh_counts \<Rightarrow> parser \<Rightarrow> failure + parser \<times> (mesh \<times> mesh_counts)" where
  "ParseLV2MeshBlock_loop iDepth a st =
     (case ParseLV2MeshBlock_token a st of
        Inl e \<Rightarrow> Inl e
      | Inr (st1, a1) \<Rightarrow>
          (case block_tail (Some ''Unable to finish parsing a lv2 mesh block. Unexpected EOF'')
                  iDepth st1 of
             Inl e \<Rightarrow> Inl e
           | Inr (st2, None) \<Rightarrow> Inr (st2, a1)
           | Inr (st2, Some iDepth1) \<Rightarrow> ParseLV2MeshBlock_loop iDepth1 a1 st2))"
  by pat_completeness auto
termination
  by (relation "measure (\<lambda>(d, a, st). length (m_szFile st))")
     (auto intro: loop_step_less[OF ParseLV2MeshBlock_token_fwd])

declare ParseLV2MeshBlock_loop.simps [simp del]

lemma ParseLV2MeshBlock_loop_fwd:
  "fwd (length (m_szFile st)) (ParseLV2MeshBlock_loop d a st)"
  by (rule block_loop_fwd[OF ParseLV2MeshBlock_loop.simps ParseLV2MeshBlock_token_fwd])

definition ParseLV2MeshBlock :: "mesh \<Rightarrow> parser \<Rightarrow> failure + parser \<times> mesh" where
  "ParseLV2MeshBlock mesh st =
     (case ParseLV2MeshBlock_loop 1
             (mesh, \<lparr>iNumVertices = 0, iNumFaces = 0, iNumTVertices = 0, iNumTFaces = 0,
                     iNumCVertices = 0, iNumCFaces = 0\<rparr>) st of
        Inl e \<Rightarrow> Inl e
      | Inr (st1, mesh1, c) \<Rightarrow> Inr (st1, mesh1))"

lemma ParseLV2MeshBlock_fwd:
  "fwd (length (m_szFile st)) (ParseLV2MeshBlock mesh st)"
  using ParseLV2MeshBlock_loop_fwd[of st 1]
  by (auto simp: ParseLV2MeshBlock_def split: sum.splits dest!: fwdD)


subsection \<open>The node transform and the geometry object\<close>

definition ParseLV2NodeTransformBlock_token :: "mesh \<Rightarrow> parser \<Rightarrow> failure + parser \<times> mesh" where
  "ParseLV2NodeTransformBlock_token mesh st =
     (case mTransform mesh of (r0, r1, r2, r3) \<Rightarrow>
        if peek st = CHR ''*'' then
          on_token ''*TM_ROW0'' 8 st
            (\<lambda>st1. let (st2, v) = ParseLV4MeshFloatTriple st1
                    in Inr (st2, mesh\<lparr>mTransform := (v, r1, r2, r3)\<rparr>))
         (on_token ''*TM_ROW1'' 8 st
            (\<lambda>st1. let (st2, v) = ParseLV4MeshFloatTriple st1
                    in Inr (st2, mesh\<lparr>mTransform := (r0, v, r2, r3)\<rparr>))
         (on_token ''*TM_ROW2'' 8 st
            (\<lambda>st1. let (st2, v) = ParseLV4MeshFloatTriple st1
                    in Inr (st2, mesh\<lparr>mTransform := (r0, r1, v, r3)\<rparr>))
         (on_token ''*TM_ROW3'' 8 st
            (\<lambda>st1. let (st2, v) = ParseLV4MeshFloatTriple st1
                    in Inr (st2, mesh\<lparr>mTransform := (r0, r1, r2, v)\<rparr>))
            (Inr (st, mesh)))))
        else Inr (st, mesh))"

lemma ParseLV2NodeTransformBlock_token_fwd:
  "fwd (length (m_szFile st)) (ParseLV2NodeTransformBlock_token mesh st)"
  unfolding ParseLV2NodeTransformBlock_token_def
  by (auto intro!: on_token_fwd simp: Let_def split: prod.splits
        dest!: ParseLV4MeshFloatTriple_len)

function ParseLV2NodeTransformBlock_loop ::
  "uint \<Rightarrow> mesh \<Rightarrow> parser \<Rightarrow> failure + parser \<times> mesh" where
  "ParseLV2NodeTransformBlock_loop iDepth mesh st =
     (case ParseLV2NodeTransformBlock_token mesh st of
        Inl e \<Rightarrow> Inl e
      | Inr (st1, mesh1) \<Rightarrow>
          (case block_tail
                  (Some ''Unable to finish parsing a lv2 node transform block. Unexpected EOF'')
                  iDepth st1 of
             Inl e \<Rightarrow> Inl e
           | Inr (st2, None) \<Rightarrow> Inr (st2, mesh1)
           | Inr (st2, Some iDepth1) \<Rightarrow> ParseLV2NodeTransformBlock_loop iDepth1 mesh1 st2))"
  by pat_completeness auto
termination
  by (relation "measure (\<lambda>(d, m, st). length (m_szFile st))")
     (auto intro: loop_step_less[OF ParseLV2NodeTransformBlock_token_fwd])

declare ParseLV2NodeTransformBlock_loop.simps [simp del]

lemma ParseLV2NodeTransformBlock_loop_fwd:
  "fwd (length (m_szFile st)) (ParseLV2NodeTransformBlock_loop d mesh st)"
  by (rule block_loop_fwd[OF ParseLV2NodeTransformBlock_loop.simps
        ParseLV2NodeTransformBlock_token_fwd])

definition ParseLV2NodeTransformBlock :: "mesh \<Rightarrow> parser \<Rightarrow> failure + parser \<times> mesh" where
  "ParseLV2NodeTransformBlock mesh st = ParseLV2NodeTransformBlock_loop 1 mesh st"

lemma ParseLV2NodeTransformBlock_fwd:
  "fwd (length (m_szFile st)) (ParseLV2NodeTransformBlock mesh st)"
  by (simp add: ParseLV2NodeTransformBlock_def ParseLV2NodeTransformBlock_loop_fwd)

text \<open>
  The scan for the closing quotation mark of \<open>*NODE_NAME\<close> and \<open>*BITMAP\<close>:
  \<open>while (true) { if ('"' == *sz) break; else if ('\0' == sz) { ... } sz++; }\<close>.
  The second test compares the pointer \<open>sz\<close>, not the character, with zero, and a
  pointer into the buffer is never null: the loop ends only at a quotation mark. When
  there is none before the terminating NUL, the scan leaves the buffer. The result is the
  text before the quotation mark and the text from it onwards.
\<close>

abbreviation DQUOTE :: char where
  "DQUOTE \<equiv> CHR 0x22"

definition scan_closing_quote :: "string \<Rightarrow> failure + string \<times> string" where
  "scan_closing_quote s =
     (if DQUOTE \<in> set (take (strlen s) s) then
        Inr (takeWhile (\<lambda>c. c \<noteq> DQUOTE) s, dropWhile (\<lambda>c. c \<noteq> DQUOTE) s)
      else Inl ReadPastEnd)"

lemma scan_closing_quote_len:
  "scan_closing_quote s = Inr (name, rest) \<Longrightarrow> length rest \<le> length s"
  by (auto simp: scan_closing_quote_def len_dropWhile split: if_splits)

definition NODE_NAME :: "mesh \<Rightarrow> parser \<Rightarrow> failure + parser \<times> mesh" where
  "NODE_NAME mesh st =
     (case SkipSpaces st of
        (False, st1) \<Rightarrow> Inl (LogError ''Unable to parse *NODE_NAME block: Unexpected EOL'' st1)
      | (True, st1) \<Rightarrow>
          if peek st1 \<noteq> DQUOTE then
            Inl (LogError ''Unable to parse *NODE_NAME block: Name is expected to be enclosed in double quotation marks'' st1)
          else
            (case scan_closing_quote (m_szFile (advance st1)) of
               Inl e \<Rightarrow> Inl e
             | Inr (name, rest) \<Rightarrow> Inr (st1\<lparr>m_szFile := rest\<rparr>, mesh\<lparr>mName := name\<rparr>)))"

definition ParseLV1GeometryObjectBlock_token :: "mesh \<Rightarrow> parser \<Rightarrow> failure + parser \<times> mesh" where
  "ParseLV1GeometryObjectBlock_token mesh st =
     (if peek st = CHR ''*'' then
        on_token ''*NODE_NAME'' 10 st (NODE_NAME mesh)
       (on_token ''*NODE_TM'' 8 st (ParseLV2NodeTransformBlock mesh)
       (on_token ''*MESH'' 5 st (ParseLV2MeshBlock mesh)
          (Inr (st, mesh))))
      else Inr (st, mesh))"

lemma NODE_NAME_fwd: "fwd (length (m_szFile st)) (NODE_NAME mesh st)"
  unfolding NODE_NAME_def
  by (auto split: prod.splits bool.splits sum.splits
        dest!: SkipSpaces_len scan_closing_quote_len advance_leD)

lemma ParseLV1GeometryObjectBlock_token_fwd:
  "fwd (length (m_szFile st)) (ParseLV1GeometryObjectBlock_token mesh st)"
  unfolding ParseLV1GeometryObjectBlock_token_def
  by (auto intro!: on_token_fwd fwd_after[OF NODE_NAME_fwd]
        fwd_after[OF ParseLV2NodeTransformBlock_fwd] fwd_after[OF ParseLV2MeshBlock_fwd])

function ParseLV1GeometryObjectBlock_loop ::
  "uint \<Rightarrow> mesh \<Rightarrow> parser \<Rightarrow> failure + parser \<times> mesh" where
  "ParseLV1GeometryObjectBlock_loop iDepth mesh st =
     (case ParseLV1GeometryObjectBlock_token mesh st of
        Inl e \<Rightarrow> Inl e
      | Inr (st1, mesh1) \<Rightarrow>
          (case block_tail None iDepth st1 of
             Inl e \<Rightarrow> Inl e
           | Inr (st2, None) \<Rightarrow> Inr (st2, mesh1)
           | Inr (st2, Some iDepth1) \<Rightarrow> ParseLV1GeometryObjectBlock_loop iDepth1 mesh1 st2))"
  by pat_completeness auto
termination
  by (relation "measure (\<lambda>(d, m, st). length (m_szFile st))")
     (auto intro: loop_step_less[OF ParseLV1GeometryObjectBlock_token_fwd])

declare ParseLV1GeometryObjectBlock_loop.simps [simp del]

lemma ParseLV1GeometryObjectBlock_loop_fwd:
  "fwd (length (m_szFile st)) (ParseLV1GeometryObjectBlock_loop d mesh st)"
  by (rule block_loop_fwd[OF ParseLV1GeometryObjectBlock_loop.simps
        ParseLV1GeometryObjectBlock_token_fwd])

definition ParseLV1GeometryObjectBlock :: "mesh \<Rightarrow> parser \<Rightarrow> failure + parser \<times> mesh" where
  "ParseLV1GeometryObjectBlock mesh st = ParseLV1GeometryObjectBlock_loop 1 mesh st"

lemma ParseLV1GeometryObjectBlock_fwd:
  "fwd (length (m_szFile st)) (ParseLV1GeometryObjectBlock mesh st)"
  by (simp add: ParseLV1GeometryObjectBlock_def ParseLV1GeometryObjectBlock_loop_fwd)


subsection \<open>Texture maps and materials\<close>

text \<open>\<open>ParseLV3MapBlock\<close>; its parameter \<open>map\<close> is called \<open>tmap\<close> here.\<close>

definition BITMAP :: "texture \<Rightarrow> parser \<Rightarrow> failure + parser \<times> texture" where
  "BITMAP tmap st =
     (case SkipSpaces st of
        (False, st1) \<Rightarrow> Inl (LogError ''Unable to parse *BITMAP block: Unexpected EOL'' st1)
      | (True, st1) \<Rightarrow>
          if peek st1 \<noteq> DQUOTE then
            Inl (LogError ''Unable to parse *BITMAP block: Path is expected to be enclosed in double quotation marks'' st1)
          else
            (case scan_closing_quote (m_szFile (advance st1)) of
               Inl e \<Rightarrow> Inl e
             | Inr (name, rest) \<Rightarrow> Inr (st1\<lparr>m_szFile := rest\<rparr>, tmap\<lparr>mMapName := name\<rparr>)))"

text \<open>The keywords of a tmap block are tested one after the other, each at the cursor the one before has left.\<close>

definition ParseLV3MapBlock_token :: "texture \<Rightarrow> parser \<Rightarrow> failure + parser \<times> texture" where
  "ParseLV3MapBlock_token tmap st =
     (if peek st = CHR ''*'' then
        (case on_token ''*BITMAP'' 7 st (BITMAP tmap) (Inr (st, tmap)) of
           Inl e \<Rightarrow> Inl e
         | Inr (st1, tmap1) \<Rightarrow>
        (case on_token ''*UVW_U_OFFSET'' 13 st1
                (\<lambda>s. let (s1, f) = ParseLV4MeshFloat s in Inr (s1, tmap1\<lparr>mOffsetU := f\<rparr>))
                (Inr (st1, tmap1)) of
           Inl e \<Rightarrow> Inl e
         | Inr (st2, tmap2) \<Rightarrow>
        (case on_token ''*UVW_V_OFFSET'' 13 st2
                (\<lambda>s. let (s1, f) = ParseLV4MeshFloat s in Inr (s1, tmap2\<lparr>mOffsetV := f\<rparr>))
                (Inr (st2, tmap2)) of
           Inl e \<Rightarrow> Inl e
         | Inr (st3, tmap3) \<Rightarrow>
        (case on_token ''*UVW_U_TILING'' 13 st3
                (\<lambda>s. let (s1, f) = ParseLV4MeshFloat s in Inr (s1, tmap3\<lparr>mScaleU := f\<rparr>))
                (Inr (st3, tmap3)) of
           Inl e \<Rightarrow> Inl e
         | Inr (st4, tmap4) \<Rightarrow>
        (case on_token ''*UVW_V_TILING'' 13 st4
                (\<lambda>s. let (s1, f) = ParseLV4MeshFloat s in Inr (s1, tmap4\<lparr>mScaleV := f\<rparr>))
                (Inr (st4, tmap4)) of
           Inl e \<Rightarrow> Inl e
         | Inr (st5, tmap5) \<Rightarrow>
        (case on_token ''*UVW_ANGLE'' 10 st5
                (\<lambda>s. let (s1, f) = ParseLV4MeshFloat s in Inr (s1, tmap5\<lparr>mRotation := f\<rparr>))
                (Inr (st5, tmap5)) of
           Inl e \<Rightarrow> Inl e
         | Inr (st6, tmap6) \<Rightarrow>
            on_token ''*MAP_AMOUNT'' 11 st6
                (\<lambda>s. let (s1, f) = ParseLV4MeshFloat s in Inr (s1, tmap6\<lparr>mTextureBlend := f\<rparr>))
                (Inr (st6, tmap6))))))))
      else Inr (st, tmap))"

lemma BITMAP_fwd: "fwd (length (m_szFile st)) (BITMAP tmap st)"
  unfolding BITMAP_def
  by (auto split: prod.splits bool.splits sum.splits
        dest!: SkipSpaces_len scan_closing_quote_len advance_leD)

lemma float_member_fwd:
  "length (m_szFile s) \<le> n \<Longrightarrow>
     fwd n (let (s1, f) = ParseLV4MeshFloat s in Inr (s1, g f))"
  by (auto simp: Let_def split: prod.splits dest!: ParseLV4MeshFloat_len)

lemma ParseLV3MapBlock_token_fwd:
  "fwd (length (m_szFile st)) (ParseLV3MapBlock_token tmap st)"
  unfolding ParseLV3MapBlock_token_def
  by (auto intro!: fwd_bind on_token_fwd2 fwd_after[OF BITMAP_fwd] float_member_fwd)


function ParseLV3MapBlock_loop :: "uint \<Rightarrow> texture \<Rightarrow> parser \<Rightarrow> failure + parser \<times> texture" where
  "ParseLV3MapBlock_loop iDepth tmap st =
     (case ParseLV3MapBlock_token tmap st of
        Inl e \<Rightarrow> Inl e
      | Inr (st1, tmap1) \<Rightarrow>
          (case block_tail (Some ''Unable to finish parsing a lv3 map block. Unexpected EOF'')
                  iDepth st1 of
             Inl e \<Rightarrow> Inl e
           | Inr (st2, None) \<Rightarrow> Inr (st2, tmap1)
           | Inr (st2, Some iDepth1) \<Rightarrow> ParseLV3MapBlock_loop iDepth1 tmap1 st2))"
  by pat_completeness auto
termination
  by (relation "measure (\<lambda>(d, m, st). length (m_szFile st))")
     (auto intro: loop_step_less[OF ParseLV3MapBlock_token_fwd])

declare ParseLV3MapBlock_loop.simps [simp del]

lemma ParseLV3MapBlock_loop_fwd:
  "fwd (length (m_szFile st)) (ParseLV3MapBlock_loop d tmap st)"
  by (rule block_loop_fwd[OF ParseLV3MapBlock_loop.simps ParseLV3MapBlock_token_fwd])

definition ParseLV3MapBlock :: "texture \<Rightarrow> parser \<Rightarrow> failure + parser \<times> texture" where
  "ParseLV3MapBlock tmap st = ParseLV3MapBlock_loop 1 tmap st"

lemma ParseLV3MapBlock_fwd:
  "fwd (length (m_szFile st)) (ParseLV3MapBlock tmap st)"
  by (simp add: ParseLV3MapBlock_def ParseLV3MapBlock_loop_fwd)


text \<open>
  \<open>ParseLV2MaterialBlock\<close>. \<open>members_update f mat\<close> is an assignment to members
  of \<open>mat\<close> other than \<open>avSubMaterials\<close>.
\<close>

definition members_update :: "(material_members \<Rightarrow> material_members) \<Rightarrow> material \<Rightarrow> material" where
  "members_update f mat = Members_SubMaterials (f (members mat)) (avSubMaterials mat)"

definition MATERIAL_NAME :: "material \<Rightarrow> parser \<Rightarrow> failure + parser \<times> material" where
  "MATERIAL_NAME mat st =
     (case SkipSpaces st of
        (False, st1) \<Rightarrow> Inl (LogError ''Unable to parse *MATERIAL_NAME block: Unexpected EOL'' st1)
      | (True, st1) \<Rightarrow>
          Inr (st1\<lparr>m_szFile := dropWhile (\<lambda>c. \<not> IsSpaceOrNewLine c) (m_szFile st1)\<rparr>,
               members_update
                 (\<lambda>m. m\<lparr>mMaterialName := takeWhile (\<lambda>c. \<not> IsSpaceOrNewLine c) (m_szFile st1)\<rparr>)
                 mat))"

definition MATERIAL_SHADING :: "material \<Rightarrow> parser \<Rightarrow> failure + parser \<times> material" where
  "MATERIAL_SHADING mat st =
     on_token ''Blinn'' 5 st (\<lambda>st1. Inr (st1, members_update (\<lambda>m. m\<lparr>mShading := Blinn\<rparr>) mat))
    (on_token ''Phong'' 5 st (\<lambda>st1. Inr (st1, members_update (\<lambda>m. m\<lparr>mShading := Phong\<rparr>) mat))
    (on_token ''Flat'' 4 st (\<lambda>st1. Inr (st1, members_update (\<lambda>m. m\<lparr>mShading := Flat\<rparr>) mat))
    (on_token ''Wire'' 4 st (\<lambda>st1. Inr (st1, members_update (\<lambda>m. m\<lparr>mShading := Wire\<rparr>) mat))
       (Inr (snd (SkipToNextToken st), members_update (\<lambda>m. m\<lparr>mShading := Gouraud\<rparr>) mat)))))"

text \<open>A map keyword: \<open>SkipOpeningBracket(); ParseLV3MapBlock(mat.sTex...)\<close>.\<close>

definition MAP ::
  "(material_members \<Rightarrow> texture) \<Rightarrow> (texture \<Rightarrow> material_members \<Rightarrow> material_members) \<Rightarrow>
     material \<Rightarrow> parser \<Rightarrow> failure + parser \<times> material" where
  "MAP get put mat st =
     (case ParseLV3MapBlock (get (members mat)) (snd (SkipOpeningBracket st)) of
        Inl e \<Rightarrow> Inl e
      | Inr (st1, tmap) \<Rightarrow> Inr (st1, members_update (put tmap) mat))"

text \<open>
  The keywords of a material block before \<open>*SUBMATERIAL\<close>, which is the last branch of
  the chain and calls \<open>ParseLV2MaterialBlock\<close> again: \<open>otherwise\<close> stands for it.
  The data of the loop are the material and the local counter \<open>iNumSubMaterials\<close>.
\<close>

definition ParseLV2MaterialBlock_tokens ::
  "material \<times> uint \<Rightarrow> parser \<Rightarrow> (failure + parser \<times> (material \<times> uint)) \<Rightarrow>
     failure + parser \<times> (material \<times> uint)" where
  "ParseLV2MaterialBlock_tokens a st otherwise =
     (case a of (mat, iNumSubMaterials) \<Rightarrow>
        on_token ''*MATERIAL_NAME'' 14 st
          (\<lambda>st1. case MATERIAL_NAME mat st1 of
               Inl e \<Rightarrow> Inl e | Inr (st2, mat1) \<Rightarrow> Inr (st2, mat1, iNumSubMaterials))
       (on_token ''*MATERIAL_AMBIENT'' 17 st
          (\<lambda>st1. let (st2, v) = ParseLV4MeshFloatTriple st1
                  in Inr (st2, members_update (\<lambda>m. m\<lparr>mAmbient := v\<rparr>) mat, iNumSubMaterials))
       (on_token ''*MATERIAL_DIFFUSE'' 17 st
          (\<lambda>st1. let (st2, v) = ParseLV4MeshFloatTriple st1
                  in Inr (st2, members_update (\<lambda>m. m\<lparr>mDiffuse := v\<rparr>) mat, iNumSubMaterials))
       (on_token ''*MATERIAL_SPECULAR'' 18 st
          (\<lambda>st1. let (st2, v) = ParseLV4MeshFloatTriple st1
                  in Inr (st2, members_update (\<lambda>m. m\<lparr>mSpecular := v\<rparr>) mat, iNumSubMaterials))
       (on_token ''*MATERIAL_SHADING'' 17 st
          (\<lambda>st1. case MATERIAL_SHADING mat st1 of
               Inl e \<Rightarrow> Inl e | Inr (st2, mat1) \<Rightarrow> Inr (st2, mat1, iNumSubMaterials))
       (on_token ''*MATERIAL_TRANSPARENCY'' 22 st
          (\<lambda>st1. let (st2, f) = ParseLV4MeshFloat st1
                  in Inr (st2, members_update (\<lambda>m. m\<lparr>mTransparency := float_sub (Finite 1) f\<rparr>) mat,
                          iNumSubMaterials))
       (on_token ''*MATERIAL_SELFILLUM'' 19 st
          (\<lambda>st1. let (st2, f) = ParseLV4MeshFloat st1
                  in Inr (st2, members_update (\<lambda>m. m\<lparr>mEmissive := (f, f, f)\<rparr>) mat,
                          iNumSubMaterials))
       (on_token ''*MATERIAL_SHINE'' 15 st
          (\<lambda>st1. let (st2, f) = ParseLV4MeshFloat st1
                  in Inr (st2, members_update (\<lambda>m. m\<lparr>mSpecularExponent := float_mul f (Finite 15)\<rparr>) mat,
                          iNumSubMaterials))
       (on_token ''*MAP_DIFFUSE'' 12 st
          (\<lambda>st1. case MAP sTexDiffuse (\<lambda>t m. m\<lparr>sTexDiffuse := t\<rparr>) mat st1 of
               Inl e \<Rightarrow> Inl e | Inr (st2, mat1) \<Rightarrow> Inr (st2, mat1, iNumSubMaterials))
       (on_token ''*MAP_AMBIENT'' 12 st
          (\<lambda>st1. case MAP sTexAmbient (\<lambda>t m. m\<lparr>sTexAmbient := t\<rparr>) mat st1 of
               Inl e \<Rightarrow> Inl e | Inr (st2, mat1) \<Rightarrow> Inr (st2, mat1, iNumSubMaterials))
       (on_token ''*MAP_SPECULAR'' 13 st
          (\<lambda>st1. case MAP sTexSpecular (\<lambda>t m. m\<lparr>sTexSpecular := t\<rparr>) mat st1 of
               Inl e \<Rightarrow> Inl e | Inr (st2, mat1) \<Rightarrow> Inr (st2, mat1, iNumSubMaterials))
       (on_token ''*MAP_OPACITY'' 12 st
          (\<lambda>st1. case MAP sTexOpacity (\<lambda>t m. m\<lparr>sTexOpacity := t\<rparr>) mat st1 of
               Inl e \<Rightarrow> Inl e | Inr (st2, mat1) \<Rightarrow> Inr (st2, mat1, iNumSubMaterials))
       (on_token ''*MAP_SELFILLUM'' 14 st
          (\<lambda>st1. case MAP sTexEmissive (\<lambda>t m. m\<lparr>sTexEmissive := t\<rparr>) mat st1 of
               Inl e \<Rightarrow> Inl e | Inr (st2, mat1) \<Rightarrow> Inr (st2, mat1, iNumSubMaterials))
       (on_token ''*MAP_BUMP'' 9 st
          (\<lambda>st1. case MAP sTexBump (\<lambda>t m. m\<lparr>sTexBump := t\<rparr>) mat st1 of
               Inl e \<Rightarrow> Inl e | Inr (st2, mat1) \<Rightarrow> Inr (st2, mat1, iNumSubMaterials))
       (on_token ''*MAP_SHINE'' 10 st
          (\<lambda>st1. case MAP sTexShininess (\<lambda>t m. m\<lparr>sTexShininess := t\<rparr>) mat st1 of
               Inl e \<Rightarrow> Inl e | Inr (st2, mat1) \<Rightarrow> Inr (st2, mat1, iNumSubMaterials))
       (on_token ''*NUMSUBMTLS'' 11 st
          (\<lambda>st1. let (st2, n) = ParseLV4MeshLong st1
                  in Inr (st2, Members_SubMaterials (members mat)
                                 (resize (unat n) Material (avSubMaterials mat)), n))
          otherwise))))))))))))))))"

text \<open>
  The index of \<open>*MATERIAL\<close> and of \<open>*SUBMATERIAL\<close>: parsed, and replaced by the count
  minus one, with a warning, when it is not below the count.
\<close>

definition clamp_index :: "string \<Rightarrow> uint \<Rightarrow> parser \<Rightarrow> parser \<times> uint" where
  "clamp_index szWarn iCount st =
     (let (st1, iIndex) = ParseLV4MeshLong st in
      if iIndex \<ge> iCount then (LogWarning szWarn st1, iCount - 1) else (st1, iIndex))"

lemma clamp_index_len:
  "clamp_index w c st = (st', i) \<Longrightarrow> length (m_szFile st') \<le> length (m_szFile st)"
  by (auto simp: clamp_index_def Let_def split: prod.splits if_splits dest!: ParseLV4MeshLong_len)

lemma skip_less: "skip (Suc k) st = Inr st1 \<Longrightarrow> length (m_szFile st1) < length (m_szFile st)"
proof -
  assume a: "skip (Suc k) st = Inr st1"
  have "strlen (m_szFile st) \<le> length (m_szFile st)"
    unfolding strlen_def by (rule length_takeWhile_le)
  with a show ?thesis by (auto simp: skip_def split: if_splits)
qed

lemma on_token_fwd3:
  assumes "\<And>st1. skip (k + 1) st = Inr st1 \<Longrightarrow> fwd n (body st1)"
    and "fwd n other"
  shows "fwd n (on_token lit k st body other)"
  using assms by (auto simp: on_token_def split: token_match.splits sum.splits)

lemma MATERIAL_NAME_fwd: "fwd (length (m_szFile st)) (MATERIAL_NAME mat st)"
  using len_dropWhile[of "\<lambda>c. \<not> IsSpaceOrNewLine c"]
  by (auto simp: MATERIAL_NAME_def split: prod.splits bool.splits dest!: SkipSpaces_len
        intro: le_trans)

lemma MATERIAL_SHADING_fwd: "fwd (length (m_szFile st)) (MATERIAL_SHADING mat st)"
  unfolding MATERIAL_SHADING_def by (auto intro!: on_token_fwd)

lemma MAP_fwd: "fwd (length (m_szFile st)) (MAP get put mat st)"
  unfolding MAP_def
  by (auto intro!: fwd_bind fwd_after[OF ParseLV3MapBlock_fwd])

lemma ParseLV2MaterialBlock_tokens_fwd:
  assumes "fwd (length (m_szFile st)) otherwise"
  shows "fwd (length (m_szFile st)) (ParseLV2MaterialBlock_tokens a st otherwise)"
  unfolding ParseLV2MaterialBlock_tokens_def using assms
  by (auto intro!: on_token_fwd fwd_bind fwd_after[OF MATERIAL_NAME_fwd]
        fwd_after[OF MATERIAL_SHADING_fwd] fwd_after[OF MAP_fwd]
        simp: Let_def split: prod.splits
        dest!: ParseLV4MeshLong_len ParseLV4MeshFloat_len ParseLV4MeshFloatTriple_len)

text \<open>
  The keyword part of the loop body moves forward, for any function \<open>F\<close> in the place
  of the recursive call that does.
\<close>

lemma ParseLV2MaterialBlock_keywords_fwd:
  fixes F :: "uint \<Rightarrow> material \<times> uint \<Rightarrow> parser \<Rightarrow> failure + parser \<times> (material \<times> uint)"
  assumes "\<And>st1 st2 i sMat. peek st = CHR ''*'' \<Longrightarrow> skip 13 st = Inr st1 \<Longrightarrow>
      clamp_index w (snd a) st1 = (st2, i) \<Longrightarrow>
      vector_get (avSubMaterials (fst a)) i = Inr sMat \<Longrightarrow>
      fwd (length (m_szFile (snd (SkipOpeningBracket st2))))
        (F 1 (sMat, 0) (snd (SkipOpeningBracket st2)))"
  shows "fwd (length (m_szFile st))
     (if peek st = CHR ''*'' then
        ParseLV2MaterialBlock_tokens a st
          (on_token ''*SUBMATERIAL'' 12 st
             (\<lambda>st1. let (st2, iIndex) = clamp_index w (snd a) st1
                in case vector_get (avSubMaterials (fst a)) iIndex of
                     Inl e \<Rightarrow> Inl e
                   | Inr sMat \<Rightarrow>
                       (case F 1 (sMat, 0) (snd (SkipOpeningBracket st2)) of
                          Inl e \<Rightarrow> Inl e
                        | Inr (st3, sMat1, n) \<Rightarrow>
                            Inr (st3, Members_SubMaterials (members (fst a))
                                        ((avSubMaterials (fst a))[unat iIndex := sMat1]),
                                 snd a)))
             (Inr (st, a)))
      else Inr (st, a))"
proof -
  have "fwd (length (m_szFile st))
          (let (st2, iIndex) = clamp_index w (snd a) st1
           in case vector_get (avSubMaterials (fst a)) iIndex of
                Inl e \<Rightarrow> Inl e
              | Inr sMat \<Rightarrow>
                  (case F 1 (sMat, 0) (snd (SkipOpeningBracket st2)) of
                     Inl e \<Rightarrow> Inl e
                   | Inr (st3, sMat1, n) \<Rightarrow>
                       Inr (st3, Members_SubMaterials (members (fst a))
                                   ((avSubMaterials (fst a))[unat iIndex := sMat1]),
                            snd a)))"
    if s: "skip (12 + 1) st = Inr st1" and p: "peek st = CHR ''*''" for st1
  proof -
    obtain st2 i where c: "clamp_index w (snd a) st1 = (st2, i)"
      by (cases "clamp_index w (snd a) st1")
    from s have l1: "length (m_szFile st1) \<le> length (m_szFile st)" by (rule skip_len)
    from clamp_index_len[OF c] l1
    have l2: "length (m_szFile (snd (SkipOpeningBracket st2))) \<le> length (m_szFile st)"
      by simp
    show ?thesis
    proof (cases "vector_get (avSubMaterials (fst a)) i")
      case (Inl e)
      with c show ?thesis by simp
    next
      case (Inr sMat)
      from assms[OF p _ c Inr] s
      have "fwd (length (m_szFile (snd (SkipOpeningBracket st2))))
              (F 1 (sMat, 0) (snd (SkipOpeningBracket st2)))" by simp
      from fwd_mono[OF this l2] c Inr show ?thesis
        by (auto split: sum.splits)
    qed
  qed
  then show ?thesis
    by (auto intro!: ParseLV2MaterialBlock_tokens_fwd on_token_fwd3)
qed

function (domintros) ParseLV2MaterialBlock_loop ::
  "uint \<Rightarrow> material \<times> uint \<Rightarrow> parser \<Rightarrow> failure + parser \<times> (material \<times> uint)" where
  "ParseLV2MaterialBlock_loop iDepth a st =
     (case (if peek st = CHR ''*'' then
              ParseLV2MaterialBlock_tokens a st
                (on_token ''*SUBMATERIAL'' 12 st
                   (\<lambda>st1. let (st2, iIndex) =
                             clamp_index ''Out of range: submaterial index is too large'' (snd a) st1
                      in case vector_get (avSubMaterials (fst a)) iIndex of
                           Inl e \<Rightarrow> Inl e
                         | Inr sMat \<Rightarrow>
                             (case ParseLV2MaterialBlock_loop 1 (sMat, 0)
                                     (snd (SkipOpeningBracket st2)) of
                                Inl e \<Rightarrow> Inl e
                              | Inr (st3, sMat1, n) \<Rightarrow>
                                  Inr (st3, Members_SubMaterials (members (fst a))
                                              ((avSubMaterials (fst a))[unat iIndex := sMat1]),
                                       snd a)))
                   (Inr (st, a)))
            else Inr (st, a)) of
        Inl e \<Rightarrow> Inl e
      | Inr (st1, a1) \<Rightarrow>
          (case block_tail (Some ''Unable to finish parsing a lv2 material block. Unexpected EOF'')
                  iDepth st1 of
             Inl e \<Rightarrow> Inl e
           | Inr (st2, None) \<Rightarrow> Inr (st2, a1)
           | Inr (st2, Some iDepth1) \<Rightarrow> ParseLV2MaterialBlock_loop iDepth1 a1 st2))"
  by pat_completeness auto


lemma ParseLV2MaterialBlock_loop_fwd_dom:
  "ParseLV2MaterialBlock_loop_dom (d, a, st) \<Longrightarrow>
     fwd (length (m_szFile st)) (ParseLV2MaterialBlock_loop d a st)"
proof (induction rule: ParseLV2MaterialBlock_loop.pinduct)
  case (1 iDepth a st)
  let ?w = "''Out of range: submaterial index is too large''"
  let ?tok = "if peek st = CHR ''*'' then
        ParseLV2MaterialBlock_tokens a st
          (on_token ''*SUBMATERIAL'' 12 st
             (\<lambda>st1. let (st2, iIndex) = clamp_index ?w (snd a) st1
                in case vector_get (avSubMaterials (fst a)) iIndex of
                     Inl e \<Rightarrow> Inl e
                   | Inr sMat \<Rightarrow>
                       (case ParseLV2MaterialBlock_loop 1 (sMat, 0) (snd (SkipOpeningBracket st2)) of
                          Inl e \<Rightarrow> Inl e
                        | Inr (st3, sMat1, n) \<Rightarrow>
                            Inr (st3, Members_SubMaterials (members (fst a))
                                        ((avSubMaterials (fst a))[unat iIndex := sMat1]),
                                 snd a)))
             (Inr (st, a)))
      else Inr (st, a)"
  have tok: "fwd (length (m_szFile st)) ?tok"
  proof (cases "peek st = CHR ''*''")
    case True
    show ?thesis
      by (rule ParseLV2MaterialBlock_keywords_fwd) (rule "1.IH"(1)[OF True], auto)
  next
    case False
    then show ?thesis by simp
  qed
  show ?case
  proof (cases ?tok)
    case (Inl e)
    then show ?thesis by (subst ParseLV2MaterialBlock_loop.psimps[OF "1.hyps"]) simp
  next
    case (Inr r)
    obtain st1 a1 where r: "r = (st1, a1)" by (cases r)
    from tok Inr r have l1: "length (m_szFile st1) \<le> length (m_szFile st)" by simp
    let ?tail = "block_tail
      (Some ''Unable to finish parsing a lv2 material block. Unexpected EOF'') iDepth st1"
    show ?thesis
    proof (cases ?tail)
      case (Inl e)
      with Inr r show ?thesis by (subst ParseLV2MaterialBlock_loop.psimps[OF "1.hyps"]) simp
    next
      case tl: (Inr q)
      obtain st2 od where q: "q = (st2, od)" by (cases q)
      from block_tail_fwd[OF l1 tl[unfolded q]]
      have l2: "length (m_szFile st2) \<le> length (m_szFile st)" .
      show ?thesis
      proof (cases od)
        case None
        with Inr r tl q l2 show ?thesis
          by (subst ParseLV2MaterialBlock_loop.psimps[OF "1.hyps"]) simp
      next
        case (Some d1)
        from "1.IH"(2)[OF Inr[unfolded r] refl tl[unfolded q] refl Some]
        have "fwd (length (m_szFile st2)) (ParseLV2MaterialBlock_loop d1 a1 st2)" .
        from fwd_mono[OF this l2] Inr r tl q Some show ?thesis
          by (subst ParseLV2MaterialBlock_loop.psimps[OF "1.hyps"]) simp
      qed
    qed
  qed
qed

lemma ParseLV2MaterialBlock_loop_total: "All ParseLV2MaterialBlock_loop_dom"
proof (relation "measure (\<lambda>(d, a, st). length (m_szFile st))", goal_cases)
  case 1
  show ?case by simp
next
  case (2 iDepth a st st1 x xa y b)
  from "2"(3,4) have c: "clamp_index ''Out of range: submaterial index is too large'' (snd a) st1 = (xa, y)"
    by simp
  from clamp_index_len[OF c] skip_less[of 12 st st1] "2"(2)
  show ?case by (auto intro: le_less_trans[OF SkipOpeningBracket_len])
next
  case (3 iDepth a st b x y ba xa ya x2)
  have "fwd (length (m_szFile st)) (Inr b :: failure + parser \<times> (material \<times> uint))"
    unfolding "3"(1)[symmetric]
    by (rule ParseLV2MaterialBlock_keywords_fwd)
       (rule ParseLV2MaterialBlock_loop_fwd_dom, rule "3"(6), auto)
  with "3"(2)[symmetric] have "length (m_szFile x) \<le> length (m_szFile st)" by simp
  moreover from "3"(3,5) "3"(4)[symmetric] have "length (m_szFile xa) < length (m_szFile x)"
    by (auto dest: block_tail_again)
  ultimately show ?case by simp
qed

termination ParseLV2MaterialBlock_loop
  by (rule ParseLV2MaterialBlock_loop_total)

declare ParseLV2MaterialBlock_loop.simps [simp del]

lemma ParseLV2MaterialBlock_loop_fwd:
  "fwd (length (m_szFile st)) (ParseLV2MaterialBlock_loop d a st)"
  by (rule ParseLV2MaterialBlock_loop_fwd_dom) (rule ParseLV2MaterialBlock_loop_total[rule_format])

definition ParseLV2MaterialBlock :: "material \<Rightarrow> parser \<Rightarrow> failure + parser \<times> material" where
  "ParseLV2MaterialBlock mat st =
     (case ParseLV2MaterialBlock_loop 1 (mat, 0) st of
        Inl e \<Rightarrow> Inl e
      | Inr (st1, mat1, n) \<Rightarrow> Inr (st1, mat1))"

lemma ParseLV2MaterialBlock_fwd:
  "fwd (length (m_szFile st)) (ParseLV2MaterialBlock mat st)"
  using ParseLV2MaterialBlock_loop_fwd[of st 1 "(mat, 0)"]
  by (auto simp: ParseLV2MaterialBlock_def split: sum.splits)


subsection \<open>The scene, the material list and the top level\<close>

text \<open>
  The members of \<open>Parser\<close> that hold the result. The constructor makes the two colours
  invalid by setting their red component to NaN: an invalid colour is \<open>None\<close> here.
\<close>

record scene =
  m_vMeshes :: "mesh list"
  m_vMaterials :: "material list"
  m_clrBackground :: "aiColor3D option"
  m_clrAmbient :: "aiColor3D option"

definition ParseLV1SceneBlock_token :: "scene \<Rightarrow> parser \<Rightarrow> failure + parser \<times> scene" where
  "ParseLV1SceneBlock_token sc st =
     (if peek st = CHR ''*'' then
        on_token ''*SCENE_BACKGROUND_STATIC'' 24 st
          (\<lambda>st1. let (st2, v) = ParseLV4MeshFloatTriple st1
                  in Inr (st2, sc\<lparr>m_clrBackground := Some v\<rparr>))
       (on_token ''*SCENE_AMBIENT_STATIC'' 21 st
          (\<lambda>st1. let (st2, v) = ParseLV4MeshFloatTriple st1
                  in Inr (st2, sc\<lparr>m_clrAmbient := Some v\<rparr>))
          (Inr (st, sc)))
      else Inr (st, sc))"

lemma ParseLV1SceneBlock_token_fwd:
  "fwd (length (m_szFile st)) (ParseLV1SceneBlock_token sc st)"
  unfolding ParseLV1SceneBlock_token_def
  by (auto intro!: on_token_fwd simp: Let_def split: prod.splits
        dest!: ParseLV4MeshFloatTriple_len)

function ParseLV1SceneBlock_loop :: "uint \<Rightarrow> scene \<Rightarrow> parser \<Rightarrow> failure + parser \<times> scene" where
  "ParseLV1SceneBlock_loop iDepth sc st =
     (case ParseLV1SceneBlock_token sc st of
        Inl e \<Rightarrow> Inl e
      | Inr (st1, sc1) \<Rightarrow>
          (case block_tail None iDepth st1 of
             Inl e \<Rightarrow> Inl e
           | Inr (st2, None) \<Rightarrow> Inr (st2, sc1)
           | Inr (st2, Some iDepth1) \<Rightarrow> ParseLV1SceneBlock_loop iDepth1 sc1 st2))"
  by pat_completeness auto
termination
  by (relation "measure (\<lambda>(d, a, st). length (m_szFile st))")
     (auto intro: loop_step_less[OF ParseLV1SceneBlock_token_fwd])

declare ParseLV1SceneBlock_loop.simps [simp del]

lemma ParseLV1SceneBlock_loop_fwd:
  "fwd (length (m_szFile st)) (ParseLV1SceneBlock_loop d sc st)"
  by (rule block_loop_fwd[OF ParseLV1SceneBlock_loop.simps ParseLV1SceneBlock_token_fwd])

definition ParseLV1SceneBlock :: "scene \<Rightarrow> parser \<Rightarrow> failure + parser \<times> scene" where
  "ParseLV1SceneBlock sc st = ParseLV1SceneBlock_loop 1 sc st"

lemma ParseLV1SceneBlock_fwd:
  "fwd (length (m_szFile st)) (ParseLV1SceneBlock sc st)"
  by (simp add: ParseLV1SceneBlock_def ParseLV1SceneBlock_loop_fwd)

text \<open>
  \<open>ParseLV1MaterialListBlock\<close>. The data of the loop are the scene and the local
  counter \<open>iMaterialCount\<close>.
\<close>

definition MATERIAL :: "scene \<Rightarrow> uint \<Rightarrow> parser \<Rightarrow> failure + parser \<times> scene" where
  "MATERIAL sc iMaterialCount st =
     (let (st1, iIndex) =
            clamp_index ''Out of range: material index is too large'' iMaterialCount st
      in case vector_get (m_vMaterials sc) iIndex of
           Inl e \<Rightarrow> Inl e
         | Inr sMat \<Rightarrow>
             (case ParseLV2MaterialBlock sMat (snd (SkipOpeningBracket st1)) of
                Inl e \<Rightarrow> Inl e
              | Inr (st2, sMat1) \<Rightarrow>
                  Inr (st2, sc\<lparr>m_vMaterials := (m_vMaterials sc)[unat iIndex := sMat1]\<rparr>)))"

definition ParseLV1MaterialListBlock_token ::
  "scene \<times> uint \<Rightarrow> parser \<Rightarrow> failure + parser \<times> (scene \<times> uint)" where
  "ParseLV1MaterialListBlock_token a st =
     (case a of (sc, iMaterialCount) \<Rightarrow>
        if peek st = CHR ''*'' then
          on_token ''*MATERIAL_COUNT'' 15 st
            (\<lambda>st1. let (st2, n) = ParseLV4MeshLong st1
                    in Inr (st2, sc\<lparr>m_vMaterials := resize (unat n) Material (m_vMaterials sc)\<rparr>, n))
         (on_token ''*MATERIAL'' 9 st
            (\<lambda>st1. case MATERIAL sc iMaterialCount st1 of
                 Inl e \<Rightarrow> Inl e | Inr (st2, sc1) \<Rightarrow> Inr (st2, sc1, iMaterialCount))
            (Inr (st, a)))
        else Inr (st, a))"

lemma MATERIAL_fwd: "fwd (length (m_szFile st)) (MATERIAL sc n st)"
proof -
  obtain st1 i where c: "clamp_index ''Out of range: material index is too large'' n st = (st1, i)"
    by (cases "clamp_index ''Out of range: material index is too large'' n st")
  show ?thesis
  proof (cases "vector_get (m_vMaterials sc) i")
    case (Inl e)
    with c show ?thesis by (simp add: MATERIAL_def)
  next
    case (Inr sMat)
    with c clamp_index_len[OF c] show ?thesis
      by (auto simp: MATERIAL_def intro!: fwd_bind fwd_after[OF ParseLV2MaterialBlock_fwd])
  qed
qed

lemma ParseLV1MaterialListBlock_token_fwd:
  "fwd (length (m_szFile st)) (ParseLV1MaterialListBlock_token a st)"
  unfolding ParseLV1MaterialListBlock_token_def
  by (auto intro!: on_token_fwd fwd_bind fwd_after[OF MATERIAL_fwd]
        simp: Let_def split: prod.splits dest!: ParseLV4MeshLong_len)

function ParseLV1MaterialListBlock_loop ::
  "uint \<Rightarrow> scene \<times> uint \<Rightarrow> parser \<Rightarrow> failure + parser \<times> (scene \<times> uint)" where
  "ParseLV1MaterialListBlock_loop iDepth a st =
     (case ParseLV1MaterialListBlock_token a st of
        Inl e \<Rightarrow> Inl e
      | Inr (st1, a1) \<Rightarrow>
          (case block_tail None iDepth st1 of
             Inl e \<Rightarrow> Inl e
           | Inr (st2, None) \<Rightarrow> Inr (st2, a1)
           | Inr (st2, Some iDepth1) \<Rightarrow> ParseLV1MaterialListBlock_loop iDepth1 a1 st2))"
  by pat_completeness auto
termination
  by (relation "measure (\<lambda>(d, a, st). length (m_szFile st))")
     (auto intro: loop_step_less[OF ParseLV1MaterialListBlock_token_fwd])

declare ParseLV1MaterialListBlock_loop.simps [simp del]

lemma ParseLV1MaterialListBlock_loop_fwd:
  "fwd (length (m_szFile st)) (ParseLV1MaterialListBlock_loop d a st)"
  by (rule block_loop_fwd[OF ParseLV1MaterialListBlock_loop.simps
        ParseLV1MaterialListBlock_token_fwd])

definition ParseLV1MaterialListBlock :: "scene \<Rightarrow> parser \<Rightarrow> failure + parser \<times> scene" where
  "ParseLV1MaterialListBlock sc st =
     (case ParseLV1MaterialListBlock_loop 1 (sc, 0) st of
        Inl e \<Rightarrow> Inl e
      | Inr (st1, sc1, n) \<Rightarrow> Inr (st1, sc1))"

lemma ParseLV1MaterialListBlock_fwd:
  "fwd (length (m_szFile st)) (ParseLV1MaterialListBlock sc st)"
  using ParseLV1MaterialListBlock_loop_fwd[of st 1 "(sc, 0)"]
  by (auto simp: ParseLV1MaterialListBlock_def split: sum.splits)

text \<open>
  \<open>Parse\<close>, the top level. The message of the version check is written in the source
  over two lines, and the six tabs before its second line are part of it.
\<close>

definition Parse_token :: "scene \<Rightarrow> parser \<Rightarrow> failure + parser \<times> scene" where
  "Parse_token sc st =
     (if peek st = CHR ''*'' then
        on_token ''*3DSMAX_ASCIIEXPORT'' 19 st
          (\<lambda>st1. let (st2, iVersion) = ParseLV4MeshLong st1 in
             if iVersion \<noteq> 200 then
               Inr (LogWarning (''Unknown file format version: *3DSMAX_ASCIIEXPORT should ''
                      @ replicate 6 (CHR 0x09) @ ''be 200. Continuing happily ...'') st2, sc)
             else Inr (st2, sc))
       (on_token ''*SCENE'' 6 st (ParseLV1SceneBlock sc)
       (on_token ''*MATERIAL_LIST'' 14 st (ParseLV1MaterialListBlock sc)
       (on_token ''*GEOMOBJECT'' 11 st
          (\<lambda>st1. case ParseLV1GeometryObjectBlock Mesh st1 of
               Inl e \<Rightarrow> Inl e
             | Inr (st2, mesh) \<Rightarrow> Inr (st2, sc\<lparr>m_vMeshes := m_vMeshes sc @ [mesh]\<rparr>))
          (Inr (st, sc)))))
      else Inr (st, sc))"

lemma Parse_token_fwd: "fwd (length (m_szFile st)) (Parse_token sc st)"
  unfolding Parse_token_def
  by (auto intro!: on_token_fwd fwd_bind fwd_after[OF ParseLV1SceneBlock_fwd]
        fwd_after[OF ParseLV1MaterialListBlock_fwd] fwd_after[OF ParseLV1GeometryObjectBlock_fwd]
        simp: Let_def split: prod.splits dest!: ParseLV4MeshLong_len)

function Parse_loop :: "uint \<Rightarrow> scene \<Rightarrow> parser \<Rightarrow> failure + parser \<times> scene" where
  "Parse_loop iDepth sc st =
     (case Parse_token sc st of
        Inl e \<Rightarrow> Inl e
      | Inr (st1, sc1) \<Rightarrow>
          (case block_tail None iDepth st1 of
             Inl e \<Rightarrow> Inl e
           | Inr (st2, None) \<Rightarrow> Inr (st2, sc1)
           | Inr (st2, Some iDepth1) \<Rightarrow> Parse_loop iDepth1 sc1 st2))"
  by pat_completeness auto
termination
  by (relation "measure (\<lambda>(d, a, st). length (m_szFile st))")
     (auto intro: loop_step_less[OF Parse_token_fwd])

declare Parse_loop.simps [simp del]

text \<open>
  The constructor \<open>Parser::Parser(szFile)\<close> followed by \<open>Parse()\<close>: the result is the
  parser with the scene it has built, or the failure.
\<close>

definition Parser :: "string \<Rightarrow> parser \<times> scene" where
  "Parser szFile =
     (\<lparr>m_szFile = szFile, iLineNumber = 0, warnings = []\<rparr>,
      \<lparr>m_vMeshes = [], m_vMaterials = [], m_clrBackground = None, m_clrAmbient = None\<rparr>)"

definition Parse :: "parser \<times> scene \<Rightarrow> failure + parser \<times> scene" where
  "Parse p = Parse_loop 1 (snd p) (fst p)"


section \<open>Properties\<close>

subsection \<open>What the keyword handlers keep, the loops keep\<close>

lemma on_token_InrE:
  assumes "on_token lit k st body other = Inr r"
  obtains st1 where "skip (k + 1) st = Inr st1" "body st1 = Inr r" "TokenMatch lit k st = Match"
    | "other = Inr r" "TokenMatch lit k st = NoMatch"
  using assms by (auto simp: on_token_def split: token_match.splits sum.splits)

text \<open>A property of the data that the keyword handlers keep is kept by the loop.\<close>

lemma block_loop_data:
  fixes F :: "uint \<Rightarrow> 'a \<Rightarrow> parser \<Rightarrow> failure + parser \<times> 'a"
  assumes eq: "\<And>d a st. F d a st =
      (case tok a st of Inl e \<Rightarrow> Inl e
       | Inr (st1, a1) \<Rightarrow>
          (case block_tail eof d st1 of Inl e \<Rightarrow> Inl e
           | Inr (st2, None) \<Rightarrow> Inr (st2, a1)
           | Inr (st2, Some d1) \<Rightarrow> F d1 a1 st2))"
    and tok_fwd: "\<And>a st. fwd (length (m_szFile st)) (tok a st)"
    and inv_tok: "\<And>a st st1 a1. P a \<Longrightarrow> tok a st = Inr (st1, a1) \<Longrightarrow> P a1"
    and init: "P a"
    and res: "F d a st = Inr (st', a')"
  shows "P a'"
  by (rule block_loop_rule[where F=F and tail="block_tail eof" and I="\<lambda>s. P",
        OF eq tok_fwd block_tail_again inv_tok _ init res])

lemma ParseLV3MeshVertexListBlock_token_normals: "ParseLV3MeshVertexListBlock_token n mesh st = Inr (st', mesh') \<Longrightarrow>
   mNormals mesh' = mNormals mesh"
  unfolding ParseLV3MeshVertexListBlock_token_def
  by (auto elim!: on_token_InrE simp: Let_def split: if_splits prod.splits sum.splits)

lemma ParseLV3MeshVertexListBlock_normals: "ParseLV3MeshVertexListBlock n mesh st = Inr (st', mesh') \<Longrightarrow>
   mNormals mesh' = mNormals mesh"
  unfolding ParseLV3MeshVertexListBlock_def
  by (drule block_loop_data[where P="\<lambda>m. mNormals m = mNormals mesh", 
        OF ParseLV3MeshVertexListBlock_loop.simps ParseLV3MeshVertexListBlock_token_fwd, rotated 2])
     (auto dest: ParseLV3MeshVertexListBlock_token_normals)


lemma ParseLV3MeshTListBlock_token_normals: "ParseLV3MeshTListBlock_token n c mesh st = Inr (st', mesh') \<Longrightarrow>
   mNormals mesh' = mNormals mesh"
  unfolding ParseLV3MeshTListBlock_token_def
  by (auto elim!: on_token_InrE simp: Let_def split: if_splits prod.splits sum.splits)

lemma ParseLV3MeshTListBlock_normals: "ParseLV3MeshTListBlock n mesh c st = Inr (st', mesh') \<Longrightarrow>
   mNormals mesh' = mNormals mesh"
  unfolding ParseLV3MeshTListBlock_def
  by (auto split: sum.splits
        dest!: block_loop_data[where P="\<lambda>m. mNormals m = mNormals mesh",
          OF ParseLV3MeshTListBlock_loop.simps ParseLV3MeshTListBlock_token_fwd, rotated 2]
        dest: ParseLV3MeshTListBlock_token_normals)

lemma ParseLV3MeshTFaceListBlock_token_normals: "ParseLV3MeshTFaceListBlock_token n c mesh st = Inr (st', mesh') \<Longrightarrow>
   mNormals mesh' = mNormals mesh"
  unfolding ParseLV3MeshTFaceListBlock_token_def
  by (auto elim!: on_token_InrE simp: Let_def split: if_splits prod.splits sum.splits)

lemma ParseLV3MeshTFaceListBlock_normals: "ParseLV3MeshTFaceListBlock n mesh c st = Inr (st', mesh') \<Longrightarrow>
   mNormals mesh' = mNormals mesh"
  unfolding ParseLV3MeshTFaceListBlock_def
  by (drule block_loop_data[where P="\<lambda>m. mNormals m = mNormals mesh",
        OF ParseLV3MeshTFaceListBlock_loop.simps ParseLV3MeshTFaceListBlock_token_fwd, rotated 2])
     (auto dest: ParseLV3MeshTFaceListBlock_token_normals)

lemma ParseLV3MeshCListBlock_token_normals: "ParseLV3MeshCListBlock_token n mesh st = Inr (st', mesh') \<Longrightarrow>
   mNormals mesh' = mNormals mesh"
  unfolding ParseLV3MeshCListBlock_token_def
  by (auto elim!: on_token_InrE simp: Let_def split: if_splits prod.splits sum.splits)

lemma ParseLV3MeshCListBlock_normals: "ParseLV3MeshCListBlock n mesh st = Inr (st', mesh') \<Longrightarrow>
   mNormals mesh' = mNormals mesh"
  unfolding ParseLV3MeshCListBlock_def
  by (drule block_loop_data[where P="\<lambda>m. mNormals m = mNormals mesh",
        OF ParseLV3MeshCListBlock_loop.simps ParseLV3MeshCListBlock_token_fwd, rotated 2])
     (auto dest: ParseLV3MeshCListBlock_token_normals)

lemma ParseLV3MeshCFaceListBlock_token_normals: "ParseLV3MeshCFaceListBlock_token n mesh st = Inr (st', mesh') \<Longrightarrow>
   mNormals mesh' = mNormals mesh"
  unfolding ParseLV3MeshCFaceListBlock_token_def
  by (auto elim!: on_token_InrE simp: Let_def split: if_splits prod.splits sum.splits)

lemma ParseLV3MeshCFaceListBlock_normals: "ParseLV3MeshCFaceListBlock n mesh st = Inr (st', mesh') \<Longrightarrow>
   mNormals mesh' = mNormals mesh"
  unfolding ParseLV3MeshCFaceListBlock_def
  by (drule block_loop_data[where P="\<lambda>m. mNormals m = mNormals mesh",
        OF ParseLV3MeshCFaceListBlock_loop.simps ParseLV3MeshCFaceListBlock_token_fwd, rotated 2])
     (auto dest: ParseLV3MeshCFaceListBlock_token_normals)

lemma ParseLV3MeshFaceListBlock_token_normals: "ParseLV3MeshFaceListBlock_token n mesh st = Inr (st', mesh') \<Longrightarrow>
   mNormals mesh' = mNormals mesh"
  unfolding ParseLV3MeshFaceListBlock_token_def
  by (auto elim!: on_token_InrE simp: Let_def split: if_splits prod.splits sum.splits)

lemma ParseLV3MeshFaceListBlock_normals: "ParseLV3MeshFaceListBlock n mesh st = Inr (st', mesh') \<Longrightarrow>
   mNormals mesh' = mNormals mesh"
  unfolding ParseLV3MeshFaceListBlock_def
  by (drule block_loop_data[where P="\<lambda>m. mNormals m = mNormals mesh",
        OF ParseLV3MeshFaceListBlock_loop.simps ParseLV3MeshFaceListBlock_token_fwd, rotated 2])
     (auto dest: ParseLV3MeshFaceListBlock_token_normals)

lemma ParseLV3MappingChannel_token_normals: "ParseLV3MappingChannel_token c a st = Inr (st', a') \<Longrightarrow>
   mNormals (fst a') = mNormals (fst a)"
  unfolding ParseLV3MappingChannel_token_def
  by (auto elim!: on_token_InrE simp: Let_def split: if_splits prod.splits sum.splits
        dest!: ParseLV3MeshTListBlock_normals ParseLV3MeshTFaceListBlock_normals)

lemma ParseLV3MappingChannel_normals: "ParseLV3MappingChannel c mesh st = Inr (st', mesh') \<Longrightarrow>
   mNormals mesh' = mNormals mesh"
  unfolding ParseLV3MappingChannel_def
  by (auto split: sum.splits
        dest!: block_loop_data[where P="\<lambda>a. mNormals (fst a) = mNormals mesh",
          OF ParseLV3MappingChannel_loop.simps ParseLV3MappingChannel_token_fwd, rotated 2]
        dest: ParseLV3MappingChannel_token_normals)

lemma MESH_MAPPINGCHANNEL_normals: "MESH_MAPPINGCHANNEL mesh st = Inr (st', mesh') \<Longrightarrow> mNormals mesh' = mNormals mesh"
  unfolding MESH_MAPPINGCHANNEL_def
  by (auto simp: Let_def split: if_splits prod.splits dest!: ParseLV3MappingChannel_normals)

lemma ParseLV2MeshBlock_token_normals: "ParseLV2MeshBlock_token a st = Inr (st', a') \<Longrightarrow>
   mNormals (fst a') = mNormals (fst a)"
  unfolding ParseLV2MeshBlock_token_def
  by (auto elim!: on_token_InrE simp: Let_def split: if_splits prod.splits sum.splits
        dest!: ParseLV3MeshVertexListBlock_normals ParseLV3MeshFaceListBlock_normals ParseLV3MeshTListBlock_normals ParseLV3MeshTFaceListBlock_normals ParseLV3MeshCListBlock_normals ParseLV3MeshCFaceListBlock_normals MESH_MAPPINGCHANNEL_normals)

lemma ParseLV2MeshBlock_normals: "ParseLV2MeshBlock mesh st = Inr (st', mesh') \<Longrightarrow>
   mNormals mesh' = mNormals mesh"
  unfolding ParseLV2MeshBlock_def
  by (auto split: sum.splits
        dest!: block_loop_data[where P="\<lambda>a. mNormals (fst a) = mNormals mesh",
          OF ParseLV2MeshBlock_loop.simps ParseLV2MeshBlock_token_fwd, rotated 2]
        dest: ParseLV2MeshBlock_token_normals)

lemma ParseLV2NodeTransformBlock_token_normals: "ParseLV2NodeTransformBlock_token mesh st = Inr (st', mesh') \<Longrightarrow>
   mNormals mesh' = mNormals mesh"
  unfolding ParseLV2NodeTransformBlock_token_def
  by (auto elim!: on_token_InrE simp: Let_def split: if_splits prod.splits sum.splits)

lemma ParseLV2NodeTransformBlock_normals: "ParseLV2NodeTransformBlock mesh st = Inr (st', mesh') \<Longrightarrow>
   mNormals mesh' = mNormals mesh"
  unfolding ParseLV2NodeTransformBlock_def
  by (drule block_loop_data[where P="\<lambda>m. mNormals m = mNormals mesh",
        OF ParseLV2NodeTransformBlock_loop.simps ParseLV2NodeTransformBlock_token_fwd, rotated 2])
     (auto dest: ParseLV2NodeTransformBlock_token_normals)

lemma NODE_NAME_normals: "NODE_NAME mesh st = Inr (st', mesh') \<Longrightarrow> mNormals mesh' = mNormals mesh"
  unfolding NODE_NAME_def
  by (auto simp: Let_def split: if_splits prod.splits sum.splits bool.splits)

lemma ParseLV1GeometryObjectBlock_token_normals: "ParseLV1GeometryObjectBlock_token mesh st = Inr (st', mesh') \<Longrightarrow>
   mNormals mesh' = mNormals mesh"
  unfolding ParseLV1GeometryObjectBlock_token_def
  by (auto elim!: on_token_InrE split: if_splits dest!: NODE_NAME_normals ParseLV2NodeTransformBlock_normals ParseLV2MeshBlock_normals)

lemma ParseLV1GeometryObjectBlock_normals: "ParseLV1GeometryObjectBlock mesh st = Inr (st', mesh') \<Longrightarrow>
   mNormals mesh' = mNormals mesh"
  unfolding ParseLV1GeometryObjectBlock_def
  by (drule block_loop_data[where P="\<lambda>m. mNormals m = mNormals mesh",
        OF ParseLV1GeometryObjectBlock_loop.simps ParseLV1GeometryObjectBlock_token_fwd, rotated 2])
     (auto dest: ParseLV1GeometryObjectBlock_token_normals)

lemma ParseLV1SceneBlock_token_meshes: "ParseLV1SceneBlock_token sc st = Inr (st', sc') \<Longrightarrow>
   m_vMeshes sc' = m_vMeshes sc"
  unfolding ParseLV1SceneBlock_token_def
  by (auto elim!: on_token_InrE simp: Let_def split: if_splits prod.splits sum.splits)

lemma ParseLV1SceneBlock_meshes: "ParseLV1SceneBlock sc st = Inr (st', sc') \<Longrightarrow> m_vMeshes sc' = m_vMeshes sc"
  unfolding ParseLV1SceneBlock_def
  by (drule block_loop_data[where P="\<lambda>m. m_vMeshes m = m_vMeshes sc",
        OF ParseLV1SceneBlock_loop.simps ParseLV1SceneBlock_token_fwd, rotated 2])
     (auto dest: ParseLV1SceneBlock_token_meshes)

lemma MATERIAL_meshes: "MATERIAL sc n st = Inr (st', sc') \<Longrightarrow> m_vMeshes sc' = m_vMeshes sc"
  unfolding MATERIAL_def
  by (auto simp: Let_def split: if_splits prod.splits sum.splits)

lemma ParseLV1MaterialListBlock_token_meshes: "ParseLV1MaterialListBlock_token a st = Inr (st', a') \<Longrightarrow>
   m_vMeshes (fst a') = m_vMeshes (fst a)"
  unfolding ParseLV1MaterialListBlock_token_def
  by (auto elim!: on_token_InrE simp: Let_def split: if_splits prod.splits sum.splits dest!: MATERIAL_meshes)

lemma ParseLV1MaterialListBlock_meshes: "ParseLV1MaterialListBlock sc st = Inr (st', sc') \<Longrightarrow>
   m_vMeshes sc' = m_vMeshes sc"
  unfolding ParseLV1MaterialListBlock_def
  by (auto split: sum.splits
        dest!: block_loop_data[where P="\<lambda>a. m_vMeshes (fst a) = m_vMeshes sc",
          OF ParseLV1MaterialListBlock_loop.simps ParseLV1MaterialListBlock_token_fwd, rotated 2]
        dest: ParseLV1MaterialListBlock_token_meshes)

lemma Parse_token_normals: "Parse_token sc st = Inr (st', sc') \<Longrightarrow>
   \<forall>m \<in> set (m_vMeshes sc). mNormals m = [] \<Longrightarrow> \<forall>m \<in> set (m_vMeshes sc'). mNormals m = []"
  unfolding Parse_token_def
  by (auto elim!: on_token_InrE simp: Let_def Mesh_def split: if_splits prod.splits sum.splits
        dest!: ParseLV1SceneBlock_meshes ParseLV1MaterialListBlock_meshes ParseLV1GeometryObjectBlock_normals)



subsection \<open>Evaluation on concrete inputs\<close>

text \<open>
  The definitions are evaluated by rewriting: the loops are unfolded one step at a time,
  where their arguments are known, and the step is then computed with the definitions of
  the keyword handlers and of the primitives.
\<close>

lemma strncmp_eq_numeral [simp]:
  "strncmp_eq a b (numeral k) =
     (if peek_str a \<noteq> peek_str b then False
      else if peek_str a = NUL then True
      else strncmp_eq (tl a) (tl b) (pred_numeral k))"
  by (simp add: numeral_eq_Suc)

lemma float_exponent_upto_numeral [simp]:
  "float_exponent_upto (numeral k) a =
     (if 2 ^ numeral k \<le> a * 2 ^ 126 then int (numeral k) - 126
      else float_exponent_upto (pred_numeral k) a)"
  by (simp add: numeral_eq_Suc)

lemmas eval_defs = peek_def peek_str_def advance_def TokenMatch_def skip_def strlen_def
  on_token_def IsSpace_def IsLineEnd_def IsSpaceOrNewLine_def SkipSpaces_def
  SkipSpacesAndLineEnd_def SkipToNextToken_def SkipOpeningBracket_def SkipSection_def
  block_tail_def block_tail_normals_def LogWarning_def LogError_def
  ParseLV4MeshLong_def ParseLV4MeshFloat_def ParseLV4MeshFloatTriple_def
  ParseLV4MeshFloatTriple_indexed_def ParseLV4MeshLongTriple_def
  ParseLV4MeshLongTriple_indexed_def
  strtol10_def strtol10_str_def is_digit_def digit_value_def
  fast_atof_move_def fast_atof_move_str_def fast_atof_fraction_def fast_atof_exponent_def
  vector_set_def vector_get_def resize_def scan_closing_quote_def clamp_index_def
  face_label_def set_index_def skip_to_keyword_on_line_def members_update_def
  float_of_real_def float_round_def float_exponent_def round_to_even_def
  float_sub_def float_mul_def zero_float_def one_float_def

lemmas token_defs = Parse_token_def ParseLV1SceneBlock_token_def
  ParseLV1MaterialListBlock_token_def MATERIAL_def ParseLV2MaterialBlock_tokens_def
  MATERIAL_NAME_def MATERIAL_SHADING_def MAP_def ParseLV3MapBlock_token_def BITMAP_def
  ParseLV1GeometryObjectBlock_token_def NODE_NAME_def ParseLV2NodeTransformBlock_token_def
  ParseLV2MeshBlock_token_def MESH_MAPPINGCHANNEL_def ParseLV3MappingChannel_token_def
  ParseLV3MeshVertexListBlock_token_def ParseLV3MeshFaceListBlock_token_def
  ParseLV3MeshTListBlock_token_def ParseLV3MeshTFaceListBlock_token_def
  ParseLV3MeshCListBlock_token_def ParseLV3MeshCFaceListBlock_token_def
  ParseLV3MeshNormalListBlock_token_def
  ParseLV4MeshFace_def ParseLV4MeshFace_index_def ParseLV4MeshFace_attributes_def

lemmas block_defs = Parse_def Parser_def ParseLV1SceneBlock_def ParseLV1MaterialListBlock_def
  ParseLV2MaterialBlock_def ParseLV3MapBlock_def ParseLV1GeometryObjectBlock_def
  ParseLV2NodeTransformBlock_def ParseLV2MeshBlock_def ParseLV3MappingChannel_def
  ParseLV3MeshVertexListBlock_def ParseLV3MeshFaceListBlock_def ParseLV3MeshTListBlock_def
  ParseLV3MeshTFaceListBlock_def ParseLV3MeshCListBlock_def ParseLV3MeshCFaceListBlock_def
  ParseLV3MeshNormalListBlock_def

lemmas loop_simps = Parse_loop.simps ParseLV1SceneBlock_loop.simps
  ParseLV1MaterialListBlock_loop.simps ParseLV2MaterialBlock_loop.simps
  ParseLV3MapBlock_loop.simps ParseLV1GeometryObjectBlock_loop.simps
  ParseLV2NodeTransformBlock_loop.simps ParseLV2MeshBlock_loop.simps
  ParseLV3MappingChannel_loop.simps ParseLV3MeshVertexListBlock_loop.simps
  ParseLV3MeshFaceListBlock_loop.simps ParseLV3MeshTListBlock_loop.simps
  ParseLV3MeshTFaceListBlock_loop.simps ParseLV3MeshCListBlock_loop.simps
  ParseLV3MeshCFaceListBlock_loop.simps ParseLV3MeshNormalListBlock_loop.simps
  SkipSection_loop.simps ParseLV4MeshFace_smoothing.simps

lemmas weak_congs = sum.case_cong_weak prod.case_cong_weak option.case_cong_weak
  token_match.case_cong_weak if_weak_cong list.case_cong_weak bool.case_cong_weak

subsection \<open>The loops at the end of the input\<close>

lemma eof_material:
  "peek st = NUL \<Longrightarrow> ParseLV2MaterialBlock_loop d a st =
     Inl (LogError ''Unable to finish parsing a lv2 material block. Unexpected EOF'' st)"
  by (subst ParseLV2MaterialBlock_loop.simps) (simp add: block_tail_def)

lemma eof_map:
  "peek st = NUL \<Longrightarrow> ParseLV3MapBlock_loop d tmap st =
     Inl (LogError ''Unable to finish parsing a lv3 map block. Unexpected EOF'' st)"
  by (subst ParseLV3MapBlock_loop.simps) (simp add: ParseLV3MapBlock_token_def block_tail_def)

lemma eof_node:
  "peek st = NUL \<Longrightarrow> ParseLV2NodeTransformBlock_loop d mesh st =
     Inl (LogError ''Unable to finish parsing a lv2 node transform block. Unexpected EOF'' st)"
  by (subst ParseLV2NodeTransformBlock_loop.simps)
     (simp add: ParseLV2NodeTransformBlock_token_def block_tail_def split: prod.splits)

lemma eof_mesh:
  "peek st = NUL \<Longrightarrow> ParseLV2MeshBlock_loop d a st =
     Inl (LogError ''Unable to finish parsing a lv2 mesh block. Unexpected EOF'' st)"
  by (subst ParseLV2MeshBlock_loop.simps)
     (simp add: ParseLV2MeshBlock_token_def block_tail_def split: prod.splits)

lemma eof_vertex:
  "peek st = NUL \<Longrightarrow> ParseLV3MeshVertexListBlock_loop n d mesh st =
     Inl (LogError ''Unable to finish parsing a lv3 vertex list block. Unexpected EOF'' st)"
  by (subst ParseLV3MeshVertexListBlock_loop.simps)
     (simp add: ParseLV3MeshVertexListBlock_token_def block_tail_def)

lemma eof_face:
  "peek st = NUL \<Longrightarrow> ParseLV3MeshFaceListBlock_loop n d mesh st =
     Inl (LogError ''Unable to finish parsing LV3 *MESH_FACE_LIST block. Unexpected EOF'' st)"
  by (subst ParseLV3MeshFaceListBlock_loop.simps)
     (simp add: ParseLV3MeshFaceListBlock_token_def block_tail_def)

lemma eof_tvert:
  "peek st = NUL \<Longrightarrow> ParseLV3MeshTListBlock_loop n c d mesh st =
     Inl (LogError ''Unable to finish parsing LV3 *MESH_VERTEX_LIST block. Unexpected EOF'' st)"
  by (subst ParseLV3MeshTListBlock_loop.simps)
     (simp add: ParseLV3MeshTListBlock_token_def block_tail_def)

lemma eof_tface:
  "peek st = NUL \<Longrightarrow> ParseLV3MeshTFaceListBlock_loop n c d mesh st =
     Inl (LogError ''Unable to finish parsing LV3 *MESH_TFACELIST block. Unexpected EOF'' st)"
  by (subst ParseLV3MeshTFaceListBlock_loop.simps)
     (simp add: ParseLV3MeshTFaceListBlock_token_def block_tail_def)

lemma eof_channel:
  "peek st = NUL \<Longrightarrow> ParseLV3MappingChannel_loop c d a st =
     Inl (LogError ''Unable to finish parsing a LV3 *MESH_MAPPINGCHANNEL block. Unexpected EOF'' st)"
  by (subst ParseLV3MappingChannel_loop.simps)
     (simp add: ParseLV3MappingChannel_token_def block_tail_def split: prod.splits)

lemma eof_cvert:
  "peek st = NUL \<Longrightarrow> ParseLV3MeshCListBlock_loop n d mesh st =
     Inl (LogError ''Unable to finish parsing LV3 *MESH_CVERTLIST block. Unexpected EOF'' st)"
  by (subst ParseLV3MeshCListBlock_loop.simps)
     (simp add: ParseLV3MeshCListBlock_token_def block_tail_def)

lemma eof_cface:
  "peek st = NUL \<Longrightarrow> ParseLV3MeshCFaceListBlock_loop n d mesh st =
     Inl (LogError ''Unable to finish parsing LV3 *MESH_CFACELIST block. Unexpected EOF'' st)"
  by (subst ParseLV3MeshCFaceListBlock_loop.simps)
     (simp add: ParseLV3MeshCFaceListBlock_token_def block_tail_def)

lemma eof_normals:
  "peek st = NUL \<Longrightarrow> ParseLV3MeshNormalListBlock_loop d mesh st =
     Inl (LogError ''Unable to parse *MESH_NORMALS Element: Unexpected EOL [#1]'' st)"
  by (subst ParseLV3MeshNormalListBlock_loop.simps)
     (simp add: ParseLV3MeshNormalListBlock_token_def block_tail_normals_def)

lemma eof_parse: "peek st = NUL \<Longrightarrow> Parse_loop d sc st = Inr (st, sc)"
  by (subst Parse_loop.simps) (simp add: Parse_token_def block_tail_def)

lemma eof_scene: "peek st = NUL \<Longrightarrow> ParseLV1SceneBlock_loop d sc st = Inr (st, sc)"
  by (subst ParseLV1SceneBlock_loop.simps) (simp add: ParseLV1SceneBlock_token_def block_tail_def)

lemma eof_material_list: "peek st = NUL \<Longrightarrow> ParseLV1MaterialListBlock_loop d a st = Inr (st, a)"
  by (subst ParseLV1MaterialListBlock_loop.simps)
     (simp add: ParseLV1MaterialListBlock_token_def block_tail_def split: prod.splits)

lemma eof_geometry: "peek st = NUL \<Longrightarrow> ParseLV1GeometryObjectBlock_loop d mesh st = Inr (st, mesh)"
  by (subst ParseLV1GeometryObjectBlock_loop.simps)
     (simp add: ParseLV1GeometryObjectBlock_token_def block_tail_def)

subsection \<open>Dispatch on a keyword\<close>

text \<open>
  What \<open>on_token\<close> does when the cursor stands on the literal followed by a blank, and when
  the literal does not stand there.
\<close>

lemma strncmp_eq_prefix:
  "NUL \<notin> set lit \<Longrightarrow> strncmp_eq (lit @ s) lit (length lit)"
  by (induction lit) (auto simp: peek_str_def)

lemma strlen_append:
  "NUL \<notin> set lit \<Longrightarrow> strlen (lit @ s) = length lit + strlen s"
  by (induction lit) (auto simp: strlen_def)

lemma on_token_match:
  assumes "m_szFile st = lit @ c # rest" "length lit = k" "NUL \<notin> set lit"
    "IsSpaceOrNewLine c" "c \<noteq> NUL"
  shows "on_token lit k st body other = body (st\<lparr>m_szFile := rest\<rparr>)"
proof -
  have "strncmp_eq (m_szFile st) lit k"
    using strncmp_eq_prefix[OF assms(3), of "c # rest"] assms(1,2) by simp
  moreover have "strlen (m_szFile st) = k + Suc (strlen rest)"
    using strlen_append[OF assms(3), of "c # rest"] assms(1,2,5) by (simp add: strlen_def)
  ultimately show ?thesis
    using assms by (simp add: on_token_def TokenMatch_def skip_def peek_str_def)
qed

lemma on_token_mismatch:
  "\<not> strncmp_eq (m_szFile st) lit k \<Longrightarrow> on_token lit k st body other = other"
  by (simp add: on_token_def TokenMatch_def)

subsection \<open>The vertex references of a face record\<close>

text \<open>
  One reference is a run of blanks, the label, a colon, a run of blanks and a run of digits.
\<close>

lemma dropWhile_run:
  "\<forall>c\<in>set b. P c \<Longrightarrow> \<not> P x \<Longrightarrow> dropWhile P (b @ x # xs) = x # xs"
  by (induction b) simp_all

lemma takeWhile_run:
  "\<forall>c\<in>set d. P c \<Longrightarrow> \<not> P (peek_str r) \<Longrightarrow> takeWhile P (d @ r) = d"
  by (cases r) (simp_all add: peek_str_def)

lemma dropWhile_run2:
  "\<forall>c\<in>set d. P c \<Longrightarrow> \<not> P (peek_str r) \<Longrightarrow> dropWhile P (d @ r) = r"
  by (cases r) (simp_all add: peek_str_def)

lemma strtol10_digits:
  assumes "\<forall>c\<in>set d. is_digit c" "\<not> is_digit (peek_str r)"
  shows "strtol10 (st\<lparr>m_szFile := d @ r\<rparr>) = (st\<lparr>m_szFile := r\<rparr>, fst (strtol10_str d))"
proof -
  have "takeWhile is_digit (d @ r) = d" "dropWhile is_digit (d @ r) = r"
    by (rule takeWhile_run[OF assms], rule dropWhile_run2[OF assms])
  moreover have "takeWhile is_digit d = d" using assms(1) by simp
  ultimately show ?thesis
    by (simp only: strtol10_def strtol10_str_def Let_def prod.case fst_conv
          parser.simps parser.update_convs)
       simp
qed

lemma face_label_cases:
  "face_label c = Some k \<Longrightarrow> c \<in> set ''AaBbCc''"
  by (auto simp: face_label_def split: if_splits)

lemma face_label_not_blank:
  "face_label c = Some k \<Longrightarrow> \<not> IsSpace c \<and> \<not> IsLineEnd c \<and> \<not> is_digit c"
  by (drule face_label_cases) (auto simp: IsSpace_def IsLineEnd_def is_digit_def)

lemma is_digit_not_blank: "is_digit c \<Longrightarrow> \<not> IsSpace c \<and> \<not> IsLineEnd c"
  by (auto simp: is_digit_def IsSpace_def IsLineEnd_def)

lemma SkipSpaces_run:
  assumes "\<forall>c\<in>set b. IsSpace c" "\<not> IsSpace x"
  shows "SkipSpaces (st\<lparr>m_szFile := b @ x # xs\<rparr>) = (\<not> IsLineEnd x, st\<lparr>m_szFile := x # xs\<rparr>)"
  using assms by (simp add: SkipSpaces_def dropWhile_run peek_str_def)

lemma face_index_ref:
  assumes l: "face_label l = Some k"
    and b: "\<forall>c\<in>set b. IsSpace c" "\<forall>c\<in>set b'. IsSpace c"
    and d: "d \<noteq> []" "\<forall>c\<in>set d. is_digit c" "\<not> is_digit (peek_str rest)"
  shows "ParseLV4MeshFace_index (st\<lparr>m_szFile := b @ l # CHR '':'' # b' @ d @ rest\<rparr>) out =
         Inr (st\<lparr>m_szFile := rest\<rparr>,
              out\<lparr>mIndices := set_index k (fst (strtol10_str d)) (mIndices out)\<rparr>)"
proof -
  obtain x d' where dd: "d = x # d'" using d(1) by (cases d) auto
  with d(2) have x: "\<not> IsSpace x" "\<not> IsLineEnd x" using is_digit_not_blank by auto
  note lb = face_label_not_blank[OF l]
  have 1: "SkipSpaces (st\<lparr>m_szFile := b @ l # CHR '':'' # b' @ d @ rest\<rparr>) =
           (True, st\<lparr>m_szFile := l # CHR '':'' # b' @ d @ rest\<rparr>)"
    using SkipSpaces_run[OF b(1), of l _ st] lb by simp
  have 2: "SkipSpaces (st\<lparr>m_szFile := CHR '':'' # b' @ d @ rest\<rparr>) =
           (True, st\<lparr>m_szFile := CHR '':'' # b' @ d @ rest\<rparr>)"
    using SkipSpaces_run[of "[]" "CHR '':''" _ st] by (simp add: IsSpace_def IsLineEnd_def)
  have 3: "SkipSpaces (st\<lparr>m_szFile := b' @ d @ rest\<rparr>) = (True, st\<lparr>m_szFile := d @ rest\<rparr>)"
    using SkipSpaces_run[OF b(2) x(1), of "d' @ rest" st] x(2) by (simp add: dd)
  show ?thesis
    unfolding ParseLV4MeshFace_index_def
    by (simp add: 1 2 3 l peek_def peek_str_def advance_def strtol10_digits[OF d(2,3)])
qed

lemma face_label_not_digit:
  assumes "face_label l = Some k" "\<forall>c\<in>set b. IsSpace c"
  shows "\<not> is_digit (peek_str (b @ l # xs))"
proof (cases b)
  case Nil
  with face_label_not_blank[OF assms(1)] show ?thesis by (simp add: peek_str_def)
next
  case (Cons x b')
  with assms(2) have "IsSpace x" by simp
  then have "\<not> is_digit x" using is_digit_not_blank by blast
  with Cons show ?thesis by (simp add: peek_str_def)
qed

lemma face_indices_refs:
  assumes l: "face_label l1 = Some k1" "face_label l2 = Some k2" "face_label l3 = Some k3"
    and b: "\<forall>c\<in>set (b1 @ b1' @ b2 @ b2' @ b3 @ b3'). IsSpace c"
    and d: "d1 \<noteq> []" "d2 \<noteq> []" "d3 \<noteq> []" "\<forall>c\<in>set (d1 @ d2 @ d3). is_digit c"
      "\<not> is_digit (peek_str rest)"
  shows "ParseLV4MeshFace_indices 3
           (st\<lparr>m_szFile := b1 @ l1 # CHR '':'' # b1' @ d1 @ b2 @ l2 # CHR '':'' # b2' @ d2
                              @ b3 @ l3 # CHR '':'' # b3' @ d3 @ rest\<rparr>) out =
         Inr (st\<lparr>m_szFile := rest\<rparr>,
              out\<lparr>mIndices := set_index k3 (fst (strtol10_str d3))
                                (set_index k2 (fst (strtol10_str d2))
                                  (set_index k1 (fst (strtol10_str d1)) (mIndices out)))\<rparr>)"
proof -
  have bs: "\<forall>c\<in>set b1. IsSpace c" "\<forall>c\<in>set b1'. IsSpace c" "\<forall>c\<in>set b2. IsSpace c"
    "\<forall>c\<in>set b2'. IsSpace c" "\<forall>c\<in>set b3. IsSpace c" "\<forall>c\<in>set b3'. IsSpace c"
    using b by auto
  have ds: "\<forall>c\<in>set d1. is_digit c" "\<forall>c\<in>set d2. is_digit c" "\<forall>c\<in>set d3. is_digit c"
    using d(4) by auto
  have r1: "ParseLV4MeshFace_index
              (st\<lparr>m_szFile := b1 @ l1 # CHR '':'' # b1' @ d1 @ b2 @ l2 # CHR '':'' # b2' @ d2
                              @ b3 @ l3 # CHR '':'' # b3' @ d3 @ rest\<rparr>) out =
            Inr (st\<lparr>m_szFile := b2 @ l2 # CHR '':'' # b2' @ d2 @ b3 @ l3 # CHR '':'' # b3' @ d3 @ rest\<rparr>,
                 out\<lparr>mIndices := set_index k1 (fst (strtol10_str d1)) (mIndices out)\<rparr>)"
    by (rule face_index_ref[OF l(1) bs(1,2) d(1) ds(1) face_label_not_digit[OF l(2) bs(3)]])
  have r2: "ParseLV4MeshFace_index
              (st\<lparr>m_szFile := b2 @ l2 # CHR '':'' # b2' @ d2 @ b3 @ l3 # CHR '':'' # b3' @ d3 @ rest\<rparr>) out' =
            Inr (st\<lparr>m_szFile := b3 @ l3 # CHR '':'' # b3' @ d3 @ rest\<rparr>,
                 out'\<lparr>mIndices := set_index k2 (fst (strtol10_str d2)) (mIndices out')\<rparr>)" for out'
    by (rule face_index_ref[OF l(2) bs(3,4) d(2) ds(2) face_label_not_digit[OF l(3) bs(5)]])
  have r3: "ParseLV4MeshFace_index
              (st\<lparr>m_szFile := b3 @ l3 # CHR '':'' # b3' @ d3 @ rest\<rparr>) out' =
            Inr (st\<lparr>m_szFile := rest\<rparr>,
                 out'\<lparr>mIndices := set_index k3 (fst (strtol10_str d3)) (mIndices out')\<rparr>)" for out'
    by (rule face_index_ref[OF l(3) bs(5,6) d(3) ds(3) d(5)])
  have "ParseLV4MeshFace_indices 3 s out = ParseLV4MeshFace_indices (Suc (Suc (Suc 0))) s out" for s
    by (simp add: numeral_3_eq_3)
  then show ?thesis
    using r1 r2 r3 by (simp del: One_nat_def)
qed

lemma face_index_unrecognized:
  assumes "\<forall>c\<in>set b. IsSpace c" "\<not> IsSpace x" "face_label x = None"
  shows "ParseLV4MeshFace_index (st\<lparr>m_szFile := b @ x # xs\<rparr>) out =
         Inl (ImportErrorException (iLineNumber st)
           ''Unable to parse *MESH_FACE Element: Unexpected EOL. A,B or C expected [#3]'')"
  unfolding ParseLV4MeshFace_index_def
  using assms(3)
  by (cases "IsLineEnd x")
     (simp_all add: SkipSpaces_run[OF assms(1,2)] peek_def peek_str_def LogError_def)

lemma face_indices_fail:
  "ParseLV4MeshFace_indices j st out = Inr (st1, out1) \<Longrightarrow>
   ParseLV4MeshFace_index st1 out1 = Inl e \<Longrightarrow>
   ParseLV4MeshFace_indices (Suc (j + n)) st out = Inl e"
proof (induction j arbitrary: st out)
  case 0
  then show ?case by simp
next
  case (Suc j)
  from Suc.prems(1) obtain a b where
    ab: "ParseLV4MeshFace_index st out = Inr (a, b)"
      "ParseLV4MeshFace_indices j a b = Inr (st1, out1)"
    by (auto split: sum.splits)
  from Suc.IH[OF ab(2) Suc.prems(2)] have "ParseLV4MeshFace_indices (Suc (j + n)) a b = Inl e" .
  then have "ParseLV4MeshFace_indices (Suc (Suc (j + n))) st out = Inl e"
    by (subst ParseLV4MeshFace_indices.simps) (simp only: ab(1) sum.case prod.case)
  then show ?case by (simp only: add_Suc)
qed

lemma face_label_Some:
  "(l, k) \<in> set [(CHR ''A'', 0), (CHR ''a'', 0), (CHR ''B'', 1), (CHR ''b'', 1),
                  (CHR ''C'', 2), (CHR ''c'', 2)] \<Longrightarrow> face_label l = Some k"
  by (auto simp: face_label_def)

lemma face_label_None: "x \<notin> set ''AaBbCc'' \<Longrightarrow> face_label x = None"
  by (simp add: face_label_def)

lemma face_example:
  "ParseLV4MeshFace
     (st\<lparr>m_szFile := ''3: A: 5 B: 7 C: 9 *MESH_SMOOTHING 1,3 *MESH_MTLID 2''\<rparr>) Face =
   Inr (st\<lparr>m_szFile := []\<rparr>,
        Face\<lparr>iFace := 3, mIndices := (5, 7, 9), iSmoothGroup := 10, iMaterial := 2\<rparr>)"
  apply (simp add: ParseLV4MeshFace_def ParseLV4MeshFace_index_def
      ParseLV4MeshFace_attributes_def numeral_3_eq_3 eval_defs Face_def
      cong: weak_congs split del: if_split)
  apply ((simp only: ParseLV4MeshFace_smoothing.simps cong: weak_congs,
          simp add: eval_defs cong: weak_congs split del: if_split)+)
  done

lemma face_example_permuted:
  "ParseLV4MeshFace (st\<lparr>m_szFile := ''3: c: 9 A: 5 b: 7''\<rparr>) Face =
   Inr (st\<lparr>m_szFile := [], iLineNumber := iLineNumber st + 1\<rparr>,
        Face\<lparr>iFace := 3, mIndices := (5, 7, 9)\<rparr>)"
  by (simp add: ParseLV4MeshFace_def ParseLV4MeshFace_index_def
      ParseLV4MeshFace_attributes_def numeral_3_eq_3 eval_defs Face_def
      cong: weak_congs split del: if_split)

lemma face_example_unrecognized:
  "ParseLV4MeshFace (st\<lparr>m_szFile := ''3: A: 5 D: 7 C: 9''\<rparr>) Face =
   Inl (ImportErrorException (iLineNumber st)
     ''Unable to parse *MESH_FACE Element: Unexpected EOL. A,B or C expected [#3]'')"
  by (simp add: ParseLV4MeshFace_def ParseLV4MeshFace_index_def
      ParseLV4MeshFace_attributes_def numeral_3_eq_3 eval_defs Face_def
      cong: weak_congs split del: if_split)


subsection \<open>The scan for the closing quotation mark\<close>

lemma scan_closing_quote_none:
  "DQUOTE \<notin> set s \<Longrightarrow> scan_closing_quote s = Inl ReadPastEnd"
  by (auto simp: scan_closing_quote_def dest: in_set_takeD)

lemma scan_closing_quote_some:
  assumes "DQUOTE \<notin> set path" "NUL \<notin> set path"
  shows "scan_closing_quote (path @ DQUOTE # rest) = Inr (path, DQUOTE # rest)"
proof -
  have "strlen (path @ DQUOTE # rest) = length path + strlen (DQUOTE # rest)"
    by (rule strlen_append[OF assms(2)])
  then have "DQUOTE \<in> set (take (strlen (path @ DQUOTE # rest)) (path @ DQUOTE # rest))"
    by (simp add: strlen_def)
  moreover have "takeWhile (\<lambda>c. c \<noteq> DQUOTE) (path @ DQUOTE # rest) = path"
    "dropWhile (\<lambda>c. c \<noteq> DQUOTE) (path @ DQUOTE # rest) = DQUOTE # rest"
    using assms(1) by (induction path) auto
  ultimately show ?thesis by (simp only: scan_closing_quote_def if_True)
qed


subsection \<open>A keyword compared over more characters than it has\<close>

text \<open>
  \<open>strncmp\<close> over more characters than the literal has compares its terminating NUL
  too: the input matches only where it ends with the literal.
\<close>

lemma strncmp_eq_short:
  "strncmp_eq s lit n \<Longrightarrow> length lit < n \<Longrightarrow> strlen s \<le> length lit"
proof (induction lit arbitrary: s n)
  case Nil
  then obtain m where "n = Suc m" by (cases n) auto
  with Nil show ?case by (cases s) (auto simp: peek_str_def strlen_def split: if_splits)
next
  case (Cons c l)
  then obtain m where n: "n = Suc m" by (cases n) auto
  show ?case
  proof (cases s)
    case Nil
    then show ?thesis by (simp add: strlen_def)
  next
    case (Cons x s')
    show ?thesis
    proof (cases "x = NUL")
      case True
      with Cons show ?thesis by (simp add: strlen_def)
    next
      case False
      with Cons.prems n Cons have "x = c" "strncmp_eq s' l m" "length l < m"
        by (auto simp: peek_str_def split: if_splits)
      from Cons.IH[OF this(2,3)] Cons show ?thesis by (simp add: strlen_def)
    qed
  qed
qed

lemma TokenMatch_short: "length lit < n \<Longrightarrow> TokenMatch lit n st \<noteq> Match"
  by (auto simp: TokenMatch_def dest: strncmp_eq_short)

lemma on_token_short:
  "length lit < n \<Longrightarrow> on_token lit n st body other = Inr r \<Longrightarrow> other = Inr r"
  using TokenMatch_short[of lit n st]
  by (cases "TokenMatch lit n st") (simp_all add: on_token_def)

lemma ParseLV3MeshTFaceListBlock_token_skip:
  "ParseLV3MeshTFaceListBlock_token n c mesh st = Inr (st1, mesh1) \<Longrightarrow> st1 = st \<and> mesh1 = mesh"
  unfolding ParseLV3MeshTFaceListBlock_token_def
  by (auto split: if_splits dest!: on_token_short[rotated])

lemma ParseLV3MeshCFaceListBlock_token_skip:
  "ParseLV3MeshCFaceListBlock_token n mesh st = Inr (st1, mesh1) \<Longrightarrow> st1 = st \<and> mesh1 = mesh"
  unfolding ParseLV3MeshCFaceListBlock_token_def
  by (auto split: if_splits dest!: on_token_short[rotated])

lemma SkipToNextToken_warnings [simp]: "warnings (snd (SkipToNextToken st)) = warnings st"
  by (simp add: SkipToNextToken_def Let_def)

lemma block_tail_warnings:
  "block_tail eof d st = Inr (st2, od) \<Longrightarrow> warnings st2 = warnings st"
  by (auto simp: block_tail_def Let_def advance_def split: if_splits option.splits)

lemma ParseLV3MeshTFaceListBlock_skip:
  assumes "ParseLV3MeshTFaceListBlock n mesh c st = Inr (st', mesh')"
  shows "mesh' = mesh \<and> warnings st' = warnings st"
  by (rule block_loop_rule[where F="ParseLV3MeshTFaceListBlock_loop n c"
        and tok="ParseLV3MeshTFaceListBlock_token n c"
        and I="\<lambda>s a. a = mesh \<and> warnings s = warnings st",
        OF ParseLV3MeshTFaceListBlock_loop.simps ParseLV3MeshTFaceListBlock_token_fwd
           block_tail_again _ _ _ assms[unfolded ParseLV3MeshTFaceListBlock_def]])
     (auto dest: ParseLV3MeshTFaceListBlock_token_skip block_tail_warnings)

lemma ParseLV3MeshCFaceListBlock_skip:
  assumes "ParseLV3MeshCFaceListBlock n mesh st = Inr (st', mesh')"
  shows "mesh' = mesh \<and> warnings st' = warnings st"
  by (rule block_loop_rule[where F="ParseLV3MeshCFaceListBlock_loop n"
        and tok="ParseLV3MeshCFaceListBlock_token n"
        and I="\<lambda>s a. a = mesh \<and> warnings s = warnings st",
        OF ParseLV3MeshCFaceListBlock_loop.simps ParseLV3MeshCFaceListBlock_token_fwd
           block_tail_again _ _ _ assms[unfolded ParseLV3MeshCFaceListBlock_def]])
     (auto dest: ParseLV3MeshCFaceListBlock_token_skip block_tail_warnings)


subsection \<open>The clamped index of a material\<close>

lemma word_pred_less:
  assumes "0 < (n :: uint)"
  shows "n - 1 < n"
proof -
  from assms have n: "n \<noteq> 0" by auto
  have "unat (n - 1) = unat n - 1" by (rule unat_minus_one[OF n])
  moreover have "0 < unat n" by (rule iffD2[OF unat_gt_0 n])
  ultimately have "unat (n - 1) < unat n" by arith
  then show ?thesis by (simp only: word_less_nat_alt)
qed

lemma clamp_index_in_range: "0 < iCount \<Longrightarrow> snd (clamp_index w iCount st) < iCount"
proof -
  assume c: "0 < iCount"
  obtain st1 i where p: "ParseLV4MeshLong st = (st1, i)" by (cases "ParseLV4MeshLong st")
  show ?thesis
  proof (cases "i \<ge> iCount")
    case True
    with p word_pred_less[OF c] show ?thesis by (simp add: clamp_index_def)
  next
    case False
    with p show ?thesis by (simp add: clamp_index_def)
  qed
qed

lemma clamp_index_zero: "snd (clamp_index w 0 st) = - 1"
  by (simp add: clamp_index_def Let_def split: prod.splits)

lemma MATERIAL_empty: "m_vMaterials sc = [] \<Longrightarrow> MATERIAL sc n st = Inl IndexOutOfRange"
  by (simp add: MATERIAL_def vector_get_def split: prod.splits)

lemma SUBMATERIAL_empty:
  assumes "IsSpaceOrNewLine c" "c \<noteq> NUL"
    and s: "m_szFile st = ''*SUBMATERIAL'' @ c # rest"
    and e: "avSubMaterials mat = []"
  shows "ParseLV2MaterialBlock_loop d (mat, n) st = Inl IndexOutOfRange"
proof -
  have p: "peek st = CHR ''*''" using s by (simp add: peek_def peek_str_def)
  have "ParseLV2MaterialBlock_tokens (mat, n) st other = other" for other
    unfolding ParseLV2MaterialBlock_tokens_def
    apply (simp only: prod.case)
    apply ((subst on_token_mismatch, (simp add: s peek_str_def; fail))+)
    apply (rule refl)
    done
  then show ?thesis
    apply (subst ParseLV2MaterialBlock_loop.simps)
    apply (simp only: p if_True)
    apply (subst on_token_match[OF s _ _ assms(1,2)], simp, simp)
    apply (simp add: e vector_get_def split: prod.splits)
    done
qed


subsection \<open>The material block after a value\<close>











subsection \<open>What a mapping channel writes\<close>

text \<open>
  \<open>only_channel c mesh m\<close>: the mesh \<open>m\<close> differs from \<open>mesh\<close> at most in the UV
  channel \<open>c\<close>, that is in the element \<open>c\<close> of \<open>amTexCoords\<close> and of
  \<open>mNumUVComponents\<close>.
\<close>

definition only_channel :: "uint \<Rightarrow> mesh \<Rightarrow> mesh \<Rightarrow> bool" where
  "only_channel c mesh m \<longleftrightarrow>
     m\<lparr>amTexCoords := [], mNumUVComponents := []\<rparr> =
       mesh\<lparr>amTexCoords := [], mNumUVComponents := []\<rparr> \<and>
     length (amTexCoords m) = length (amTexCoords mesh) \<and>
     length (mNumUVComponents m) = length (mNumUVComponents mesh) \<and>
     (\<forall>k. k \<noteq> unat c \<longrightarrow> amTexCoords m ! k = amTexCoords mesh ! k \<and>
                           mNumUVComponents m ! k = mNumUVComponents mesh ! k)"

lemma only_channel_refl [simp]: "only_channel c mesh mesh"
  by (simp add: only_channel_def)

lemma only_channel_tc [simp]:
  "only_channel c mesh m \<Longrightarrow> only_channel c mesh (m\<lparr>amTexCoords := (amTexCoords m)[unat c := t]\<rparr>)"
  by (simp add: only_channel_def)

lemma only_channel_nc [simp]:
  "only_channel c mesh m \<Longrightarrow>
     only_channel c mesh (m\<lparr>mNumUVComponents := (mNumUVComponents m)[unat c := t]\<rparr>)"
  by (simp add: only_channel_def)

lemma only_channel_tc_nc [simp]:
  "only_channel c mesh m \<Longrightarrow>
     only_channel c mesh (m\<lparr>amTexCoords := (amTexCoords m)[unat c := t],
                             mNumUVComponents := (mNumUVComponents m)[unat c := u]\<rparr>)"
  by (simp add: only_channel_def)

lemma ParseLV3MeshTListBlock_token_channel:
  assumes "ParseLV3MeshTListBlock_token n c m st = Inr (st', m')" "only_channel c mesh m"
  shows "only_channel c mesh m'"
  using assms unfolding ParseLV3MeshTListBlock_token_def
  by (auto elim!: on_token_InrE simp: Let_def vector_set_def vector_get_def
        split: if_splits prod.splits sum.splits)

lemma ParseLV3MeshTListBlock_channel:
  assumes "ParseLV3MeshTListBlock n m c st = Inr (st', m')" "only_channel c mesh m"
  shows "only_channel c mesh m'"
proof -
  from assms(1) obtain tc where
    l: "ParseLV3MeshTListBlock_loop n c 1
          (m\<lparr>amTexCoords := (amTexCoords m)[unat c := resize (unat n) (0, 0, 0) tc]\<rparr>) st =
        Inr (st', m')"
    by (auto simp: ParseLV3MeshTListBlock_def split: sum.splits)
  show ?thesis
    by (rule block_loop_data[where P="only_channel c mesh"
          and F="ParseLV3MeshTListBlock_loop n c" and tok="ParseLV3MeshTListBlock_token n c",
          OF ParseLV3MeshTListBlock_loop.simps ParseLV3MeshTListBlock_token_fwd _ _ l])
       (auto intro: ParseLV3MeshTListBlock_token_channel simp: assms(2))
qed

lemma ParseLV3MappingChannel_token_channel:
  assumes "ParseLV3MappingChannel_token c a st = Inr (st', a')" "only_channel c mesh (fst a)"
  shows "only_channel c mesh (fst a')"
proof -
  obtain m n1 n2 where a: "a = (m, n1, n2)" by (cases a)
  with assms(2) have inv: "only_channel c mesh m" by simp
  from assms(1) show ?thesis
    unfolding ParseLV3MappingChannel_token_def a
    apply (auto elim!: on_token_InrE simp: Let_def inv
          split: if_splits prod.splits sum.splits
          dest!: ParseLV3MeshTFaceListBlock_skip)
    apply (erule ParseLV3MeshTListBlock_channel[OF _ inv])
    done
qed

lemma ParseLV3MappingChannel_channel:
  assumes "ParseLV3MappingChannel c mesh st = Inr (st', mesh')"
  shows "only_channel c mesh mesh'"
proof -
  from assms obtain n1 n2 where
    l: "ParseLV3MappingChannel_loop c 1 (mesh, 0, 0) st = Inr (st', mesh', n1, n2)"
    by (auto simp: ParseLV3MappingChannel_def split: sum.splits)
  have "only_channel c mesh (fst (mesh', n1, n2))"
    by (rule block_loop_data[where P="\<lambda>a. only_channel c mesh (fst a)"
          and F="ParseLV3MappingChannel_loop c" and tok="ParseLV3MappingChannel_token c",
          OF ParseLV3MappingChannel_loop.simps ParseLV3MappingChannel_token_fwd _ _ l])
       (auto intro: ParseLV3MappingChannel_token_channel)
  then show ?thesis by simp
qed

lemma unat_uint_max [simp]: "unat (- 1 :: uint) = 4294967295"
  by (simp add: unsigned_minus_1_eq_mask mask_eq_exp_minus_1)

lemma replicate_4: "replicate 4 x = [x, x, x, x]"
  by (simp add: numeral_eq_Suc)


subsection \<open>The entries of a vertex list\<close>










section \<open>The claims\<close>

text \<open>
  C10. The mesh block has no keyword for a list of normals, and no parser that \<open>Parse\<close>
  reaches writes \<open>mNormals\<close>: in every scene that \<open>Parse\<close> returns, the array of
  vertex normals of every mesh is empty.
\<close>

theorem normals_empty_after_parse:
  "Parse (Parser szFile) = Inr (st, sc) \<Longrightarrow> \<forall>m \<in> set (m_vMeshes sc). mNormals m = []"
  unfolding Parse_def Parser_def
  by (drule block_loop_data[where P="\<lambda>sc. \<forall>m \<in> set (m_vMeshes sc). mNormals m = []",
        OF Parse_loop.simps Parse_token_fwd, rotated 2])
     (auto dest: Parse_token_normals)


theorem normals_empty_after_parse_witness:
  "Parse (Parser ''*GEOMOBJECT *MESH *MESH_NUMVERTEX 1 *X *MESH_VERTEX_LIST *MESH_VERTEX 0 1 2.5 -3 *X } *Y } *Z }'') =
   Inr (\<lparr>m_szFile = [], iLineNumber = 0, warnings = []\<rparr>,
        \<lparr>m_vMeshes = [Mesh\<lparr>mPositions := [(Finite 1, Finite (5 / 2), Finite (- 3))]\<rparr>], m_vMaterials = [],
         m_clrBackground = None, m_clrAmbient = None\<rparr>)
   \<and> mNormals (Mesh\<lparr>mPositions := [(Finite 1, Finite (5 / 2), Finite (- 3))]\<rparr>) = []"
proof -
  have ev: "Parse (Parser ''*GEOMOBJECT *MESH *MESH_NUMVERTEX 1 *X *MESH_VERTEX_LIST *MESH_VERTEX 0 1 2.5 -3 *X } *Y } *Z }'') =
     Inr (\<lparr>m_szFile = [], iLineNumber = 0, warnings = []\<rparr>,
          \<lparr>m_vMeshes = [Mesh\<lparr>mPositions := [(Finite 1, Finite (5 / 2), Finite (- 3))]\<rparr>], m_vMaterials = [],
           m_clrBackground = None, m_clrAmbient = None\<rparr>)"
    apply (simp add: block_defs)
    apply ((simp only: loop_simps cong: weak_congs,
            simp add: eval_defs token_defs block_defs cong: weak_congs split del: if_split)+)
    apply (simp add: Mesh_def)
    done
  from normals_empty_after_parse[OF ev] ev show ?thesis by simp
qed


text \<open>
  C4. The claim: at the end of the input, with the closing brace of a block outstanding,
  every level but the top level and the geometry object throws, in particular the scene
  block and the material list block. The code: the scene block and the material list
  block return, as the geometry object block and \<open>Parse\<close> do (the three blocks of
  level 1 have the same \<open>return\<close> under the same comment); a parse that ends inside an
  open scene block or material list block returns the scene built so far.
\<close>

theorem eof_in_level1_block_counterexample:
  "Parse (Parser ''*SCENE { *SCENE_FILENAME'') =
     Inr (\<lparr>m_szFile = [], iLineNumber = 0, warnings = []\<rparr>,
          \<lparr>m_vMeshes = [], m_vMaterials = [], m_clrBackground = None, m_clrAmbient = None\<rparr>)
   \<and> Parse (Parser ''*MATERIAL_LIST { *MATERIAL_COUNT 1'') =
     Inr (\<lparr>m_szFile = [], iLineNumber = 0, warnings = []\<rparr>,
          \<lparr>m_vMeshes = [], m_vMaterials = [Material], m_clrBackground = None,
           m_clrAmbient = None\<rparr>)"
proof -
  have "Parse (Parser ''*SCENE { *SCENE_FILENAME'') =
     Inr (\<lparr>m_szFile = [], iLineNumber = 0, warnings = []\<rparr>,
          \<lparr>m_vMeshes = [], m_vMaterials = [], m_clrBackground = None, m_clrAmbient = None\<rparr>)"
    apply (simp add: block_defs)
    apply ((simp only: loop_simps cong: weak_congs,
            simp add: eval_defs token_defs block_defs cong: weak_congs split del: if_split)+)
    done
  moreover have "Parse (Parser ''*MATERIAL_LIST { *MATERIAL_COUNT 1'') =
     Inr (\<lparr>m_szFile = [], iLineNumber = 0, warnings = []\<rparr>,
          \<lparr>m_vMeshes = [], m_vMaterials = [Material], m_clrBackground = None,
           m_clrAmbient = None\<rparr>)"
    apply (simp add: block_defs)
    apply ((simp only: loop_simps cong: weak_congs,
            simp add: eval_defs token_defs block_defs cong: weak_congs split del: if_split)+)
    done
  ultimately show ?thesis by simp
qed

text \<open>
  C4, as amended. A block loop runs while the closing brace of its block is outstanding.
  When it finds the cursor at the terminating NUL, every loop of level 2 or deeper throws
  the exception of \<open>LogError\<close> with its own message, and the loops of \<open>Parse\<close>, of the
  scene block, of the material list block and of the geometry object block return what
  they have.
\<close>

theorem end_of_input_policy:
  assumes "peek st = NUL"
  shows "(ParseLV2MaterialBlock_loop d mat_n st =
           Inl (ImportErrorException (iLineNumber st)
                  ''Unable to finish parsing a lv2 material block. Unexpected EOF'')
    \<and> ParseLV3MapBlock_loop d tmap st =
           Inl (ImportErrorException (iLineNumber st)
                  ''Unable to finish parsing a lv3 map block. Unexpected EOF'')
    \<and> ParseLV2NodeTransformBlock_loop d mesh st =
           Inl (ImportErrorException (iLineNumber st)
                  ''Unable to finish parsing a lv2 node transform block. Unexpected EOF'')
    \<and> ParseLV2MeshBlock_loop d mesh_c st =
           Inl (ImportErrorException (iLineNumber st)
                  ''Unable to finish parsing a lv2 mesh block. Unexpected EOF'')
    \<and> ParseLV3MeshVertexListBlock_loop n d mesh st =
           Inl (ImportErrorException (iLineNumber st)
                  ''Unable to finish parsing a lv3 vertex list block. Unexpected EOF'')
    \<and> ParseLV3MeshFaceListBlock_loop n d mesh st =
           Inl (ImportErrorException (iLineNumber st)
                  ''Unable to finish parsing LV3 *MESH_FACE_LIST block. Unexpected EOF'')
    \<and> ParseLV3MeshTListBlock_loop n c d mesh st =
           Inl (ImportErrorException (iLineNumber st)
                  ''Unable to finish parsing LV3 *MESH_VERTEX_LIST block. Unexpected EOF'')
    \<and> ParseLV3MeshTFaceListBlock_loop n c d mesh st =
           Inl (ImportErrorException (iLineNumber st)
                  ''Unable to finish parsing LV3 *MESH_TFACELIST block. Unexpected EOF'')
    \<and> ParseLV3MappingChannel_loop c d mesh_nn st =
           Inl (ImportErrorException (iLineNumber st)
                  ''Unable to finish parsing a LV3 *MESH_MAPPINGCHANNEL block. Unexpected EOF'')
    \<and> ParseLV3MeshCListBlock_loop n d mesh st =
           Inl (ImportErrorException (iLineNumber st)
                  ''Unable to finish parsing LV3 *MESH_CVERTLIST block. Unexpected EOF'')
    \<and> ParseLV3MeshCFaceListBlock_loop n d mesh st =
           Inl (ImportErrorException (iLineNumber st)
                  ''Unable to finish parsing LV3 *MESH_CFACELIST block. Unexpected EOF'')
    \<and> ParseLV3MeshNormalListBlock_loop d mesh st =
           Inl (ImportErrorException (iLineNumber st)
                  ''Unable to parse *MESH_NORMALS Element: Unexpected EOL [#1]'')
    \<and> Parse_loop d sc st = Inr (st, sc)
    \<and> ParseLV1SceneBlock_loop d sc st = Inr (st, sc)
    \<and> ParseLV1MaterialListBlock_loop d sc_n st = Inr (st, sc_n)
    \<and> ParseLV1GeometryObjectBlock_loop d mesh st = Inr (st, mesh))"
  using assms
  by (simp add: eof_material eof_map eof_node eof_mesh eof_vertex eof_face eof_tvert
        eof_tface eof_channel eof_cvert eof_cface eof_normals eof_parse eof_scene
        eof_material_list eof_geometry LogError_def)

theorem end_of_input_policy_witness:
  "peek \<lparr>m_szFile = [], iLineNumber = 7, warnings = []\<rparr> = NUL
   \<and> ParseLV2MeshBlock_loop 1
        (Mesh, \<lparr>iNumVertices = 0, iNumFaces = 0, iNumTVertices = 0, iNumTFaces = 0,
                 iNumCVertices = 0, iNumCFaces = 0\<rparr>)
        \<lparr>m_szFile = [], iLineNumber = 7, warnings = []\<rparr> =
      Inl (ImportErrorException 7 ''Unable to finish parsing a lv2 mesh block. Unexpected EOF'')
   \<and> ParseLV2MaterialBlock_loop 1 (Material, 0)
        \<lparr>m_szFile = [], iLineNumber = 7, warnings = []\<rparr> =
      Inl (ImportErrorException 7 ''Unable to finish parsing a lv2 material block. Unexpected EOF'')
   \<and> ParseLV1SceneBlock_loop 1 (snd (Parser []))
        \<lparr>m_szFile = [], iLineNumber = 7, warnings = []\<rparr> =
      Inr (\<lparr>m_szFile = [], iLineNumber = 7, warnings = []\<rparr>, snd (Parser []))"
proof -
  have h: "peek \<lparr>m_szFile = [], iLineNumber = 7, warnings = []\<rparr> = NUL"
    by (simp add: peek_def peek_str_def)
  from end_of_input_policy[OF h, of 1 "(Material, 0)" _ _
      "(Mesh, \<lparr>iNumVertices = 0, iNumFaces = 0, iNumTVertices = 0, iNumTFaces = 0,
               iNumCVertices = 0, iNumCFaces = 0\<rparr>)" _ _ _ "snd (Parser [])"] h
  show ?thesis by simp
qed


text \<open>
  C8. The face record parser, on the record
  \<open>3: A: 5 B: 7 C: 9 *MESH_SMOOTHING 1,3 *MESH_MTLID 2\<close>, yields the face index 3, the vertex
  indices 5, 7, 9, the smoothing mask 10 (bits 1 and 3) and the material 2. The same indices
  result from the references in the order c, A, b, and a label D is the fatal error [#3].
  In general: three references, each a label out of A, a, B, b, C, c after any blanks, a
  colon, any blanks and a non-empty run of digits, put each value into the slot its label
  names (A 0, B 1, C 2), whatever the order of the labels; and after any number of
  references read, a next character that is no blank and no such label ends the loop over the
  references with the fatal error [#3].
\<close>

theorem face_record:
  "ParseLV4MeshFace
     (st\<lparr>m_szFile := ''3: A: 5 B: 7 C: 9 *MESH_SMOOTHING 1,3 *MESH_MTLID 2''\<rparr>) Face =
   Inr (st\<lparr>m_szFile := []\<rparr>,
        Face\<lparr>iFace := 3, mIndices := (5, 7, 9), iSmoothGroup := 10, iMaterial := 2\<rparr>)
   \<and> ParseLV4MeshFace (st\<lparr>m_szFile := ''3: c: 9 A: 5 b: 7''\<rparr>) Face =
     Inr (st\<lparr>m_szFile := [], iLineNumber := iLineNumber st + 1\<rparr>,
          Face\<lparr>iFace := 3, mIndices := (5, 7, 9)\<rparr>)
   \<and> ParseLV4MeshFace (st\<lparr>m_szFile := ''3: A: 5 D: 7 C: 9''\<rparr>) Face =
     Inl (ImportErrorException (iLineNumber st)
       ''Unable to parse *MESH_FACE Element: Unexpected EOL. A,B or C expected [#3]'')
   \<and> (set [(l1, k1), (l2, k2), (l3, k3)] \<subseteq>
          set [(CHR ''A'', 0), (CHR ''a'', 0), (CHR ''B'', 1), (CHR ''b'', 1),
               (CHR ''C'', 2), (CHR ''c'', 2)] \<and>
        (\<forall>c\<in>set (b1 @ b1' @ b2 @ b2' @ b3 @ b3'). IsSpace c) \<and>
        d1 \<noteq> [] \<and> d2 \<noteq> [] \<and> d3 \<noteq> [] \<and> (\<forall>c\<in>set (d1 @ d2 @ d3). is_digit c) \<and>
        \<not> is_digit (peek_str rest) \<longrightarrow>
        ParseLV4MeshFace_indices 3
          (st\<lparr>m_szFile := b1 @ l1 # CHR '':'' # b1' @ d1 @ b2 @ l2 # CHR '':'' # b2' @ d2
                             @ b3 @ l3 # CHR '':'' # b3' @ d3 @ rest\<rparr>) out =
        Inr (st\<lparr>m_szFile := rest\<rparr>,
             out\<lparr>mIndices := set_index k3 (fst (strtol10_str d3))
                               (set_index k2 (fst (strtol10_str d2))
                                 (set_index k1 (fst (strtol10_str d1)) (mIndices out)))\<rparr>))
   \<and> (x \<notin> set ''AaBbCc'' \<and> \<not> IsSpace x \<and> (\<forall>c\<in>set b. IsSpace c) \<and>
        ParseLV4MeshFace_indices j st out = Inr (st1, out1) \<and> m_szFile st1 = b @ x # xs \<longrightarrow>
        ParseLV4MeshFace_indices (Suc (j + n)) st out =
        Inl (ImportErrorException (iLineNumber st1)
          ''Unable to parse *MESH_FACE Element: Unexpected EOL. A,B or C expected [#3]''))"
proof (intro conjI impI)
  assume a: "set [(l1, k1), (l2, k2), (l3, k3)] \<subseteq>
          set [(CHR ''A'', 0), (CHR ''a'', 0), (CHR ''B'', 1), (CHR ''b'', 1),
               (CHR ''C'', 2), (CHR ''c'', 2)] \<and>
        (\<forall>c\<in>set (b1 @ b1' @ b2 @ b2' @ b3 @ b3'). IsSpace c) \<and>
        d1 \<noteq> [] \<and> d2 \<noteq> [] \<and> d3 \<noteq> [] \<and> (\<forall>c\<in>set (d1 @ d2 @ d3). is_digit c) \<and>
        \<not> is_digit (peek_str rest)"
  then have "(l1, k1) \<in> set [(CHR ''A'', 0), (CHR ''a'', 0), (CHR ''B'', 1), (CHR ''b'', 1),
               (CHR ''C'', 2), (CHR ''c'', 2)]"
    "(l2, k2) \<in> set [(CHR ''A'', 0), (CHR ''a'', 0), (CHR ''B'', 1), (CHR ''b'', 1),
               (CHR ''C'', 2), (CHR ''c'', 2)]"
    "(l3, k3) \<in> set [(CHR ''A'', 0), (CHR ''a'', 0), (CHR ''B'', 1), (CHR ''b'', 1),
               (CHR ''C'', 2), (CHR ''c'', 2)]"
    by simp_all
  note l = this[THEN face_label_Some]
  from a show "ParseLV4MeshFace_indices 3
          (st\<lparr>m_szFile := b1 @ l1 # CHR '':'' # b1' @ d1 @ b2 @ l2 # CHR '':'' # b2' @ d2
                             @ b3 @ l3 # CHR '':'' # b3' @ d3 @ rest\<rparr>) out =
        Inr (st\<lparr>m_szFile := rest\<rparr>,
             out\<lparr>mIndices := set_index k3 (fst (strtol10_str d3))
                               (set_index k2 (fst (strtol10_str d2))
                                 (set_index k1 (fst (strtol10_str d1)) (mIndices out)))\<rparr>)"
    by (intro face_indices_refs[OF l]) blast+
next
  assume a: "x \<notin> set ''AaBbCc'' \<and> \<not> IsSpace x \<and> (\<forall>c\<in>set b. IsSpace c) \<and>
        ParseLV4MeshFace_indices j st out = Inr (st1, out1) \<and> m_szFile st1 = b @ x # xs"
  then have eq: "st1\<lparr>m_szFile := b @ x # xs\<rparr> = st1" by simp
  have "ParseLV4MeshFace_index (st1\<lparr>m_szFile := b @ x # xs\<rparr>) out1 =
        Inl (ImportErrorException (iLineNumber st1)
          ''Unable to parse *MESH_FACE Element: Unexpected EOL. A,B or C expected [#3]'')"
    using a by (intro face_index_unrecognized face_label_None) blast+
  then have "ParseLV4MeshFace_index st1 out1 =
        Inl (ImportErrorException (iLineNumber st1)
          ''Unable to parse *MESH_FACE Element: Unexpected EOL. A,B or C expected [#3]'')"
    by (simp only: eq)
  with a show "ParseLV4MeshFace_indices (Suc (j + n)) st out =
        Inl (ImportErrorException (iLineNumber st1)
          ''Unable to parse *MESH_FACE Element: Unexpected EOL. A,B or C expected [#3]'')"
    by (intro face_indices_fail[of j st out st1 out1]) blast+
qed (rule face_example face_example_permuted face_example_unrecognized)+

theorem face_record_witness:
  "set [(CHR ''c'', 2), (CHR ''A'', 0), (CHR ''b'', 1 :: nat)] \<subseteq>
     set [(CHR ''A'', 0), (CHR ''a'', 0), (CHR ''B'', 1), (CHR ''b'', 1),
          (CHR ''C'', 2), (CHR ''c'', 2)]
   \<and> list_all IsSpace '' ''
   \<and> list_all is_digit ''957''
   \<and> \<not> is_digit (peek_str '' AB: 1'')
   \<and> ParseLV4MeshFace_indices 3
        \<lparr>m_szFile = '' c: 9 A: 5 b: 7 AB: 1'', iLineNumber = 0, warnings = []\<rparr> Face =
      Inr (\<lparr>m_szFile = '' AB: 1'', iLineNumber = 0, warnings = []\<rparr>,
           Face\<lparr>mIndices := (5, 7, 9)\<rparr>)
   \<and> CHR ''D'' \<notin> set ''AaBbCc'' \<and> \<not> IsSpace (CHR ''D'')
   \<and> ParseLV4MeshFace_indices 1
        \<lparr>m_szFile = '' A: 5 D: 7 C: 9'', iLineNumber = 0, warnings = []\<rparr> Face =
      Inr (\<lparr>m_szFile = '' D: 7 C: 9'', iLineNumber = 0, warnings = []\<rparr>,
           Face\<lparr>mIndices := (5, 0, 0)\<rparr>)
   \<and> ParseLV4MeshFace_indices 3
        \<lparr>m_szFile = '' A: 5 D: 7 C: 9'', iLineNumber = 0, warnings = []\<rparr> Face =
      Inl (ImportErrorException 0
        ''Unable to parse *MESH_FACE Element: Unexpected EOL. A,B or C expected [#3]'')"
proof -
  let ?st = "\<lparr>m_szFile = [], iLineNumber = 0, warnings = []\<rparr>"
  have h1: "set [(CHR ''c'', 2), (CHR ''A'', 0), (CHR ''b'', 1 :: nat)] \<subseteq>
     set [(CHR ''A'', 0), (CHR ''a'', 0), (CHR ''B'', 1), (CHR ''b'', 1),
          (CHR ''C'', 2), (CHR ''c'', 2)]"
    by simp
  have h2: "list_all IsSpace '' ''" "\<not> IsSpace (CHR ''D'')" by (simp_all add: IsSpace_def)
  have h3: "list_all is_digit ''957''" "\<not> is_digit (peek_str '' AB: 1'')"
    by (simp_all add: is_digit_def peek_str_def)
  have h4: "CHR ''D'' \<notin> set ''AaBbCc''" by simp
  have h5: "ParseLV4MeshFace_indices 1
        \<lparr>m_szFile = '' A: 5 D: 7 C: 9'', iLineNumber = 0, warnings = []\<rparr> Face =
      Inr (\<lparr>m_szFile = '' D: 7 C: 9'', iLineNumber = 0, warnings = []\<rparr>,
           Face\<lparr>mIndices := (5, 0, 0)\<rparr>)"
    by (simp add: ParseLV4MeshFace_index_def eval_defs Face_def
          cong: weak_congs split del: if_split)
  have v: "fst (strtol10_str ''9'') = 9" "fst (strtol10_str ''5'') = 5"
    "fst (strtol10_str ''7'') = 7"
    by (simp_all add: strtol10_str_def is_digit_def digit_value_def)
  note t = face_record[where st = ?st and out = Face]
  from t[THEN conjunct2, THEN conjunct2, THEN conjunct2, THEN conjunct1, rule_format,
      of "CHR ''c''" 2 "CHR ''A''" 0 "CHR ''b''" 1
         "'' ''" "'' ''" "'' ''" "'' ''" "'' ''" "'' ''" "''9''" "''5''" "''7''" "'' AB: 1''"]
  have r1: "ParseLV4MeshFace_indices 3
        \<lparr>m_szFile = '' c: 9 A: 5 b: 7 AB: 1'', iLineNumber = 0, warnings = []\<rparr> Face =
      Inr (\<lparr>m_szFile = '' AB: 1'', iLineNumber = 0, warnings = []\<rparr>,
           Face\<lparr>mIndices := (5, 7, 9)\<rparr>)"
    using h2 h3 by (simp add: v set_index_def Face_def)
  have p: "CHR ''D'' \<notin> set ''AaBbCc'' \<and> \<not> IsSpace (CHR ''D'') \<and> (\<forall>c\<in>set '' ''. IsSpace c) \<and>
      ParseLV4MeshFace_indices 1
        \<lparr>m_szFile = '' A: 5 D: 7 C: 9'', iLineNumber = 0, warnings = []\<rparr> Face =
      Inr (\<lparr>m_szFile = '' D: 7 C: 9'', iLineNumber = 0, warnings = []\<rparr>,
           Face\<lparr>mIndices := (5, 0, 0)\<rparr>) \<and>
      m_szFile \<lparr>m_szFile = '' D: 7 C: 9'', iLineNumber = 0, warnings = []\<rparr> =
        '' '' @ CHR ''D'' # '': 7 C: 9''"
    using h2 h4 by (intro conjI h5) simp_all
  have three: "Suc (1 + 1) = 3" by simp
  have r2: "ParseLV4MeshFace_indices 3
        \<lparr>m_szFile = '' A: 5 D: 7 C: 9'', iLineNumber = 0, warnings = []\<rparr> Face =
      Inl (ImportErrorException 0
        ''Unable to parse *MESH_FACE Element: Unexpected EOL. A,B or C expected [#3]'')"
    using face_record[THEN conjunct2, THEN conjunct2, THEN conjunct2, THEN conjunct2,
        rule_format, OF p, of 1]
    unfolding three by (simp only: parser.simps)
  from h1 h2 h3 h4 h5 r1 r2 show ?thesis by (intro conjI)
qed


text \<open>
  C3. The handler of \<open>*BITMAP\<close>, with the cursor on any blanks and the opening quotation
  mark: when no quotation mark follows, the scan reads beyond the end of the input and no
  \<open>ImportErrorException\<close> is raised; when the path holds neither a quotation mark nor a
  NUL and a quotation mark follows it, the path is stored as \<open>mMapName\<close>, exactly as
  delimited, and the cursor is left on the closing quotation mark.
\<close>

theorem bitmap_quote_scan:
  "(DQUOTE \<notin> set path \<and> (\<forall>c\<in>set b. IsSpace c) \<longrightarrow>
      BITMAP tmap (st\<lparr>m_szFile := b @ DQUOTE # path\<rparr>) = Inl ReadPastEnd)
   \<and> (DQUOTE \<notin> set path \<and> NUL \<notin> set path \<and> (\<forall>c\<in>set b. IsSpace c) \<longrightarrow>
      BITMAP tmap (st\<lparr>m_szFile := b @ DQUOTE # path @ DQUOTE # rest\<rparr>) =
        Inr (st\<lparr>m_szFile := DQUOTE # rest\<rparr>, tmap\<lparr>mMapName := path\<rparr>))"
proof -
  have q: "\<not> IsSpace DQUOTE" "\<not> IsLineEnd DQUOTE" by (simp_all add: IsSpace_def IsLineEnd_def)
  show ?thesis
    by (auto simp: BITMAP_def SkipSpaces_run[OF _ q(1)] q(2) peek_def peek_str_def advance_def
          scan_closing_quote_none scan_closing_quote_some)
qed

theorem bitmap_quote_scan_witness:
  "DQUOTE \<notin> set ''foo.bmp'' \<and> NUL \<notin> set ''foo.bmp'' \<and> list_all IsSpace '' ''
   \<and> BITMAP Texture \<lparr>m_szFile = '' '' @ DQUOTE # ''foo.bmp'', iLineNumber = 0, warnings = []\<rparr> =
       Inl ReadPastEnd
   \<and> BITMAP Texture
       \<lparr>m_szFile = '' '' @ DQUOTE # ''foo.bmp'' @ DQUOTE # '' }'', iLineNumber = 0, warnings = []\<rparr> =
       Inr (\<lparr>m_szFile = DQUOTE # '' }'', iLineNumber = 0, warnings = []\<rparr>,
            Texture\<lparr>mMapName := ''foo.bmp''\<rparr>)
   \<and> ParseLV3MapBlock Texture
       \<lparr>m_szFile = ''*BITMAP '' @ DQUOTE # ''foo.bmp'', iLineNumber = 0, warnings = []\<rparr> =
       Inl ReadPastEnd
   \<and> Parse (Parser (''*MATERIAL_LIST { *MATERIAL_COUNT 1 *X *MATERIAL 0 { *MAP_DIFFUSE { *BITMAP ''
                      @ DQUOTE # ''foo.bmp'')) = Inl ReadPastEnd"
proof -
  let ?st = "\<lparr>m_szFile = [], iLineNumber = 0, warnings = []\<rparr>"
  have h: "DQUOTE \<notin> set ''foo.bmp''" "NUL \<notin> set ''foo.bmp''" "list_all IsSpace '' ''"
    by (simp_all add: IsSpace_def)
  have e: "ParseLV3MapBlock Texture
       \<lparr>m_szFile = ''*BITMAP '' @ DQUOTE # ''foo.bmp'', iLineNumber = 0, warnings = []\<rparr> =
       Inl ReadPastEnd"
    apply (simp add: block_defs)
    apply ((simp only: loop_simps cong: weak_congs,
            simp add: eval_defs token_defs block_defs cong: weak_congs split del: if_split)+)
    done
  have f: "Parse (Parser (''*MATERIAL_LIST { *MATERIAL_COUNT 1 *X *MATERIAL 0 { *MAP_DIFFUSE { *BITMAP ''
                      @ DQUOTE # ''foo.bmp'')) = Inl ReadPastEnd"
    apply (simp add: block_defs)
    apply ((simp only: loop_simps cong: weak_congs,
            simp add: eval_defs token_defs block_defs cong: weak_congs split del: if_split)+)
    done
  from h e f bitmap_quote_scan[of "''foo.bmp''" "'' ''" Texture ?st "'' }''"]
  show ?thesis by simp
qed


text \<open>
  C2. \<open>*MESH_TFACE\<close> and \<open>*MESH_CFACE\<close> have 11 characters and are compared over 12: no
  entry of a UV face list or of a colour face list is ever read. Whenever one of the two
  block parsers returns, the mesh is the one it was given and no warning has been logged,
  whatever the entries and their indices are.
\<close>

theorem tface_cface_entries_never_read:
  "(ParseLV3MeshTFaceListBlock n mesh c st = Inr (st', mesh') \<longrightarrow>
      mesh' = mesh \<and> warnings st' = warnings st)
   \<and> (ParseLV3MeshCFaceListBlock n mesh st = Inr (st', mesh') \<longrightarrow>
      mesh' = mesh \<and> warnings st' = warnings st)"
  using ParseLV3MeshTFaceListBlock_skip ParseLV3MeshCFaceListBlock_skip by blast

theorem tface_cface_entries_never_read_witness:
  "ParseLV3MeshTFaceListBlock 1 (Mesh\<lparr>mFaces := [Face]\<rparr>) 0
      \<lparr>m_szFile = ''*MESH_TFACE 0 1 2 3 *X *MESH_TFACE 7 1 2 3 }'', iLineNumber = 0, warnings = []\<rparr> =
    Inr (\<lparr>m_szFile = [], iLineNumber = 0, warnings = []\<rparr>, Mesh\<lparr>mFaces := [Face]\<rparr>)
   \<and> ParseLV3MeshCFaceListBlock 1 (Mesh\<lparr>mFaces := [Face]\<rparr>)
      \<lparr>m_szFile = ''*MESH_CFACE 0 1 2 3 *X *MESH_CFACE 7 1 2 3 }'', iLineNumber = 0, warnings = []\<rparr> =
    Inr (\<lparr>m_szFile = [], iLineNumber = 0, warnings = []\<rparr>, Mesh\<lparr>mFaces := [Face]\<rparr>)"
proof -
  have t: "\<exists>s m. ParseLV3MeshTFaceListBlock 1 (Mesh\<lparr>mFaces := [Face]\<rparr>) 0
      \<lparr>m_szFile = ''*MESH_TFACE 0 1 2 3 *X *MESH_TFACE 7 1 2 3 }'', iLineNumber = 0, warnings = []\<rparr> =
    Inr (\<lparr>m_szFile = [], iLineNumber = 0, warnings = s\<rparr>, m)"
    apply (simp add: block_defs)
    apply ((simp only: loop_simps cong: weak_congs,
            simp add: eval_defs token_defs block_defs cong: weak_congs split del: if_split)+)
    done
  have c: "\<exists>s m. ParseLV3MeshCFaceListBlock 1 (Mesh\<lparr>mFaces := [Face]\<rparr>)
      \<lparr>m_szFile = ''*MESH_CFACE 0 1 2 3 *X *MESH_CFACE 7 1 2 3 }'', iLineNumber = 0, warnings = []\<rparr> =
    Inr (\<lparr>m_szFile = [], iLineNumber = 0, warnings = s\<rparr>, m)"
    apply (simp add: block_defs)
    apply ((simp only: loop_simps cong: weak_congs,
            simp add: eval_defs token_defs block_defs cong: weak_congs split del: if_split)+)
    done
  from t c show ?thesis
    using tface_cface_entries_never_read[THEN conjunct1, rule_format]
      tface_cface_entries_never_read[THEN conjunct2, rule_format]
    by fastforce
qed


text \<open>
  C5. The index of \<open>*MATERIAL\<close> and \<open>*SUBMATERIAL\<close> after the clamp: when the count is
  positive and the array has that many elements, the index is below the count and the
  access is inside the array. When the count is 0 the clamp yields \<open>0 - 1\<close>, the largest
  unsigned value: on the empty material array \<open>*MATERIAL\<close> reads outside the array, and
  so does \<open>*SUBMATERIAL\<close>, followed by a blank, on a material without sub-materials.
\<close>

theorem material_index_clamp:
  "(0 < iCount \<and> unat iCount = length v \<longrightarrow>
      snd (clamp_index w iCount st) < iCount \<and>
      vector_get v (snd (clamp_index w iCount st)) = Inr (v ! unat (snd (clamp_index w iCount st))))
   \<and> snd (clamp_index w 0 st) = - 1
   \<and> (m_vMaterials sc = [] \<longrightarrow> MATERIAL sc 0 st = Inl IndexOutOfRange)
   \<and> (IsSpaceOrNewLine c \<and> c \<noteq> NUL \<and> m_szFile st = ''*SUBMATERIAL'' @ c # rest \<and>
        avSubMaterials mat = [] \<longrightarrow>
        ParseLV2MaterialBlock_loop d (mat, 0) st = Inl IndexOutOfRange)"
proof (intro conjI impI)
  assume a: "0 < iCount \<and> unat iCount = length v"
  then show "snd (clamp_index w iCount st) < iCount" by (simp add: clamp_index_in_range)
  with a show "vector_get v (snd (clamp_index w iCount st)) =
      Inr (v ! unat (snd (clamp_index w iCount st)))"
    by (simp add: vector_get_def word_less_nat_alt)
next
  show "snd (clamp_index w 0 st) = - 1" by (rule clamp_index_zero)
next
  assume "m_vMaterials sc = []"
  then show "MATERIAL sc 0 st = Inl IndexOutOfRange" by (rule MATERIAL_empty)
next
  assume "IsSpaceOrNewLine c \<and> c \<noteq> NUL \<and> m_szFile st = ''*SUBMATERIAL'' @ c # rest \<and>
        avSubMaterials mat = []"
  then show "ParseLV2MaterialBlock_loop d (mat, 0) st = Inl IndexOutOfRange"
    by (intro SUBMATERIAL_empty[of c st rest mat]) blast+
qed

theorem material_index_clamp_witness:
  "snd (clamp_index ''Out of range: material index is too large'' 2
         \<lparr>m_szFile = ''5 *X'', iLineNumber = 0, warnings = []\<rparr>) < 2
   \<and> vector_get [Material, Material]
         (snd (clamp_index ''Out of range: material index is too large'' 2
            \<lparr>m_szFile = ''5 *X'', iLineNumber = 0, warnings = []\<rparr>)) = Inr Material
   \<and> MATERIAL (snd (Parser [])) 0 \<lparr>m_szFile = ''0 { } }'', iLineNumber = 0, warnings = []\<rparr> =
       Inl IndexOutOfRange
   \<and> ParseLV2MaterialBlock_loop 1 (Material, 0)
        \<lparr>m_szFile = ''*SUBMATERIAL 0 { } }'', iLineNumber = 0, warnings = []\<rparr> =
       Inl IndexOutOfRange
   \<and> Parse (Parser ''*MATERIAL_LIST { *MATERIAL 0 { } }'') = Inl IndexOutOfRange
   \<and> Parse (Parser ''*MATERIAL_LIST { *MATERIAL_COUNT 1 *X *MATERIAL 0 { *SUBMATERIAL 0 { } } }'') =
       Inl IndexOutOfRange"
proof -
  let ?st = "\<lparr>m_szFile = ''5 *X'', iLineNumber = 0, warnings = []\<rparr>"
  let ?w = "''Out of range: material index is too large''"
  have i: "snd (clamp_index ?w 2 ?st) = 1"
    by (simp add: eval_defs cong: weak_congs split del: if_split)
  have a: "0 < (2 :: uint) \<and> unat (2 :: uint) = length [Material, Material]" by simp
  from material_index_clamp[THEN conjunct1, rule_format, OF a, of ?w ?st]
  have 1: "snd (clamp_index ?w 2 ?st) < 2"
    "vector_get [Material, Material] (snd (clamp_index ?w 2 ?st)) = Inr Material"
    by (simp_all add: i)
  have b: "m_vMaterials (snd (Parser [])) = []" by (simp add: Parser_def)
  note 2 = material_index_clamp[THEN conjunct2, THEN conjunct2, THEN conjunct1, rule_format, OF b,
      of "\<lparr>m_szFile = ''0 { } }'', iLineNumber = 0, warnings = []\<rparr>"]
  have c: "IsSpaceOrNewLine (CHR '' '') \<and> CHR '' '' \<noteq> NUL \<and>
      m_szFile \<lparr>m_szFile = ''*SUBMATERIAL 0 { } }'', iLineNumber = 0, warnings = []\<rparr> =
        ''*SUBMATERIAL'' @ CHR '' '' # ''0 { } }'' \<and> avSubMaterials Material = []"
    by (simp add: IsSpaceOrNewLine_def IsSpace_def Material_def)
  note 3 = material_index_clamp[THEN conjunct2, THEN conjunct2, THEN conjunct2, rule_format, OF c,
      of 1]
  have 4: "Parse (Parser ''*MATERIAL_LIST { *MATERIAL 0 { } }'') = Inl IndexOutOfRange"
    apply (simp add: block_defs)
    apply ((simp only: loop_simps cong: weak_congs,
            simp add: eval_defs token_defs block_defs cong: weak_congs split del: if_split)+)
    done
  have 5: "Parse (Parser ''*MATERIAL_LIST { *MATERIAL_COUNT 1 *X *MATERIAL 0 { *SUBMATERIAL 0 { } } }'') =
       Inl IndexOutOfRange"
    apply (simp add: block_defs)
    apply ((simp only: loop_simps cong: weak_congs,
            simp add: eval_defs token_defs block_defs Material_def
              cong: weak_congs split del: if_split)+)
    done
  from 1 2 3 4 5 show ?thesis by (intro conjI)
qed





text \<open>
  C1. The branch of \<open>*MESH_MAPPINGCHANNEL\<close> after the index has been parsed. For an
  index below 2 the warning is logged and the section skipped, and the mapping channel
  parser is then entered all the same, with the channel \<open>index - 1\<close>, on the text that
  follows the skipped section: the \<open>if\<close> for the small index has no \<open>else\<close> before
  the \<open>if\<close> for the large one. For an index from 2 to the maximum the mapping channel
  parser is entered with the channel \<open>index - 1\<close>, and for a larger index the section is
  skipped with a warning and the mesh is returned as it is. The mapping channel parser for
  the channel \<open>c\<close> changes nothing of the mesh but the element \<open>c\<close> of
  \<open>amTexCoords\<close> and of \<open>mNumUVComponents\<close>.
\<close>

theorem mapping_channel_index_policy:
  assumes "ParseLV4MeshLong st = (st1, iIndex)"
  shows
  "(iIndex < 2 \<longrightarrow>
      MESH_MAPPINGCHANNEL mesh st =
        ParseLV3MappingChannel (iIndex - 1) mesh
          (snd (SkipOpeningBracket (snd (SkipSection (snd (SkipOpeningBracket
             (LogWarning ''Mapping channel has an invalid index. Skipping UV channel'' st1))))))))
   \<and> (2 \<le> iIndex \<and> iIndex \<le> AI_MAX_NUMBER_OF_TEXTURECOORDS \<longrightarrow>
      MESH_MAPPINGCHANNEL mesh st =
        ParseLV3MappingChannel (iIndex - 1) mesh (snd (SkipOpeningBracket st1)))
   \<and> (AI_MAX_NUMBER_OF_TEXTURECOORDS < iIndex \<longrightarrow>
      MESH_MAPPINGCHANNEL mesh st =
        Inr (snd (SkipSection (snd (SkipOpeningBracket
               (LogWarning ''Too many UV channels specified. Skipping channel ..'' st1)))), mesh))
   \<and> (ParseLV3MappingChannel c mesh st = Inr (st', mesh') \<longrightarrow>
        mesh'\<lparr>amTexCoords := [], mNumUVComponents := []\<rparr> =
          mesh\<lparr>amTexCoords := [], mNumUVComponents := []\<rparr> \<and>
        length (amTexCoords mesh') = length (amTexCoords mesh) \<and>
        length (mNumUVComponents mesh') = length (mNumUVComponents mesh) \<and>
        (\<forall>k. k \<noteq> unat c \<longrightarrow> amTexCoords mesh' ! k = amTexCoords mesh ! k \<and>
                              mNumUVComponents mesh' ! k = mNumUVComponents mesh ! k))"
proof -
  have max: "AI_MAX_NUMBER_OF_TEXTURECOORDS = 4" by (simp add: AI_MAX_NUMBER_OF_TEXTURECOORDS_def)
  have lt: "iIndex < 2 \<Longrightarrow> \<not> 4 < iIndex"
    by (simp add: word_less_nat_alt)
  have ge: "2 \<le> iIndex \<Longrightarrow> \<not> iIndex < 2" by simp
  have gt: "4 < iIndex \<Longrightarrow> \<not> iIndex < 2"
    by (simp add: word_less_nat_alt)
  show ?thesis
    using ParseLV3MappingChannel_channel[of c mesh st st' mesh']
    by (auto simp: MESH_MAPPINGCHANNEL_def assms max Let_def only_channel_def lt ge gt)
qed

theorem mapping_channel_index_policy_witness:
  "ParseLV4MeshLong \<lparr>m_szFile = '' 1 { *X } *MESH_NUMTVERTEX 1 *X *MESH_TVERTLIST { *MESH_TVERT 0 0.5 0.25 0 *X } *Y } *Z'', iLineNumber = 0, warnings = []\<rparr> =
     (\<lparr>m_szFile = ''*X } *MESH_NUMTVERTEX 1 *X *MESH_TVERTLIST { *MESH_TVERT 0 0.5 0.25 0 *X } *Y } *Z'', iLineNumber = 0, warnings = []\<rparr>, 1)
   \<and> (1 :: uint) < 2
   \<and> ParseLV3MappingChannel (1 - 1) Mesh
         (snd (SkipOpeningBracket (snd (SkipSection (snd (SkipOpeningBracket
            (LogWarning ''Mapping channel has an invalid index. Skipping UV channel''
               \<lparr>m_szFile = ''*X } *MESH_NUMTVERTEX 1 *X *MESH_TVERTLIST { *MESH_TVERT 0 0.5 0.25 0 *X } *Y } *Z'', iLineNumber = 0, warnings = []\<rparr>))))))) =
       Inr (\<lparr>m_szFile = ''*Z'', iLineNumber = 0, warnings = [(0, ''Mapping channel has an invalid index. Skipping UV channel''),
             (0, ''Unable to parse block: Unexpected character, '{' expected [#1]''),
             (0, ''Unable to parse block: Unexpected character, '{' expected [#1]'')]\<rparr>,
            Mesh\<lparr>amTexCoords := [[(Finite (1 / 2), Finite (1 / 4), Finite 0)], [], [], []]\<rparr>)
   \<and> MESH_MAPPINGCHANNEL Mesh \<lparr>m_szFile = '' 1 { *X } *MESH_NUMTVERTEX 1 *X *MESH_TVERTLIST { *MESH_TVERT 0 0.5 0.25 0 *X } *Y } *Z'', iLineNumber = 0, warnings = []\<rparr> =
       Inr (\<lparr>m_szFile = ''*Z'', iLineNumber = 0, warnings = [(0, ''Mapping channel has an invalid index. Skipping UV channel''),
             (0, ''Unable to parse block: Unexpected character, '{' expected [#1]''),
             (0, ''Unable to parse block: Unexpected character, '{' expected [#1]'')]\<rparr>,
            Mesh\<lparr>amTexCoords := [[(Finite (1 / 2), Finite (1 / 4), Finite 0)], [], [], []]\<rparr>)
   \<and> MESH_MAPPINGCHANNEL Mesh \<lparr>m_szFile = '' 0 { *X } *MESH_NUMTVERTEX 1 *X *MESH_TVERTLIST { *MESH_TVERT 0 0.5 0.25 0 *X } *Y } *Z'', iLineNumber = 0, warnings = []\<rparr> = Inl IndexOutOfRange
   \<and> Parse (Parser ''*GEOMOBJECT *MESH *MESH_MAPPINGCHANNEL 1 { *X } *MESH_NUMTVERTEX 1 *X *MESH_TVERTLIST { *MESH_TVERT 0 0.5 0.25 0 *X } *Y } *Z } *W }'') =
       Inr (\<lparr>m_szFile = [], iLineNumber = 0, warnings = [(0, ''Mapping channel has an invalid index. Skipping UV channel''),
             (0, ''Unable to parse block: Unexpected character, '{' expected [#1]''),
             (0, ''Unable to parse block: Unexpected character, '{' expected [#1]'')]\<rparr>,
            \<lparr>m_vMeshes = [Mesh\<lparr>amTexCoords := [[(Finite (1 / 2), Finite (1 / 4), Finite 0)], [], [], []]\<rparr>], m_vMaterials = [],
               m_clrBackground = None, m_clrAmbient = None\<rparr>)"
proof -
  have p: "ParseLV4MeshLong \<lparr>m_szFile = '' 1 { *X } *MESH_NUMTVERTEX 1 *X *MESH_TVERTLIST { *MESH_TVERT 0 0.5 0.25 0 *X } *Y } *Z'', iLineNumber = 0, warnings = []\<rparr> =
     (\<lparr>m_szFile = ''*X } *MESH_NUMTVERTEX 1 *X *MESH_TVERTLIST { *MESH_TVERT 0 0.5 0.25 0 *X } *Y } *Z'', iLineNumber = 0, warnings = []\<rparr>, 1)"
    by (simp add: eval_defs cong: weak_congs split del: if_split)
  have l: "(1 :: uint) < 2" by simp
  have r1: "MESH_MAPPINGCHANNEL Mesh \<lparr>m_szFile = '' 1 { *X } *MESH_NUMTVERTEX 1 *X *MESH_TVERTLIST { *MESH_TVERT 0 0.5 0.25 0 *X } *Y } *Z'', iLineNumber = 0, warnings = []\<rparr> =
       Inr (\<lparr>m_szFile = ''*Z'', iLineNumber = 0, warnings = [(0, ''Mapping channel has an invalid index. Skipping UV channel''),
             (0, ''Unable to parse block: Unexpected character, '{' expected [#1]''),
             (0, ''Unable to parse block: Unexpected character, '{' expected [#1]'')]\<rparr>,
            Mesh\<lparr>amTexCoords := [[(Finite (1 / 2), Finite (1 / 4), Finite 0)], [], [], []]\<rparr>)"
    apply (simp add: token_defs eval_defs block_defs cong: weak_congs split del: if_split)
    apply ((simp only: loop_simps cong: weak_congs,
            simp add: eval_defs token_defs block_defs Mesh_def AI_MAX_NUMBER_OF_TEXTURECOORDS_def
              replicate_4 cong: weak_congs split del: if_split)+)
    done
  have e: "ParseLV3MappingChannel (1 - 1) Mesh
         (snd (SkipOpeningBracket (snd (SkipSection (snd (SkipOpeningBracket
            (LogWarning ''Mapping channel has an invalid index. Skipping UV channel''
               \<lparr>m_szFile = ''*X } *MESH_NUMTVERTEX 1 *X *MESH_TVERTLIST { *MESH_TVERT 0 0.5 0.25 0 *X } *Y } *Z'', iLineNumber = 0, warnings = []\<rparr>))))))) =
       Inr (\<lparr>m_szFile = ''*Z'', iLineNumber = 0, warnings = [(0, ''Mapping channel has an invalid index. Skipping UV channel''),
             (0, ''Unable to parse block: Unexpected character, '{' expected [#1]''),
             (0, ''Unable to parse block: Unexpected character, '{' expected [#1]'')]\<rparr>,
            Mesh\<lparr>amTexCoords := [[(Finite (1 / 2), Finite (1 / 4), Finite 0)], [], [], []]\<rparr>)"
    using r1
    by (simp only: mapping_channel_index_policy[OF p, THEN conjunct1, rule_format, OF l])
  have r0: "MESH_MAPPINGCHANNEL Mesh \<lparr>m_szFile = '' 0 { *X } *MESH_NUMTVERTEX 1 *X *MESH_TVERTLIST { *MESH_TVERT 0 0.5 0.25 0 *X } *Y } *Z'', iLineNumber = 0, warnings = []\<rparr> = Inl IndexOutOfRange"
    apply (simp add: token_defs eval_defs block_defs cong: weak_congs split del: if_split)
    apply ((simp only: loop_simps cong: weak_congs,
            simp add: eval_defs token_defs block_defs Mesh_def AI_MAX_NUMBER_OF_TEXTURECOORDS_def
              replicate_4 cong: weak_congs split del: if_split)+)
    done
  have f: "Parse (Parser ''*GEOMOBJECT *MESH *MESH_MAPPINGCHANNEL 1 { *X } *MESH_NUMTVERTEX 1 *X *MESH_TVERTLIST { *MESH_TVERT 0 0.5 0.25 0 *X } *Y } *Z } *W }'') =
       Inr (\<lparr>m_szFile = [], iLineNumber = 0, warnings = [(0, ''Mapping channel has an invalid index. Skipping UV channel''),
             (0, ''Unable to parse block: Unexpected character, '{' expected [#1]''),
             (0, ''Unable to parse block: Unexpected character, '{' expected [#1]'')]\<rparr>,
            \<lparr>m_vMeshes = [Mesh\<lparr>amTexCoords := [[(Finite (1 / 2), Finite (1 / 4), Finite 0)], [], [], []]\<rparr>], m_vMaterials = [],
               m_clrBackground = None, m_clrAmbient = None\<rparr>)"
    apply (simp add: block_defs)
    apply ((simp only: loop_simps cong: weak_congs,
            simp add: eval_defs token_defs block_defs Mesh_def AI_MAX_NUMBER_OF_TEXTURECOORDS_def
              replicate_4 cong: weak_congs split del: if_split)+)
    done
  from p l e r1 r0 f show ?thesis by (intro conjI)
qed





end
